theory Spec2Isabelle
  imports Complex_Main
begin

section \<open>Python values\<close>

text \<open>
  The handlers of \<^verbatim>\<open>main.py\<close> work on parsed JSON and on the documents of the
  transaction store. A Python float is a finite rational, an infinity or NaN (the sign
  of zero is not tracked). A dictionary is an association list read with \<open>map_of\<close>.
  A string is a list of characters with code points below 256.
\<close>

datatype pyfloat = Fin rat | PosInf | NegInf | NaN

datatype pyval =
    PNone
  | PBool bool
  | PInt int
  | PFloat pyfloat
  | PStr string
  | PList "pyval list"
  | PDict "(string \<times> pyval) list"
  | PTimestamp nat

datatype py_error =
    JSONDecodeError | AttributeError | KeyError | TypeError | ValueError
  | OverflowError | NotFound

datatype exc =
    HTTPException nat string
  | RequestException string
  | PyError py_error

text \<open>
  Library functions the source calls and this development does not define: the rounding
  of a big integer to a double, the parsing of a float literal, \<open>repr\<close> of floats,
  containers and timestamps, the text of a built-in exception, and base64.
\<close>

record builtins =
  float_of_big_int :: "int \<Rightarrow> py_error + pyfloat"
  float_of_str :: "string \<Rightarrow> py_error + pyfloat"
  repr_other :: "pyval \<Rightarrow> string"
  error_text :: "py_error \<Rightarrow> string"
  b64encode :: "string \<Rightarrow> string"

definition digit_char :: "nat \<Rightarrow> char" where
  "digit_char n = ''0123456789'' ! n"

function str_nat :: "nat \<Rightarrow> string" where
  "str_nat n = (if n < 10 then [digit_char n] else str_nat (n div 10) @ [digit_char (n mod 10)])"
  by pat_completeness auto
termination
  by (relation "measure id") auto

declare str_nat.simps [simp del]

definition str_int :: "int \<Rightarrow> string" where
  "str_int i = (if i < 0 then CHR ''-'' # str_nat (nat (- i)) else str_nat (nat i))"

text \<open>\<^verbatim>\<open>str(v)\<close>.\<close>

definition py_str :: "builtins \<Rightarrow> pyval \<Rightarrow> string" where
  "py_str B v =
     (case v of
        PNone \<Rightarrow> ''None''
      | PBool b \<Rightarrow> (if b then ''True'' else ''False'')
      | PInt i \<Rightarrow> str_int i
      | PStr s \<Rightarrow> s
      | _ \<Rightarrow> repr_other B v)"

text \<open>\<^verbatim>\<open>str(e)\<close> of an exception; an HTTPException prints its status code and detail.\<close>

definition str_exc :: "builtins \<Rightarrow> exc \<Rightarrow> string" where
  "str_exc B e =
     (case e of
        HTTPException code detail \<Rightarrow> str_nat code @ '': '' @ detail
      | RequestException m \<Rightarrow> m
      | PyError k \<Rightarrow> error_text B k)"

text \<open>Truth value of a Python object, as \<^verbatim>\<open>not x\<close> and \<^verbatim>\<open>if x\<close> read it.\<close>

definition truthy :: "pyval \<Rightarrow> bool" where
  "truthy v =
     (case v of
        PNone \<Rightarrow> False
      | PBool b \<Rightarrow> b
      | PInt i \<Rightarrow> i \<noteq> 0
      | PFloat f \<Rightarrow> f \<noteq> Fin 0
      | PStr s \<Rightarrow> s \<noteq> []
      | PList xs \<Rightarrow> xs \<noteq> []
      | PDict kvs \<Rightarrow> kvs \<noteq> []
      | PTimestamp t \<Rightarrow> True)"

text \<open>\<^verbatim>\<open>v == n\<close> for an integer literal \<open>n\<close>: numbers compare by value, a bool is 0 or 1.\<close>

definition py_eq_int :: "pyval \<Rightarrow> int \<Rightarrow> bool" where
  "py_eq_int v n =
     (case v of
        PInt i \<Rightarrow> i = n
      | PBool b \<Rightarrow> (if b then 1 else 0) = n
      | PFloat f \<Rightarrow> f = Fin (of_int n)
      | _ \<Rightarrow> False)"

text \<open>\<^verbatim>\<open>v == s\<close> for a string literal \<open>s\<close>.\<close>

definition py_eq_str :: "pyval \<Rightarrow> string \<Rightarrow> bool" where
  "py_eq_str v s = (case v of PStr t \<Rightarrow> t = s | _ \<Rightarrow> False)"

text \<open>\<^verbatim>\<open>d.get(k, default)\<close>: only a dictionary has the method.\<close>

definition py_get :: "pyval \<Rightarrow> string \<Rightarrow> pyval \<Rightarrow> exc + pyval" where
  "py_get d k dflt =
     (case d of
        PDict kvs \<Rightarrow> Inr (case map_of kvs k of None \<Rightarrow> dflt | Some v \<Rightarrow> v)
      | _ \<Rightarrow> Inl (PyError AttributeError))"

text \<open>\<^verbatim>\<open>d[k]\<close> with a string key.\<close>

definition py_getitem :: "pyval \<Rightarrow> string \<Rightarrow> exc + pyval" where
  "py_getitem d k =
     (case d of
        PDict kvs \<Rightarrow> (case map_of kvs k of None \<Rightarrow> Inl (PyError KeyError) | Some v \<Rightarrow> Inr v)
      | _ \<Rightarrow> Inl (PyError TypeError))"

text \<open>The elements a \<^verbatim>\<open>for\<close> loop visits.\<close>

definition py_iter :: "pyval \<Rightarrow> exc + pyval list" where
  "py_iter v =
     (case v of
        PList xs \<Rightarrow> Inr xs
      | PDict kvs \<Rightarrow> Inr (map PStr (remdups (map fst kvs)))
      | PStr s \<Rightarrow> Inr (map (\<lambda>c. PStr [c]) s)
      | _ \<Rightarrow> Inl (PyError TypeError))"

definition trunc_rat :: "rat \<Rightarrow> int" where
  "trunc_rat q = (if 0 \<le> q then \<lfloor>q\<rfloor> else \<lceil>q\<rceil>)"

text \<open>\<^verbatim>\<open>int(f)\<close> of a float: truncation towards zero.\<close>

definition py_int_of_float :: "pyfloat \<Rightarrow> exc + int" where
  "py_int_of_float f =
     (case f of
        Fin q \<Rightarrow> Inr (trunc_rat q)
      | NaN \<Rightarrow> Inl (PyError ValueError)
      | _ \<Rightarrow> Inl (PyError OverflowError))"

text \<open>\<^verbatim>\<open>float(v)\<close>: an integer up to \<open>2 ^ 53\<close> is exact.\<close>

definition lift_err :: "py_error + 'a \<Rightarrow> exc + 'a" where
  "lift_err r = (case r of Inl k \<Rightarrow> Inl (PyError k) | Inr x \<Rightarrow> Inr x)"

definition py_float :: "builtins \<Rightarrow> pyval \<Rightarrow> exc + pyfloat" where
  "py_float B v =
     (case v of
        PFloat f \<Rightarrow> Inr f
      | PInt i \<Rightarrow> (if \<bar>i\<bar> \<le> 2 ^ 53 then Inr (Fin (of_int i)) else lift_err (float_of_big_int B i))
      | PBool b \<Rightarrow> Inr (Fin (if b then 1 else 0))
      | PStr s \<Rightarrow> lift_err (float_of_str B s)
      | _ \<Rightarrow> Inl (PyError TypeError))"

section \<open>What the document store encodes\<close>

text \<open>
  Before it writes, the store's client encodes every value and builds the path of every
  field. An integer has to fit 64 bits, wherever it sits; the name of a field has to be
  non-empty, at the top of a value and inside dictionaries nested in dictionaries (the
  values inside a list are encoded without a look at their field names). A dictionary
  holds the first binding of each key of its association list.
\<close>

fun first_bindings :: "'k list \<Rightarrow> ('k \<times> bool) list \<Rightarrow> bool" where
  "first_bindings seen [] = True"
| "first_bindings seen ((k, b) # kvs) = ((k \<in> set seen \<or> b) \<and> first_bindings (k # seen) kvs)"

primrec encodable :: "pyval \<Rightarrow> bool" where
  "encodable PNone = True"
| "encodable (PBool b) = True"
| "encodable (PInt i) = (- (2 ^ 63) \<le> i \<and> i < 2 ^ 63)"
| "encodable (PFloat f) = True"
| "encodable (PStr s) = True"
| "encodable (PList xs) = list_all id (map encodable xs)"
| "encodable (PDict kvs) = first_bindings [] (map (map_prod id encodable) kvs)"
| "encodable (PTimestamp t) = True"

primrec storable :: "pyval \<Rightarrow> bool" where
  "storable PNone = True"
| "storable (PBool b) = True"
| "storable (PInt i) = (- (2 ^ 63) \<le> i \<and> i < 2 ^ 63)"
| "storable (PFloat f) = True"
| "storable (PStr s) = True"
| "storable (PList xs) = list_all encodable xs"
| "storable (PDict kvs) =
     first_bindings [] (map (\<lambda>(k, b). (k, k \<noteq> [] \<and> b)) (map (map_prod id storable) kvs))"
| "storable (PTimestamp t) = True"

section \<open>Phone numbers\<close>

text \<open>
  \<^verbatim>\<open>str.isdigit\<close> on one character: the ASCII digits and the superscripts 2, 3 and 1.
  Those are the characters below 256 that it accepts; the digits of other scripts, which
  it accepts as well, lie outside the strings of this development.
\<close>

definition isdigit :: "char \<Rightarrow> bool" where
  "isdigit c =
     (let n = (of_char c :: nat)
      in (48 \<le> n \<and> n \<le> 57) \<or> n = 178 \<or> n = 179 \<or> n = 185)"

definition startswith :: "string \<Rightarrow> string \<Rightarrow> bool" where
  "startswith s p = (take (length p) s = p)"

definition format_phone_number :: "string \<Rightarrow> string" where
  "format_phone_number phone_number =
     (let phone_number = filter isdigit phone_number
      in if startswith phone_number ''0'' then ''254'' @ drop 1 phone_number
         else if \<not> startswith phone_number ''254'' then ''254'' @ phone_number
         else phone_number)"

section \<open>Configuration, gateway and store\<close>

text \<open>The module-level settings read from the process environment.\<close>

record config =
  CONSUMER_KEY :: "string option"
  CONSUMER_SECRET :: "string option"
  BUSINESS_SHORT_CODE :: string
  PASS_KEY :: "string option"
  CALLBACK_URL :: "string option"
  BASE_URL :: string

definition TRANSACTION_TYPE :: string where
  "TRANSACTION_TYPE = ''CustomerBuyGoodsOnline''"

definition ACCOUNT_REFERENCE :: string where
  "ACCOUNT_REFERENCE = ''CompanyXYZ''"

definition TRANSACTION_DESC :: string where
  "TRANSACTION_DESC = ''Payment for services''"

definition PARTY_B :: string where
  "PARTY_B = ''4986750''"

definition AUTH_URL :: "config \<Rightarrow> string" where
  "AUTH_URL C = BASE_URL C @ ''/oauth/v1/generate?grant_type=client_credentials''"

definition STK_PUSH_URL :: "config \<Rightarrow> string" where
  "STK_PUSH_URL C = BASE_URL C @ ''/mpesa/stkpush/v1/processrequest''"

definition QUERY_URL :: "config \<Rightarrow> string" where
  "QUERY_URL C = BASE_URL C @ ''/mpesa/stkpushquery/v1/query''"

text \<open>
  What one request finds outside the process: the clock, the answers of the payment
  gateway (\<open>Inl m\<close> is a \<^verbatim>\<open>RequestException\<close> with text \<open>m\<close>, raised by the call, by
  \<^verbatim>\<open>raise_for_status\<close> or by \<^verbatim>\<open>response.json()\<close>; \<open>Inr v\<close> is the decoded body),
  the value the store writes for \<^verbatim>\<open>SERVER_TIMESTAMP\<close> and the identifier the store
  generates for \<^verbatim>\<open>document(None)\<close>.
\<close>

type_synonym headers = "(string \<times> string) list"

record outside =
  now :: string
  requests_get :: "string \<Rightarrow> headers \<Rightarrow> string + pyval"
  requests_post :: "string \<Rightarrow> pyval \<Rightarrow> headers \<Rightarrow> string + pyval"
  SERVER_TIMESTAMP :: pyval
  auto_id :: string

text \<open>
  The state the handlers change: the collection \<^verbatim>\<open>mpesa_transactions\<close> of the document
  store, a map from document identifier to document, and the calls sent to the gateway.
\<close>

type_synonym document = "string \<rightharpoonup> pyval"

datatype call = Get string headers | Post string pyval headers

record world =
  store :: "string \<rightharpoonup> document"
  calls :: "call list"

text \<open>\<^verbatim>\<open>requests.get\<close> and \<^verbatim>\<open>requests.post\<close> with the decoding of the answer; the call is recorded.\<close>

definition get_w :: "outside \<Rightarrow> world \<Rightarrow> string \<Rightarrow> headers \<Rightarrow> (exc + pyval) \<times> world" where
  "get_w X w url hs =
     (case requests_get X url hs of
        Inl m \<Rightarrow> (Inl (RequestException m), w\<lparr>calls := calls w @ [Get url hs]\<rparr>)
      | Inr v \<Rightarrow> (Inr v, w\<lparr>calls := calls w @ [Get url hs]\<rparr>))"

definition post_w :: "outside \<Rightarrow> world \<Rightarrow> string \<Rightarrow> pyval \<Rightarrow> headers \<Rightarrow> (exc + pyval) \<times> world" where
  "post_w X w url payload hs =
     (case requests_post X url payload hs of
        Inl m \<Rightarrow> (Inl (RequestException m), w\<lparr>calls := calls w @ [Post url payload hs]\<rparr>)
      | Inr v \<Rightarrow> (Inr v, w\<lparr>calls := calls w @ [Post url payload hs]\<rparr>))"

text \<open>
  \<^verbatim>\<open>db.collection('mpesa_transactions').document(id)\<close>: \<^verbatim>\<open>None\<close> asks for a generated
  identifier; any other value that is not a string is refused, and so is a string that,
  split at its slashes, does not give an odd number of segments (the path of a document
  has an even number of elements, the collection being the first). No handler looks at
  the kind of the exception. The store is taken at the interface of its client: documents
  under string identifiers, the client's own refusals included, the server's limits on
  sizes and names left out.
\<close>

definition valid_document_id :: "string \<Rightarrow> bool" where
  "valid_document_id s = even (length (filter (\<lambda>c. c = CHR ''/'') s))"

definition document_ref :: "outside \<Rightarrow> pyval \<Rightarrow> exc + string" where
  "document_ref X v =
     (case v of
        PNone \<Rightarrow> Inr (auto_id X)
      | PStr s \<Rightarrow> if valid_document_id s then Inr s else Inl (PyError ValueError)
      | _ \<Rightarrow> Inl (PyError TypeError))"

text \<open>
  The fields the handlers write, the three server timestamps apart (those are sentinels
  the client always accepts), and the test that the client can encode what a write holds
  under them.
\<close>

definition written_fields :: "string list" where
  "written_fields =
     [''phone_number'', ''amount'', ''checkout_request_id'', ''status'',
      ''merchant_request_id'', ''account_reference'', ''transaction_desc'',
      ''result_code'', ''result_description'', ''callback_received'', ''raw_callback'',
      ''confirmed_amount'', ''mpesa_receipt_number'', ''transaction_date'',
      ''confirmed_phone_number'', ''query_result_code'', ''query_result_description'']"

definition document_writable :: "document \<Rightarrow> bool" where
  "document_writable d =
     list_all (\<lambda>k. case d k of None \<Rightarrow> True | Some v \<Rightarrow> storable v) written_fields"

text \<open>\<^verbatim>\<open>ref.set(data)\<close> writes the document whole, once the client has encoded it.\<close>

definition document_set :: "world \<Rightarrow> string \<Rightarrow> document \<Rightarrow> exc + world" where
  "document_set w k d =
     (if \<not> document_writable d then Inl (PyError ValueError)
      else Inr (w\<lparr>store := (store w)(k \<mapsto> d)\<rparr>))"

text \<open>
  \<^verbatim>\<open>ref.update(fields)\<close> encodes the fields, then merges them into a document that
  exists and fails otherwise.
\<close>

definition document_update :: "world \<Rightarrow> string \<Rightarrow> document \<Rightarrow> exc + world" where
  "document_update w k u =
     (if \<not> document_writable u then Inl (PyError ValueError)
      else case store w k of
             None \<Rightarrow> Inl (PyError NotFound)
           | Some d \<Rightarrow> Inr (w\<lparr>store := (store w)(k \<mapsto> d ++ u)\<rparr>))"

definition doc_get :: "document \<Rightarrow> string \<Rightarrow> pyval \<Rightarrow> pyval" where
  "doc_get d k dflt = (case d k of None \<Rightarrow> dflt | Some v \<Rightarrow> v)"

definition opt_falsy :: "string option \<Rightarrow> bool" where
  "opt_falsy x = (case x of None \<Rightarrow> True | Some s \<Rightarrow> s = [])"

definition opt_str :: "string option \<Rightarrow> string" where
  "opt_str x = (case x of None \<Rightarrow> ''None'' | Some s \<Rightarrow> s)"

definition opt_val :: "string option \<Rightarrow> pyval" where
  "opt_val x = (case x of None \<Rightarrow> PNone | Some s \<Rightarrow> PStr s)"

text \<open>
  \<^verbatim>\<open>get_access_token\<close> (lines 83-112): first the body of its \<^verbatim>\<open>try\<close> block, then the
  function with the check of the credentials and the \<^verbatim>\<open>except\<close> clause, which catches
  a \<^verbatim>\<open>RequestException\<close> only.
\<close>

definition get_access_token_try :: "builtins \<Rightarrow> config \<Rightarrow> outside \<Rightarrow> world \<Rightarrow> (exc + pyval) \<times> world" where
  "get_access_token_try B C X w =
     (let auth_string = opt_str (CONSUMER_KEY C) @ '':'' @ opt_str (CONSUMER_SECRET C);
          b64_auth = b64encode B auth_string;
          hs = [(''Authorization'', ''Basic '' @ b64_auth)]
      in case get_w X w (AUTH_URL C) hs of
           (Inl e, w') \<Rightarrow> (Inl e, w')
         | (Inr body, w') \<Rightarrow>
             (case py_get body ''access_token'' PNone of
                Inl e \<Rightarrow> (Inl e, w')
              | Inr access_token \<Rightarrow>
                  if \<not> truthy access_token
                  then (Inl (HTTPException 500 ''Failed to get access token from M-Pesa''), w')
                  else (Inr access_token, w')))"

definition get_access_token :: "builtins \<Rightarrow> config \<Rightarrow> outside \<Rightarrow> world \<Rightarrow> (exc + pyval) \<times> world" where
  "get_access_token B C X w =
     (if opt_falsy (CONSUMER_KEY C) \<or> opt_falsy (CONSUMER_SECRET C)
      then (Inl (HTTPException 500 ''M-Pesa credentials not configured''), w)
      else case get_access_token_try B C X w of
             (Inl (RequestException m), w') \<Rightarrow>
               (Inl (HTTPException 500 (''Error getting access token: '' @ m)), w')
           | r \<Rightarrow> r)"

text \<open>\<^verbatim>\<open>generate_password\<close> (lines 114-125).\<close>

definition generate_password :: "builtins \<Rightarrow> config \<Rightarrow> outside \<Rightarrow> exc + (string \<times> string)" where
  "generate_password B C X =
     (if opt_falsy (PASS_KEY C)
      then Inl (HTTPException 500 ''M-Pesa Pass Key not configured'')
      else let timestamp = now X;
               password_str = BUSINESS_SHORT_CODE C @ opt_str (PASS_KEY C) @ timestamp;
               password = b64encode B password_str
           in Inr (password, timestamp))"

section \<open>Initiating a payment\<close>

record STKPushRequest =
  phone_number :: string
  amount :: pyfloat
  account_reference :: "string option"
  transaction_desc :: "string option"

record APIResponse =
  success :: bool
  message :: string
  data :: "(string \<times> pyval) list option"

text \<open>\<^verbatim>\<open>s.isdigit()\<close> on a whole string: not empty and every character a digit.\<close>

definition str_isdigit :: "string \<Rightarrow> bool" where
  "str_isdigit s = (s \<noteq> [] \<and> list_all isdigit s)"

definition dict_get :: "(string \<times> pyval) list \<Rightarrow> string \<Rightarrow> pyval \<Rightarrow> pyval" where
  "dict_get kvs k dflt = (case map_of kvs k of None \<Rightarrow> dflt | Some v \<Rightarrow> v)"

text \<open>The record written for an accepted push and the answer to the caller (lines 196-222).\<close>

definition transaction_data ::
  "outside \<Rightarrow> STKPushRequest \<Rightarrow> string \<Rightarrow> int \<Rightarrow> (string \<times> pyval) list \<Rightarrow> document" where
  "transaction_data X request phone amt result =
     map_of
       [(''phone_number'', PStr phone),
        (''amount'', PInt amt),
        (''timestamp'', SERVER_TIMESTAMP X),
        (''checkout_request_id'', dict_get result ''CheckoutRequestID'' PNone),
        (''status'', PStr ''pending''),
        (''merchant_request_id'', dict_get result ''MerchantRequestID'' PNone),
        (''account_reference'', opt_val (account_reference request)),
        (''transaction_desc'', opt_val (transaction_desc request))]"

definition store_transaction ::
  "outside \<Rightarrow> world \<Rightarrow> STKPushRequest \<Rightarrow> string \<Rightarrow> int \<Rightarrow> (string \<times> pyval) list
     \<Rightarrow> (exc + APIResponse) \<times> world" where
  "store_transaction X w request phone amt result =
     (let checkout_id = dict_get result ''CheckoutRequestID'' PNone
      in case document_ref X checkout_id of
           Inl e \<Rightarrow> (Inl e, w)
         | Inr k \<Rightarrow>
             (case document_set w k (transaction_data X request phone amt result) of
                Inl e \<Rightarrow> (Inl e, w)
              | Inr w' \<Rightarrow>
                  (Inr \<lparr>success = True,
                        message = ''STK push request sent successfully'',
                        data = Some
                          [(''checkout_request_id'', checkout_id),
                           (''merchant_request_id'', dict_get result ''MerchantRequestID'' PNone),
                           (''phone_number'', PStr phone),
                           (''amount'', PInt amt)]\<rparr>, w')))"

text \<open>The push itself, once the request is validated (lines 164-227).\<close>

definition send_stk_push ::
  "builtins \<Rightarrow> config \<Rightarrow> outside \<Rightarrow> world \<Rightarrow> STKPushRequest \<Rightarrow> string \<Rightarrow> int
     \<Rightarrow> (exc + APIResponse) \<times> world" where
  "send_stk_push B C X w request phone amt =
     (case generate_password B C X of
        Inl e \<Rightarrow> (Inl e, w)
      | Inr (password, timestamp) \<Rightarrow>
     (case get_access_token B C X w of
        (Inl e, w1) \<Rightarrow> (Inl e, w1)
      | (Inr access_token, w1) \<Rightarrow>
     (let hs = [(''Authorization'', ''Bearer '' @ py_str B access_token),
                (''Content-Type'', ''application/json'')];
          payload = PDict
            [(''BusinessShortCode'', PStr (BUSINESS_SHORT_CODE C)),
             (''Password'', PStr password),
             (''Timestamp'', PStr timestamp),
             (''TransactionType'', PStr TRANSACTION_TYPE),
             (''Amount'', PInt amt),
             (''PartyA'', PStr phone),
             (''PartyB'', PStr PARTY_B),
             (''PhoneNumber'', PStr phone),
             (''CallBackURL'', opt_val (CALLBACK_URL C)),
             (''AccountReference'', opt_val (account_reference request)),
             (''TransactionDesc'', opt_val (transaction_desc request))]
      in case post_w X w1 (STK_PUSH_URL C) payload hs of
           (Inl e, w2) \<Rightarrow> (Inl e, w2)
         | (Inr (PDict result), w2) \<Rightarrow>
             if py_eq_str (dict_get result ''ResponseCode'' PNone) ''0''
             then store_transaction X w2 request phone amt result
             else (Inl (HTTPException 400
                     (''STK push request failed: '' @
                      py_str B (dict_get result ''errorMessage'' (PStr ''Unknown error'')))), w2)
         | (Inr _, w2) \<Rightarrow> (Inl (PyError AttributeError), w2))))"

text \<open>The body of the \<^verbatim>\<open>try\<close> block of \<^verbatim>\<open>initiate_stk_push\<close>.\<close>

definition initiate_stk_push_try ::
  "builtins \<Rightarrow> config \<Rightarrow> outside \<Rightarrow> world \<Rightarrow> STKPushRequest \<Rightarrow> (exc + APIResponse) \<times> world" where
  "initiate_stk_push_try B C X w request =
     (let phone = format_phone_number (phone_number request)
      in case py_int_of_float (amount request) of
           Inl e \<Rightarrow> (Inl e, w)
         | Inr amt \<Rightarrow>
             if \<not> (length phone = 12 \<and> str_isdigit phone)
             then (Inl (HTTPException 400
                     ''Invalid phone number format. Use format: 0722000000 or 254722000000''), w)
             else if amt \<le> 0
             then (Inl (HTTPException 400 ''Amount must be greater than 0''), w)
             else send_stk_push B C X w request phone amt)"

text \<open>
  The two \<^verbatim>\<open>except\<close> clauses shared by \<^verbatim>\<open>initiate_stk_push\<close> and
  \<^verbatim>\<open>check_transaction_status\<close>: a \<^verbatim>\<open>RequestException\<close> first, then every
  \<^verbatim>\<open>Exception\<close>, of which \<^verbatim>\<open>HTTPException\<close> is one.
\<close>

definition except_clauses :: "builtins \<Rightarrow> exc \<Rightarrow> exc" where
  "except_clauses B e =
     (case e of
        RequestException m \<Rightarrow> HTTPException 500 (''Failed to communicate with M-Pesa API: '' @ m)
      | _ \<Rightarrow> HTTPException 500 (''An unexpected error occurred: '' @ str_exc B e))"

definition initiate_stk_push ::
  "builtins \<Rightarrow> config \<Rightarrow> outside \<Rightarrow> world \<Rightarrow> STKPushRequest \<Rightarrow> (exc + APIResponse) \<times> world" where
  "initiate_stk_push B C X w request =
     (case initiate_stk_push_try B C X w request of
        (Inl e, w') \<Rightarrow> (Inl (except_clauses B e), w')
      | (Inr r, w') \<Rightarrow> (Inr r, w'))"

section \<open>The callback\<close>

record ack =
  ResultCode :: int
  ResultDesc :: string

text \<open>\<^verbatim>\<open>isinstance(v, (int, float))\<close>; a bool is an int.\<close>

definition is_int_or_float :: "pyval \<Rightarrow> bool" where
  "is_int_or_float v = (case v of PInt i \<Rightarrow> True | PBool b \<Rightarrow> True | PFloat f \<Rightarrow> True | _ \<Rightarrow> False)"

text \<open>\<^verbatim>\<open>int(v)\<close> for such a value.\<close>

definition py_int :: "pyval \<Rightarrow> exc + int" where
  "py_int v =
     (case v of
        PInt i \<Rightarrow> Inr i
      | PBool b \<Rightarrow> Inr (if b then 1 else 0)
      | PFloat f \<Rightarrow> py_int_of_float f
      | _ \<Rightarrow> Inl (PyError TypeError))"

text \<open>One round of the loop over the metadata items (lines 281-297).\<close>

definition process_item :: "builtins \<Rightarrow> document \<Rightarrow> pyval \<Rightarrow> exc + document" where
  "process_item B u item =
     (case py_getitem item ''Name'' of
        Inl e \<Rightarrow> Inl e
      | Inr name \<Rightarrow>
          if py_eq_str name ''Amount'' then
            (case py_getitem item ''Value'' of
               Inl e \<Rightarrow> Inl e
             | Inr v \<Rightarrow>
                 (case py_float B v of
                    Inl e \<Rightarrow> Inl e
                  | Inr f \<Rightarrow> Inr (u(''confirmed_amount'' \<mapsto> PFloat f))))
          else if py_eq_str name ''MpesaReceiptNumber'' then
            (case py_getitem item ''Value'' of
               Inl e \<Rightarrow> Inl e
             | Inr v \<Rightarrow> Inr (u(''mpesa_receipt_number'' \<mapsto> PStr (py_str B v))))
          else if py_eq_str name ''TransactionDate'' then
            (case py_getitem item ''Value'' of
               Inl e \<Rightarrow> Inl e
             | Inr v \<Rightarrow> Inr (u(''transaction_date'' \<mapsto> PStr (py_str B v))))
          else if py_eq_str name ''PhoneNumber'' then
            (case py_getitem item ''Value'' of
               Inl e \<Rightarrow> Inl e
             | Inr phone_value \<Rightarrow>
                 if is_int_or_float phone_value then
                   (case py_int phone_value of
                      Inl e \<Rightarrow> Inl e
                    | Inr i \<Rightarrow> Inr (u(''confirmed_phone_number'' \<mapsto> PStr (str_int i))))
                 else Inr (u(''confirmed_phone_number'' \<mapsto> PStr (py_str B phone_value))))
          else Inr u)"

fun process_items :: "builtins \<Rightarrow> document \<Rightarrow> pyval list \<Rightarrow> exc + document" where
  "process_items B u [] = Inr u"
| "process_items B u (item # items) =
     (case process_item B u item of
        Inl e \<Rightarrow> Inl e
      | Inr u' \<Rightarrow> process_items B u' items)"

text \<open>The branch on the result code (lines 272-307).\<close>

definition set_status :: "builtins \<Rightarrow> (string \<times> pyval) list \<Rightarrow> pyval \<Rightarrow> document \<Rightarrow> exc + document" where
  "set_status B stkCallback result_code u =
     (if py_eq_int result_code 0 then
        (let u1 = u(''status'' \<mapsto> PStr ''completed'')
         in case map_of stkCallback ''CallbackMetadata'' of
              None \<Rightarrow> Inr u1
            | Some metadata \<Rightarrow>
                (case py_get metadata ''Item'' (PList []) of
                   Inl e \<Rightarrow> Inl e
                 | Inr items \<Rightarrow>
                     (case py_iter items of
                        Inl e \<Rightarrow> Inl e
                      | Inr its \<Rightarrow> process_items B u1 its)))
      else if py_eq_int result_code 1032 then Inr (u(''status'' \<mapsto> PStr ''cancelled''))
      else if py_eq_int result_code 1037 then Inr (u(''status'' \<mapsto> PStr ''expired''))
      else if py_eq_int result_code 1 then Inr (u(''status'' \<mapsto> PStr ''insufficient_funds''))
      else Inr (u(''status'' \<mapsto> PStr ''failed'')))"

text \<open>The update computed from a callback that carries a checkout id (lines 259-307).\<close>

definition transaction_update ::
  "builtins \<Rightarrow> outside \<Rightarrow> pyval \<Rightarrow> (string \<times> pyval) list \<Rightarrow> exc + document" where
  "transaction_update B X callback_data stkCallback =
     set_status B stkCallback (dict_get stkCallback ''ResultCode'' PNone)
       (map_of
          [(''result_code'', dict_get stkCallback ''ResultCode'' PNone),
           (''result_description'', dict_get stkCallback ''ResultDesc'' PNone),
           (''callback_received'', PBool True),
           (''callback_timestamp'', SERVER_TIMESTAMP X),
           (''raw_callback'', callback_data)])"

text \<open>What the handler does with the \<^verbatim>\<open>stkCallback\<close> dictionary (lines 252-316).\<close>

definition process_stk_callback ::
  "builtins \<Rightarrow> outside \<Rightarrow> world \<Rightarrow> pyval \<Rightarrow> (string \<times> pyval) list \<Rightarrow> (exc + ack) \<times> world" where
  "process_stk_callback B X w callback_data stkCallback =
     (let checkout_id = dict_get stkCallback ''CheckoutRequestID'' PNone
      in if \<not> truthy checkout_id
         then (Inr \<lparr>ResultCode = 1, ResultDesc = ''Invalid callback data''\<rparr>, w)
         else
           (case document_ref X checkout_id of
              Inl e \<Rightarrow> (Inl e, w)
            | Inr k \<Rightarrow>
           (case transaction_update B X callback_data stkCallback of
              Inl e \<Rightarrow> (Inl e, w)
            | Inr u \<Rightarrow>
           (case document_update w k u of
              Inl e \<Rightarrow> (Inl e, w)
            | Inr w' \<Rightarrow>
                (Inr \<lparr>ResultCode = 0,
                      ResultDesc = ''Callback processed successfully''\<rparr>, w')))))"

text \<open>
  The body of the \<^verbatim>\<open>try\<close> block of \<^verbatim>\<open>mpesa_callback\<close>; \<open>None\<close> is a request whose
  body is not JSON.
\<close>

definition mpesa_callback_try ::
  "builtins \<Rightarrow> outside \<Rightarrow> world \<Rightarrow> pyval option \<Rightarrow> (exc + ack) \<times> world" where
  "mpesa_callback_try B X w request =
     (case request of
        None \<Rightarrow> (Inl (PyError JSONDecodeError), w)
      | Some callback_data \<Rightarrow>
     (case py_get callback_data ''Body'' (PDict []) of
        Inl e \<Rightarrow> (Inl e, w)
      | Inr body \<Rightarrow>
     (case py_get body ''stkCallback'' (PDict []) of
        Inl e \<Rightarrow> (Inl e, w)
      | Inr (PDict stkCallback) \<Rightarrow> process_stk_callback B X w callback_data stkCallback
      | Inr _ \<Rightarrow> (Inl (PyError AttributeError), w))))"

definition mpesa_callback ::
  "builtins \<Rightarrow> outside \<Rightarrow> world \<Rightarrow> pyval option \<Rightarrow> (exc + ack) \<times> world" where
  "mpesa_callback B X w request =
     (case mpesa_callback_try B X w request of
        (Inl e, w') \<Rightarrow> (Inr \<lparr>ResultCode = 1, ResultDesc = ''Callback processing failed''\<rparr>, w')
      | (Inr a, w') \<Rightarrow> (Inr a, w'))"

section \<open>Checking a transaction\<close>

record TransactionStatusRequest =
  checkout_request_id :: string

text \<open>The answer read from the stored record (lines 348-361).\<close>

definition stored_response :: "string \<Rightarrow> document \<Rightarrow> APIResponse" where
  "stored_response cid d =
     \<lparr>success = True,
      message = ''Transaction status retrieved from database'',
      data = Some
        [(''checkout_request_id'', PStr cid),
         (''status'', doc_get d ''status'' PNone),
         (''result_code'', doc_get d ''result_code'' PNone),
         (''result_description'', doc_get d ''result_description'' PNone),
         (''receipt_number'', doc_get d ''mpesa_receipt_number'' PNone),
         (''amount'', doc_get d ''confirmed_amount'' (doc_get d ''amount'' PNone)),
         (''phone_number'', doc_get d ''confirmed_phone_number'' (doc_get d ''phone_number'' PNone)),
         (''transaction_date'', doc_get d ''transaction_date'' PNone)]\<rparr>"

text \<open>The status chosen for a queried result code (lines 408-419).\<close>

definition query_status :: "pyval \<Rightarrow> string" where
  "query_status result_code =
     (if py_eq_int result_code 0 then ''completed''
      else if py_eq_int result_code 1032 then ''cancelled''
      else if py_eq_int result_code 1037 then ''expired''
      else if py_eq_int result_code 1031 then ''cancelled''
      else if py_eq_int result_code 1 then ''insufficient_funds''
      else ''failed'')"

definition status_update :: "outside \<Rightarrow> (string \<times> pyval) list \<Rightarrow> document" where
  "status_update X result =
     map_of
       [(''query_result_code'', dict_get result ''ResultCode'' PNone),
        (''query_result_description'', dict_get result ''ResultDesc'' PNone),
        (''last_queried'', SERVER_TIMESTAMP X),
        (''status'', PStr (query_status (dict_get result ''ResultCode'' PNone)))]"

text \<open>What follows a decoded query answer (lines 397-435).\<close>

definition apply_query_result ::
  "outside \<Rightarrow> world \<Rightarrow> string \<Rightarrow> document \<Rightarrow> (string \<times> pyval) list \<Rightarrow> (exc + APIResponse) \<times> world" where
  "apply_query_result X w cid d result =
     (case document_ref X (PStr cid) of
        Inl e \<Rightarrow> (Inl e, w)
      | Inr k \<Rightarrow>
     (case document_update w k (status_update X result) of
        Inl e \<Rightarrow> (Inl e, w)
      | Inr w' \<Rightarrow>
          (Inr \<lparr>success = True,
                message = ''Transaction status retrieved from M-Pesa API'',
                data = Some
                  [(''checkout_request_id'', PStr cid),
                   (''status'', PStr (query_status (dict_get result ''ResultCode'' PNone))),
                   (''result_code'', dict_get result ''ResultCode'' PNone),
                   (''result_description'', dict_get result ''ResultDesc'' PNone),
                   (''amount'', doc_get d ''amount'' PNone),
                   (''phone_number'', doc_get d ''phone_number'' PNone)]\<rparr>, w')))"

text \<open>The query of the gateway for a record without a callback (lines 363-435).\<close>

definition query_gateway ::
  "builtins \<Rightarrow> config \<Rightarrow> outside \<Rightarrow> world \<Rightarrow> string \<Rightarrow> document \<Rightarrow> (exc + APIResponse) \<times> world" where
  "query_gateway B C X w cid d =
     (if \<not> truthy (doc_get d ''merchant_request_id'' PNone)
      then (Inl (HTTPException 400 ''Merchant request ID not found for this transaction''), w)
      else
        (case get_access_token B C X w of
           (Inl e, w1) \<Rightarrow> (Inl e, w1)
         | (Inr access_token, w1) \<Rightarrow>
        (let timestamp = now X;
             password_str = BUSINESS_SHORT_CODE C @ opt_str (PASS_KEY C) @ timestamp;
             password = b64encode B password_str;
             hs = [(''Authorization'', ''Bearer '' @ py_str B access_token),
                   (''Content-Type'', ''application/json'')];
             payload = PDict
               [(''BusinessShortCode'', PStr (BUSINESS_SHORT_CODE C)),
                (''Password'', PStr password),
                (''Timestamp'', PStr timestamp),
                (''CheckoutRequestID'', PStr cid)]
         in case post_w X w1 (QUERY_URL C) payload hs of
              (Inl e, w2) \<Rightarrow> (Inl e, w2)
            | (Inr (PDict result), w2) \<Rightarrow> apply_query_result X w2 cid d result
            | (Inr _, w2) \<Rightarrow> (Inl (PyError AttributeError), w2))))"

text \<open>The body of the \<^verbatim>\<open>try\<close> block of \<^verbatim>\<open>check_transaction_status\<close>.\<close>

definition check_transaction_status_try ::
  "builtins \<Rightarrow> config \<Rightarrow> outside \<Rightarrow> world \<Rightarrow> TransactionStatusRequest
     \<Rightarrow> (exc + APIResponse) \<times> world" where
  "check_transaction_status_try B C X w request =
     (let cid = checkout_request_id request
      in case document_ref X (PStr cid) of
           Inl e \<Rightarrow> (Inl e, w)
         | Inr k \<Rightarrow>
             (case store w k of
                None \<Rightarrow> (Inl (HTTPException 404 ''Transaction not found''), w)
              | Some d \<Rightarrow>
                  if truthy (doc_get d ''callback_received'' (PBool False))
                  then (Inr (stored_response cid d), w)
                  else query_gateway B C X w cid d))"

definition check_transaction_status ::
  "builtins \<Rightarrow> config \<Rightarrow> outside \<Rightarrow> world \<Rightarrow> TransactionStatusRequest
     \<Rightarrow> (exc + APIResponse) \<times> world" where
  "check_transaction_status B C X w request =
     (case check_transaction_status_try B C X w request of
        (Inl e, w') \<Rightarrow> (Inl (except_clauses B e), w')
      | (Inr r, w') \<Rightarrow> (Inr r, w'))"

section \<open>The specification's own words\<close>

text \<open>
  The normalizer as the specification describes it: strip the characters that are not
  digits, a digit being one of 0 to 9; a leading zero is replaced by the country code, a
  number that does not start with the country code gets it prepended, any other number is
  left as it is.
\<close>

definition decimal_digit :: "char \<Rightarrow> bool" where
  "decimal_digit c = (c \<in> set ''0123456789'')"

definition normalizer_spec :: "string \<Rightarrow> string" where
  "normalizer_spec s =
     (case filter decimal_digit s of
        [] \<Rightarrow> ''254''
      | c # cs \<Rightarrow>
          if c = CHR ''0'' then ''254'' @ cs
          else if take 3 (c # cs) = ''254'' then c # cs
          else ''254'' @ (c # cs))"

text \<open>
  The envelope of a callback, \<^verbatim>\<open>{Body: {stkCallback: {...}}}\<close>: the dictionary under
  that path, an absent level read as an empty dictionary, and the checkout id in it.
\<close>

definition stkCallback_of :: "pyval \<Rightarrow> (string \<times> pyval) list option" where
  "stkCallback_of cb =
     (case cb of
        PDict envelope \<Rightarrow>
          (case dict_get envelope ''Body'' (PDict []) of
             PDict body \<Rightarrow>
               (case dict_get body ''stkCallback'' (PDict []) of
                  PDict stk \<Rightarrow> Some stk
                | _ \<Rightarrow> None)
           | _ \<Rightarrow> None)
      | _ \<Rightarrow> None)"

definition checkout_id_of :: "pyval \<Rightarrow> pyval" where
  "checkout_id_of cb =
     (case stkCallback_of cb of
        None \<Rightarrow> PNone
      | Some stk \<Rightarrow> dict_get stk ''CheckoutRequestID'' PNone)"

text \<open>The table \<open>codeToStatus\<close> of the specification.\<close>

definition codeToStatus :: "int \<Rightarrow> string" where
  "codeToStatus resultCode =
     (if resultCode = 0 then ''completed''
      else if resultCode = 1 then ''insufficient_funds''
      else if resultCode = 1032 then ''cancelled''
      else if resultCode = 1037 then ''expired''
      else if resultCode = 1031 then ''cancelled''
      else ''failed'')"

text \<open>The fields of a record that the specification calls terminal.\<close>

definition terminal_fields :: "string list" where
  "terminal_fields =
     [''status'', ''result_code'', ''result_description'', ''confirmed_amount'',
      ''mpesa_receipt_number'', ''transaction_date'', ''confirmed_phone_number'',
      ''callback_received'']"

text \<open>
  Extraction of the callback metadata by name, as the specification words it: the items
  are \<^verbatim>\<open>{Name, Value}\<close> pairs under \<^verbatim>\<open>CallbackMetadata.Item\<close>; the value of a name
  is the \<^verbatim>\<open>Value\<close> of the last item that carries the name; \<open>Amount\<close> is stored as a
  float in \<open>confirmed_amount\<close>, \<open>MpesaReceiptNumber\<close> and \<open>TransactionDate\<close> as strings,
  \<open>PhoneNumber\<close> as a string, a number first turned into an integer.
\<close>

definition metadata_items :: "(string \<times> pyval) list \<Rightarrow> pyval list" where
  "metadata_items stk =
     (case map_of stk ''CallbackMetadata'' of
        Some (PDict md) \<Rightarrow> (case dict_get md ''Item'' (PList []) of PList xs \<Rightarrow> xs | _ \<Rightarrow> [])
      | _ \<Rightarrow> [])"

definition named :: "string \<Rightarrow> pyval \<Rightarrow> bool" where
  "named n item = (case item of PDict kvs \<Rightarrow> map_of kvs ''Name'' = Some (PStr n) | _ \<Rightarrow> False)"

definition value_of :: "pyval \<Rightarrow> pyval option" where
  "value_of item = (case item of PDict kvs \<Rightarrow> map_of kvs ''Value'' | _ \<Rightarrow> None)"

fun metadata_value :: "string \<Rightarrow> pyval list \<Rightarrow> pyval option" where
  "metadata_value n [] = None"
| "metadata_value n (item # items) =
     (case metadata_value n items of
        Some v \<Rightarrow> Some v
      | None \<Rightarrow> if named n item then value_of item else None)"

definition metadata_names :: "string list" where
  "metadata_names = [''Amount'', ''MpesaReceiptNumber'', ''TransactionDate'', ''PhoneNumber'']"

definition metadata_field :: "string \<Rightarrow> string" where
  "metadata_field n =
     (if n = ''Amount'' then ''confirmed_amount''
      else if n = ''MpesaReceiptNumber'' then ''mpesa_receipt_number''
      else if n = ''TransactionDate'' then ''transaction_date''
      else ''confirmed_phone_number'')"

definition stored_form :: "builtins \<Rightarrow> string \<Rightarrow> pyval \<Rightarrow> pyval option" where
  "stored_form B n v =
     (if n = ''Amount'' then
        (case py_float B v of Inr f \<Rightarrow> Some (PFloat f) | Inl e \<Rightarrow> None)
      else if n = ''PhoneNumber'' \<and> is_int_or_float v then
        (case py_int v of Inr i \<Rightarrow> Some (PStr (str_int i)) | Inl e \<Rightarrow> None)
      else Some (PStr (py_str B v)))"

text \<open>
  The callbacks whose metadata the loop of lines 276-297 reads to its end: the key
  \<^verbatim>\<open>CallbackMetadata\<close> is absent, or it holds a dictionary whose \<^verbatim>\<open>Item\<close> is absent, an
  empty dictionary, an empty string, or a list of dictionaries that each have a
  \<^verbatim>\<open>Name\<close>, and with one of the four names a \<^verbatim>\<open>Value\<close>: for \<open>Amount\<close> one that
  \<^verbatim>\<open>float\<close> converts, for \<open>PhoneNumber\<close> one that \<^verbatim>\<open>int\<close> converts when it is a number.
\<close>

definition converts :: "'e + 'a \<Rightarrow> bool" where
  "converts r = (case r of Inl e \<Rightarrow> False | Inr x \<Rightarrow> True)"

definition item_ok :: "builtins \<Rightarrow> pyval \<Rightarrow> bool" where
  "item_ok B item =
     (case item of
        PDict kvs \<Rightarrow>
          (case map_of kvs ''Name'' of
             None \<Rightarrow> False
           | Some nm \<Rightarrow>
               if nm = PStr ''Amount'' then
                 (case map_of kvs ''Value'' of None \<Rightarrow> False | Some v \<Rightarrow> converts (py_float B v))
               else if nm = PStr ''MpesaReceiptNumber'' \<or> nm = PStr ''TransactionDate'' then
                 (case map_of kvs ''Value'' of None \<Rightarrow> False | Some v \<Rightarrow> True)
               else if nm = PStr ''PhoneNumber'' then
                 (case map_of kvs ''Value'' of
                    None \<Rightarrow> False
                  | Some v \<Rightarrow> if is_int_or_float v then converts (py_int v) else True)
               else True)
      | _ \<Rightarrow> False)"

definition metadata_ok :: "builtins \<Rightarrow> (string \<times> pyval) list \<Rightarrow> bool" where
  "metadata_ok B stk =
     (case map_of stk ''CallbackMetadata'' of
        None \<Rightarrow> True
      | Some (PDict md) \<Rightarrow>
          (case dict_get md ''Item'' (PList []) of
             PList xs \<Rightarrow> list_all (item_ok B) xs
           | PDict kvs \<Rightarrow> kvs = []
           | PStr s \<Rightarrow> s = []
           | _ \<Rightarrow> False)
      | Some _ \<Rightarrow> False)"

section \<open>Sample inputs\<close>

text \<open>
  Stand-ins for the library and the outside world, used where a statement is evaluated
  on a concrete input: a gateway that hands out a token and answers every query with
  result code 1032.
\<close>

definition sample_builtins :: builtins where
  "sample_builtins =
     \<lparr>float_of_big_int = (\<lambda>i. Inl OverflowError),
      float_of_str = (\<lambda>s. Inl ValueError),
      repr_other = (\<lambda>v. ''<repr>''),
      error_text = (\<lambda>k. ''<error>''),
      b64encode = (\<lambda>s. s)\<rparr>"

definition sample_config :: config where
  "sample_config =
     \<lparr>CONSUMER_KEY = Some ''key'',
      CONSUMER_SECRET = Some ''secret'',
      BUSINESS_SHORT_CODE = ''5501736'',
      PASS_KEY = Some ''passkey'',
      CALLBACK_URL = Some ''https://example.org/mpesa-callback'',
      BASE_URL = ''https://api.safaricom.co.ke''\<rparr>"

definition sample_outside :: outside where
  "sample_outside =
     \<lparr>now = ''20240101120000'',
      requests_get = (\<lambda>url hs. Inr (PDict [(''access_token'', PStr ''tok'')])),
      requests_post = (\<lambda>url payload hs.
        Inr (PDict [(''ResponseCode'', PStr ''0''),
                    (''CheckoutRequestID'', PStr ''ws_CO_2''),
                    (''MerchantRequestID'', PStr ''m-2''),
                    (''ResultCode'', PInt 1032),
                    (''ResultDesc'', PStr ''Request cancelled by user'')])),
      SERVER_TIMESTAMP = PTimestamp 1704103200,
      auto_id = ''auto''\<rparr>"

definition pending_record :: document where
  "pending_record =
     map_of
       [(''phone_number'', PStr ''254722000000''),
        (''amount'', PInt 100),
        (''timestamp'', PTimestamp 1704103100),
        (''checkout_request_id'', PStr ''ws_CO_1''),
        (''status'', PStr ''pending''),
        (''merchant_request_id'', PStr ''m-1''),
        (''account_reference'', PStr ''CompanyXYZ''),
        (''transaction_desc'', PStr ''Payment for services'')]"

definition sample_world :: world where
  "sample_world = \<lparr>store = [''ws_CO_1'' \<mapsto> pending_record], calls = []\<rparr>"

definition callback_payload :: "pyval \<Rightarrow> pyval \<Rightarrow> (string \<times> pyval) list \<Rightarrow> pyval" where
  "callback_payload cid code extra =
     PDict [(''Body'', PDict [(''stkCallback'',
       PDict ([(''CheckoutRequestID'', cid), (''ResultCode'', code),
               (''ResultDesc'', PStr ''desc'')] @ extra))])]"

text \<open>The successful callback of the specification's scenario, with an item that has no value.\<close>

definition metadata_item :: "string \<Rightarrow> pyval \<Rightarrow> pyval" where
  "metadata_item n v = PDict [(''Name'', PStr n), (''Value'', v)]"

definition success_metadata :: "pyval list" where
  "success_metadata =
     [metadata_item ''Amount'' (PInt 100),
      metadata_item ''MpesaReceiptNumber'' (PStr ''ABC123''),
      PDict [(''Name'', PStr ''Balance'')],
      metadata_item ''TransactionDate'' (PInt 20240101120500),
      metadata_item ''PhoneNumber'' (PInt 254722000000)]"

definition success_payload :: pyval where
  "success_payload =
     callback_payload (PStr ''ws_CO_1'') (PInt 0)
       [(''CallbackMetadata'', PDict [(''Item'', PList success_metadata)])]"

text \<open>A successful callback whose \<open>Amount\<close> item has no value, and a later server time.\<close>

definition valueless_payload :: pyval where
  "valueless_payload =
     callback_payload (PStr ''ws_CO_1'') (PInt 0)
       [(''CallbackMetadata'',
         PDict [(''Item'', PList [PDict [(''Name'', PStr ''Amount'')]])])]"

text \<open>The superscript two, a character that \<^verbatim>\<open>str.isdigit\<close> takes for a digit.\<close>

definition superscript_two :: char where
  "superscript_two = CHR 0xB2"

definition later_outside :: outside where
  "later_outside = sample_outside\<lparr>SERVER_TIMESTAMP := PTimestamp 1704103300\<rparr>"

text \<open>A record that already received its callback.\<close>

definition completed_record :: document where
  "completed_record =
     pending_record(''callback_received'' \<mapsto> PBool True, ''status'' \<mapsto> PStr ''completed'')"

definition completed_world :: world where
  "completed_world = \<lparr>store = [''ws_CO_1'' \<mapsto> completed_record], calls = []\<rparr>"

text \<open>
  A gateway that accepts a push without naming a merchant request id, and the world after
  the initiate handler has served one request against it, starting from an empty store:
  the record it wrote has \<^verbatim>\<open>None\<close> for its merchant request id.
\<close>

definition bare_result :: "(string \<times> pyval) list" where
  "bare_result = [(''ResponseCode'', PStr ''0''), (''CheckoutRequestID'', PStr ''ws_CO_3'')]"

definition bare_outside :: outside where
  "bare_outside = sample_outside\<lparr>requests_post := (\<lambda>url payload hs. Inr (PDict bare_result))\<rparr>"

definition sample_request :: STKPushRequest where
  "sample_request =
     \<lparr>phone_number = ''0722000000'', amount = Fin 100, account_reference = None,
      transaction_desc = None\<rparr>"

definition empty_world :: world where
  "empty_world = \<lparr>store = Map.empty, calls = []\<rparr>"

definition orphan_world :: world where
  "orphan_world =
     snd (initiate_stk_push sample_builtins sample_config bare_outside empty_world sample_request)"

definition orphan_record :: document where
  "orphan_record = transaction_data bare_outside sample_request ''254722000000'' 100 bare_result"

section \<open>Properties\<close>

subsection \<open>Phone number normalization\<close>

lemma decimal_digit_isdigit: "decimal_digit c \<Longrightarrow> isdigit c"
  by (auto simp add: decimal_digit_def isdigit_def)

lemma normalizer_spec_cases:
  "normalizer_spec s =
     (let ds = filter decimal_digit s
      in if startswith ds ''0'' then ''254'' @ drop 1 ds
         else if \<not> startswith ds ''254'' then ''254'' @ ds
         else ds)"
  by (simp add: normalizer_spec_def startswith_def Let_def numeral_2_eq_2 numeral_3_eq_3
      split: list.splits)

text \<open>
  On an input in which \<^verbatim>\<open>str.isdigit\<close> holds of the digits 0 to 9 only, the function
  computes what the specification describes.
\<close>

lemma format_phone_number_on_decimal_digits:
  assumes "list_all (\<lambda>c. isdigit c = decimal_digit c) s"
  shows "format_phone_number s = normalizer_spec s"
proof -
  from assms have "filter isdigit s = filter decimal_digit s"
    by (induction s) simp_all
  then show ?thesis
    by (simp add: format_phone_number_def normalizer_spec_cases)
qed

lemma format_phone_number_canonical:
  assumes "list_all decimal_digit s" and "startswith s ''254''"
  shows "format_phone_number s = s"
proof -
  from assms(1) have "filter isdigit s = s"
    by (induction s) (simp_all add: decimal_digit_isdigit)
  with assms(2) show ?thesis
    by (cases s) (simp_all add: format_phone_number_def startswith_def Let_def)
qed

text \<open>
  Claim C7. For every input string the normalizer strips the characters that are not
  digits, then replaces a leading zero by 254 or prepends 254 to a number that does not
  start with it; a number whose digits are a zero and nine more comes out as 254 and those
  nine. The function filters with \<^verbatim>\<open>str.isdigit\<close>, which also holds of the superscript
  digits, where its own comment says "Remove any spaces or special characters". An input
  with a superscript two after 07 and the seven digits 2000000 behind keeps the superscript
  and comes out as twelve characters that the handler's validation accepts, where
  stripping the non-digits gives the eleven digits 25472000000; and the input 0722000000
  followed by a superscript two, whose digits are a zero and nine more, comes out as
  254722000000 with the superscript behind and not as 254722000000.
\<close>

theorem format_phone_number_keeps_superscript:
  "format_phone_number (''07'' @ superscript_two # ''2000000'') =
     ''2547'' @ superscript_two # ''2000000'' \<and>
   normalizer_spec (''07'' @ superscript_two # ''2000000'') = ''25472000000'' \<and>
   length (format_phone_number (''07'' @ superscript_two # ''2000000'')) = 12 \<and>
   str_isdigit (format_phone_number (''07'' @ superscript_two # ''2000000'')) \<and>
   filter decimal_digit (''0722000000'' @ [superscript_two]) = ''0722000000'' \<and>
   format_phone_number (''0722000000'' @ [superscript_two]) = ''254722000000'' @ [superscript_two] \<and>
   normalizer_spec (''0722000000'' @ [superscript_two]) = ''254722000000''"
  by (simp add: format_phone_number_def normalizer_spec_def decimal_digit_def isdigit_def
      str_isdigit_def startswith_def superscript_two_def Let_def)

subsection \<open>Faults raised inside the handlers\<close>

lemma str_nat_404: "str_nat 404 = ''404''"
  by (simp add: str_nat.simps digit_char_def)

lemma str_nat_400: "str_nat 400 = ''400''"
  by (simp add: str_nat.simps digit_char_def)

text \<open>
  Claim C5. A check-status request whose checkout id matches no stored transaction fails
  with the 404 not-found error and its message. The handler raises that error inside its
  \<^verbatim>\<open>try\<close> block, where the clause for every \<^verbatim>\<open>Exception\<close> catches it: what
  leaves the handler is the generic server fault, status 500, with the 404 only in its
  text (an id that the store's client refuses as a document path is a server fault too,
  with the text of that refusal).
\<close>

theorem check_unknown_id_server_fault:
  "store w (checkout_request_id request) = None \<Longrightarrow>
   check_transaction_status B C X w request =
     (Inl (HTTPException 500 (''An unexpected error occurred: '' @
        (if valid_document_id (checkout_request_id request)
         then ''404: Transaction not found'' else error_text B ValueError))), w)"
  by (simp add: check_transaction_status_def check_transaction_status_try_def document_ref_def
      except_clauses_def str_exc_def str_nat_404)

theorem check_unknown_id_server_fault_witness:
  "store sample_world ''ws_CO_9'' = None \<and> valid_document_id ''ws_CO_9'' \<and>
   check_transaction_status sample_builtins sample_config sample_outside sample_world
       \<lparr>checkout_request_id = ''ws_CO_9''\<rparr> =
     (Inl (HTTPException 500 ''An unexpected error occurred: 404: Transaction not found''),
      sample_world)"
proof -
  have h: "store sample_world (checkout_request_id \<lparr>checkout_request_id = ''ws_CO_9''\<rparr>) = None"
    by (simp add: sample_world_def)
  have v: "valid_document_id ''ws_CO_9''"
    by (simp add: valid_document_id_def)
  show ?thesis
    using h v check_unknown_id_server_fault [OF h, of sample_builtins sample_config sample_outside]
    by simp
qed

lemma initiate_try_invalid_phone:
  assumes "\<not> (length (format_phone_number (phone_number request)) = 12 \<and>
              str_isdigit (format_phone_number (phone_number request)))"
  shows "initiate_stk_push_try B C X w request =
     (case py_int_of_float (amount request) of
        Inl e \<Rightarrow> (Inl e, w)
      | Inr a \<Rightarrow> (Inl (HTTPException 400
          ''Invalid phone number format. Use format: 0722000000 or 254722000000''), w))"
  using assms by (simp add: initiate_stk_push_try_def Let_def split: sum.splits)

text \<open>
  Claim C6. An initiate request whose normalized phone number is not twelve digits is
  rejected as a client fault, status 400. The handler raises the 400 inside its
  \<^verbatim>\<open>try\<close> block and the clause for every \<^verbatim>\<open>Exception\<close> turns it into status 500:
  the caller always sees a server fault, for a finite amount with the 400 and its message
  in the text.
\<close>

theorem invalid_phone_server_fault:
  "\<not> (length (format_phone_number (phone_number request)) = 12 \<and>
       str_isdigit (format_phone_number (phone_number request))) \<Longrightarrow>
   (\<exists>detail. initiate_stk_push B C X w request = (Inl (HTTPException 500 detail), w)) \<and>
   (amount request \<notin> {PosInf, NegInf, NaN} \<longrightarrow>
      initiate_stk_push B C X w request =
        (Inl (HTTPException 500 (''An unexpected error occurred: 400: '' @
           ''Invalid phone number format. Use format: 0722000000 or 254722000000'')), w))"
  by (cases "amount request")
     (simp_all add: initiate_stk_push_def initiate_try_invalid_phone py_int_of_float_def
       except_clauses_def str_exc_def str_nat_400)

theorem invalid_phone_server_fault_witness:
  "\<not> (length (format_phone_number ''12345'') = 12 \<and> str_isdigit (format_phone_number ''12345'')) \<and>
   initiate_stk_push sample_builtins sample_config sample_outside sample_world
       \<lparr>phone_number = ''12345'', amount = Fin 100, account_reference = None,
        transaction_desc = None\<rparr> =
     (Inl (HTTPException 500 (''An unexpected error occurred: 400: '' @
           ''Invalid phone number format. Use format: 0722000000 or 254722000000'')),
      sample_world)"
proof -
  let ?r = "\<lparr>phone_number = ''12345'', amount = Fin 100, account_reference = None,
        transaction_desc = None\<rparr>"
  have h: "\<not> (length (format_phone_number (phone_number ?r)) = 12 \<and>
              str_isdigit (format_phone_number (phone_number ?r)))"
    by (simp add: format_phone_number_def isdigit_def startswith_def)
  show ?thesis
    using h invalid_phone_server_fault [OF h, of sample_builtins sample_config sample_outside sample_world]
    by simp
qed

subsection \<open>What the store's client encodes\<close>

lemma first_bindings_lookup:
  "first_bindings seen kbs \<Longrightarrow> map_of kbs k = Some b \<Longrightarrow> k \<notin> set seen \<Longrightarrow> b"
proof (induction kbs arbitrary: seen)
  case Nil
  then show ?case by simp
next
  case (Cons kb kbs)
  obtain k' b' where kb: "kb = (k', b')" by (cases kb)
  show ?case
  proof (cases "k' = k")
    case True
    with Cons.prems kb show ?thesis by simp
  next
    case False
    with Cons.prems kb have "first_bindings (k' # seen) kbs" "map_of kbs k = Some b"
      "k \<notin> set (k' # seen)"
      by simp_all
    then show ?thesis by (rule Cons.IH)
  qed
qed

lemma map_of_map_keyed:
  "map_of (map (\<lambda>(k, v). (k, f k v)) kvs) k = map_option (f k) (map_of kvs k)"
  by (induction kvs) auto

lemma storable_dict:
  "storable (PDict kvs) =
     first_bindings [] (map (\<lambda>(k, v). (k, k \<noteq> [] \<and> storable v)) kvs)"
proof -
  have "map (\<lambda>(k, b). (k, k \<noteq> [] \<and> b)) (map (map_prod id storable) kvs) =
      map (\<lambda>(k, v). (k, k \<noteq> [] \<and> storable v)) kvs"
    by (induction kvs) auto
  then show ?thesis by (simp only: storable.simps)
qed

lemma storable_lookup:
  assumes "storable (PDict kvs)" and "map_of kvs k = Some v"
  shows "storable v"
proof -
  from assms(2) have "map_of (map (\<lambda>(k, v). (k, k \<noteq> [] \<and> storable v)) kvs) k =
      Some (k \<noteq> [] \<and> storable v)"
    by (simp add: map_of_map_keyed)
  with assms(1) have "k \<noteq> [] \<and> storable v"
    unfolding storable_dict by (rule first_bindings_lookup) simp
  then show ?thesis ..
qed

lemma storable_dict_get: "storable (PDict kvs) \<Longrightarrow> storable (dict_get kvs k PNone)"
  by (cases "map_of kvs k") (simp_all add: dict_get_def storable_lookup)

lemma document_writable_upd:
  "document_writable u \<Longrightarrow> storable v \<Longrightarrow> document_writable (u(k \<mapsto> v))"
  by (simp add: document_writable_def list_all_iff)

lemma document_writable_other:
  "k \<notin> set written_fields \<Longrightarrow> document_writable (u(k \<mapsto> v)) = document_writable u"
  by (auto simp add: document_writable_def list_all_iff)

lemma document_writable_field:
  "document_writable u \<Longrightarrow> k \<in> set written_fields \<Longrightarrow> u k = Some v \<Longrightarrow> storable v"
  by (auto simp add: document_writable_def list_all_iff)

lemma document_update_Inr:
  assumes "document_update w k u = Inr w'"
  shows "document_writable u \<and> (\<exists>d. store w k = Some d \<and> w' = w\<lparr>store := (store w)(k \<mapsto> d ++ u)\<rparr>)"
  using assms by (auto simp add: document_update_def split: if_splits option.splits)

lemma document_update_on_record:
  "document_writable u \<Longrightarrow> store w k = Some d \<Longrightarrow>
   document_update w k u = Inr (w\<lparr>store := (store w)(k \<mapsto> d ++ u)\<rparr>)"
  by (simp add: document_update_def)

lemma document_update_fails:
  "\<not> document_writable u \<or> store w k = None \<Longrightarrow> \<exists>e. document_update w k u = Inl e"
  by (auto simp add: document_update_def)


subsection \<open>The callback handler\<close>

lemma mpesa_callback_try_stk:
  "mpesa_callback_try B X w (Some cb) =
     (case stkCallback_of cb of
        None \<Rightarrow> (Inl (PyError AttributeError), w)
      | Some stk \<Rightarrow> process_stk_callback B X w cb stk)"
  by (simp add: mpesa_callback_try_def stkCallback_of_def py_get_def dict_get_def
      split: pyval.splits option.splits)

lemma document_ref_truthy:
  "truthy v \<Longrightarrow> document_ref X v = Inr k \<Longrightarrow> v = PStr k \<and> k \<noteq> [] \<and> valid_document_id k"
  by (cases v) (simp_all add: document_ref_def truthy_def split: if_splits)

lemma process_stk_callback_result:
  assumes "process_stk_callback B X w cb stk = (r, w')"
  shows "(w' = w \<and> (r = Inr \<lparr>ResultCode = 1, ResultDesc = ''Invalid callback data''\<rparr> \<and>
                      \<not> truthy (dict_get stk ''CheckoutRequestID'' PNone)
                    \<or> (\<exists>e. r = Inl e) \<and> truthy (dict_get stk ''CheckoutRequestID'' PNone)))
       \<or> (\<exists>k d u. dict_get stk ''CheckoutRequestID'' PNone = PStr k \<and> k \<noteq> [] \<and>
              store w k = Some d \<and> transaction_update B X cb stk = Inr u \<and>
              w' = w\<lparr>store := (store w)(k \<mapsto> d ++ u)\<rparr> \<and>
              r = Inr \<lparr>ResultCode = 0, ResultDesc = ''Callback processed successfully''\<rparr>)"
proof (cases "truthy (dict_get stk ''CheckoutRequestID'' PNone)")
  case False
  with assms show ?thesis
    by (simp add: process_stk_callback_def Let_def)
next
  case t: True
  show ?thesis
  proof (cases "document_ref X (dict_get stk ''CheckoutRequestID'' PNone)")
    case (Inl e)
    with assms t show ?thesis
      by (simp add: process_stk_callback_def Let_def) blast
  next
    case (Inr k)
    note k = this
    from document_ref_truthy [OF t k]
    have ck: "dict_get stk ''CheckoutRequestID'' PNone = PStr k" and kn: "k \<noteq> []"
      by simp_all
    show ?thesis
    proof (cases "transaction_update B X cb stk")
      case (Inl e)
      with assms t k show ?thesis
        by (simp add: process_stk_callback_def Let_def) blast
    next
      case (Inr u)
      note u = this
      show ?thesis
      proof (cases "document_update w k u")
        case (Inl e)
        with assms t k u show ?thesis
          by (simp add: process_stk_callback_def Let_def) blast
      next
        case (Inr w2)
        from document_update_Inr [OF Inr]
        obtain d where d: "store w k = Some d" and w2: "w2 = w\<lparr>store := (store w)(k \<mapsto> d ++ u)\<rparr>"
          by blast
        from assms t k u Inr w2 have "w' = w\<lparr>store := (store w)(k \<mapsto> d ++ u)\<rparr>"
          and "r = Inr \<lparr>ResultCode = 0, ResultDesc = ''Callback processed successfully''\<rparr>"
          by (simp_all add: process_stk_callback_def Let_def)
        with ck kn d u show ?thesis
          by blast
      qed
    qed
  qed
qed


lemma mpesa_callback_try_result:
  assumes "mpesa_callback_try B X w request = (r, w')"
  shows "(w' = w \<and> (r = Inr \<lparr>ResultCode = 1, ResultDesc = ''Invalid callback data''\<rparr> \<and>
                      (\<exists>cb. request = Some cb \<and> \<not> truthy (checkout_id_of cb))
                    \<or> (\<exists>e. r = Inl e)))
       \<or> (\<exists>cb stk k d u. request = Some cb \<and> stkCallback_of cb = Some stk \<and>
              checkout_id_of cb = PStr k \<and> k \<noteq> [] \<and>
              store w k = Some d \<and> transaction_update B X cb stk = Inr u \<and>
              w' = w\<lparr>store := (store w)(k \<mapsto> d ++ u)\<rparr> \<and>
              r = Inr \<lparr>ResultCode = 0, ResultDesc = ''Callback processed successfully''\<rparr>)"
proof (cases request)
  case None
  with assms show ?thesis
    by (simp add: mpesa_callback_try_def) blast
next
  case (Some cb)
  note cb = this
  show ?thesis
  proof (cases "stkCallback_of cb")
    case None
    with assms cb show ?thesis
      by (simp add: mpesa_callback_try_stk) blast
  next
    case (Some stk)
    with assms cb have "process_stk_callback B X w cb stk = (r, w')"
      by (simp add: mpesa_callback_try_stk)
    from process_stk_callback_result [OF this] cb Some show ?thesis
      by (simp add: checkout_id_of_def) blast
  qed
qed

lemma mpesa_callback_unfold:
  "mpesa_callback_try B X w request = (r, w') \<Longrightarrow>
   mpesa_callback B X w request =
     (case r of
        Inl e \<Rightarrow> (Inr \<lparr>ResultCode = 1, ResultDesc = ''Callback processing failed''\<rparr>, w')
      | Inr a \<Rightarrow> (Inr a, w'))"
  by (simp add: mpesa_callback_def split: sum.splits)

lemma mpesa_callback_result:
  assumes "mpesa_callback B X w request = (r, w')"
  shows "(w' = w \<and> (\<exists>desc. r = Inr \<lparr>ResultCode = 1, ResultDesc = desc\<rparr>))
       \<or> (\<exists>cb stk k d u. request = Some cb \<and> stkCallback_of cb = Some stk \<and>
              checkout_id_of cb = PStr k \<and> k \<noteq> [] \<and>
              store w k = Some d \<and> transaction_update B X cb stk = Inr u \<and>
              w' = w\<lparr>store := (store w)(k \<mapsto> d ++ u)\<rparr> \<and>
              r = Inr \<lparr>ResultCode = 0, ResultDesc = ''Callback processed successfully''\<rparr>)"
proof -
  obtain r0 w0 where t: "mpesa_callback_try B X w request = (r0, w0)"
    by (cases "mpesa_callback_try B X w request") blast
  from mpesa_callback_unfold [OF t] assms
  have eq: "(r, w') = (case r0 of
        Inl e \<Rightarrow> (Inr \<lparr>ResultCode = 1, ResultDesc = ''Callback processing failed''\<rparr>, w0)
      | Inr a \<Rightarrow> (Inr a, w0))"
    by simp
  from mpesa_callback_try_result [OF t] show ?thesis
  proof (elim disjE conjE exE)
    assume "w0 = w" "r0 = Inr \<lparr>ResultCode = 1, ResultDesc = ''Invalid callback data''\<rparr>"
    with eq show ?thesis by simp
  next
    fix e assume "w0 = w" "r0 = Inl e"
    with eq show ?thesis by simp
  next
    fix cb stk k d u
    assume "request = Some cb" "stkCallback_of cb = Some stk" "checkout_id_of cb = PStr k"
      "k \<noteq> []" "store w k = Some d" "transaction_update B X cb stk = Inr u"
      "w0 = w\<lparr>store := (store w)(k \<mapsto> d ++ u)\<rparr>"
      "r0 = Inr \<lparr>ResultCode = 0, ResultDesc = ''Callback processed successfully''\<rparr>"
    with eq show ?thesis by simp
  qed
qed

text \<open>
  Claim C4. Whatever the callback handler receives, it returns an acknowledgment with
  result code 0 or 1 and never an error; with code 1 the store is as it was. When the
  checkout id is missing the code is 1 and the store is untouched (the text is
  "Invalid callback data" when the envelope is well formed), and when the body of the
  handler raises, the acknowledgment is code 1 with "Callback processing failed".
\<close>

theorem mpesa_callback_always_acknowledges:
  "(\<exists>a w'. mpesa_callback B X w request = (Inr a, w') \<and>
       (ResultCode a = 0 \<or> ResultCode a = 1 \<and> w' = w)) \<and>
   (request = None \<or> (\<exists>cb. request = Some cb \<and> \<not> truthy (checkout_id_of cb)) \<longrightarrow>
      (\<exists>desc. mpesa_callback B X w request = (Inr \<lparr>ResultCode = 1, ResultDesc = desc\<rparr>, w))) \<and>
   (request = Some cb \<and> stkCallback_of cb = Some stk \<and> \<not> truthy (checkout_id_of cb) \<longrightarrow>
      mpesa_callback B X w request =
        (Inr \<lparr>ResultCode = 1, ResultDesc = ''Invalid callback data''\<rparr>, w)) \<and>
   (mpesa_callback_try B X w request = (Inl e, w0) \<longrightarrow>
      mpesa_callback B X w request =
        (Inr \<lparr>ResultCode = 1, ResultDesc = ''Callback processing failed''\<rparr>, w))"
proof (intro conjI impI)
  obtain r w' where m: "mpesa_callback B X w request = (r, w')"
    by (cases "mpesa_callback B X w request") blast
  from mpesa_callback_result [OF m] m
  show "\<exists>a w'. mpesa_callback B X w request = (Inr a, w') \<and>
       (ResultCode a = 0 \<or> ResultCode a = 1 \<and> w' = w)"
    by auto
next
  assume a: "request = None \<or> (\<exists>cb. request = Some cb \<and> \<not> truthy (checkout_id_of cb))"
  obtain r w' where m: "mpesa_callback B X w request = (r, w')"
    by (cases "mpesa_callback B X w request") blast
  from mpesa_callback_result [OF m] a have "w' = w \<and> (\<exists>desc. r = Inr \<lparr>ResultCode = 1, ResultDesc = desc\<rparr>)"
    by (auto simp add: truthy_def)
  with m show "\<exists>desc. mpesa_callback B X w request = (Inr \<lparr>ResultCode = 1, ResultDesc = desc\<rparr>, w)"
    by auto
next
  assume a: "request = Some cb \<and> stkCallback_of cb = Some stk \<and> \<not> truthy (checkout_id_of cb)"
  then have "mpesa_callback_try B X w request =
      (Inr \<lparr>ResultCode = 1, ResultDesc = ''Invalid callback data''\<rparr>, w)"
    by (clarsimp simp add: mpesa_callback_try_stk process_stk_callback_def checkout_id_of_def Let_def)
  from mpesa_callback_unfold [OF this]
  show "mpesa_callback B X w request =
        (Inr \<lparr>ResultCode = 1, ResultDesc = ''Invalid callback data''\<rparr>, w)"
    by simp
next
  assume t: "mpesa_callback_try B X w request = (Inl e, w0)"
  from mpesa_callback_try_result [OF t] have "w0 = w" by auto
  with mpesa_callback_unfold [OF t]
  show "mpesa_callback B X w request =
        (Inr \<lparr>ResultCode = 1, ResultDesc = ''Callback processing failed''\<rparr>, w)"
    by simp
qed

lemma stkCallback_of_payload:
  "stkCallback_of (callback_payload cid code extra) =
     Some ([(''CheckoutRequestID'', cid), (''ResultCode'', code),
            (''ResultDesc'', PStr ''desc'')] @ extra)"
  by (simp add: stkCallback_of_def callback_payload_def dict_get_def)

lemma checkout_id_of_payload: "checkout_id_of (callback_payload cid code extra) = cid"
  by (simp add: checkout_id_of_def stkCallback_of_payload dict_get_def)

theorem mpesa_callback_always_acknowledges_witness:
  "\<not> truthy (checkout_id_of (callback_payload PNone (PInt 0) [])) \<and>
   mpesa_callback sample_builtins sample_outside sample_world
       (Some (callback_payload PNone (PInt 0) [])) =
     (Inr \<lparr>ResultCode = 1, ResultDesc = ''Invalid callback data''\<rparr>, sample_world) \<and>
   mpesa_callback_try sample_builtins sample_outside sample_world (Some (PList [])) =
     (Inl (PyError AttributeError), sample_world) \<and>
   mpesa_callback sample_builtins sample_outside sample_world (Some (PList [])) =
     (Inr \<lparr>ResultCode = 1, ResultDesc = ''Callback processing failed''\<rparr>, sample_world)"
proof -
  let ?cb = "callback_payload PNone (PInt 0) []"
  have h1: "Some ?cb = Some ?cb \<and> stkCallback_of ?cb =
      Some ([(''CheckoutRequestID'', PNone), (''ResultCode'', PInt 0),
            (''ResultDesc'', PStr ''desc'')] @ []) \<and> \<not> truthy (checkout_id_of ?cb)"
    by (simp add: stkCallback_of_payload checkout_id_of_payload truthy_def)
  have h2: "mpesa_callback_try sample_builtins sample_outside sample_world (Some (PList [])) =
     (Inl (PyError AttributeError), sample_world)"
    by (simp add: mpesa_callback_try_def py_get_def)
  from h1 h2
    mpesa_callback_always_acknowledges [of sample_builtins sample_outside sample_world
      "Some ?cb" ?cb _ "PyError AttributeError" sample_world]
    mpesa_callback_always_acknowledges [of sample_builtins sample_outside sample_world
      "Some (PList [])" "PList []" "[]" "PyError AttributeError" sample_world]
  show ?thesis
    by (simp add: checkout_id_of_payload)
qed

lemma get_access_token_store:
  "get_access_token B C X w = (r, w') \<Longrightarrow> store w' = store w"
  by (auto simp add: get_access_token_def get_access_token_try_def get_w_def Let_def
      split: if_splits sum.splits exc.splits prod.splits)

lemma post_w_store: "post_w X w url payload hs = (r, w') \<Longrightarrow> store w' = store w"
  by (auto simp add: post_w_def split: sum.splits)

lemma callback_on_record:
  assumes "stkCallback_of cb = Some stk"
    and "dict_get stk ''CheckoutRequestID'' PNone = PStr k" and "k \<noteq> []"
    and "valid_document_id k"
    and "store w k = Some d"
    and "transaction_update B X cb stk = Inr u"
    and "document_writable u"
  shows "mpesa_callback B X w (Some cb) =
     (Inr \<lparr>ResultCode = 0, ResultDesc = ''Callback processed successfully''\<rparr>,
      w\<lparr>store := (store w)(k \<mapsto> d ++ u)\<rparr>)"
  using assms
  by (simp add: mpesa_callback_def mpesa_callback_try_stk process_stk_callback_def Let_def
      truthy_def document_ref_def document_update_def)

lemma set_status_nonzero:
  "n \<noteq> 0 \<Longrightarrow>
   set_status B stk (PInt n) u =
     Inr (u(''status'' \<mapsto> PStr (if n = 1031 then ''failed'' else codeToStatus n)))"
  by (simp add: set_status_def py_eq_int_def codeToStatus_def)

lemma transaction_update_payload_nonzero:
  "n \<noteq> 0 \<Longrightarrow>
   transaction_update B X cb
       ([(''CheckoutRequestID'', cid), (''ResultCode'', PInt n), (''ResultDesc'', PStr ''desc'')] @ extra) =
     Inr ((map_of
          [(''result_code'', PInt n),
           (''result_description'', PStr ''desc''),
           (''callback_received'', PBool True),
           (''callback_timestamp'', SERVER_TIMESTAMP X),
           (''raw_callback'', cb)])
        (''status'' \<mapsto> PStr (if n = 1031 then ''failed'' else codeToStatus n)))"
  by (simp add: transaction_update_def dict_get_def set_status_nonzero)

text \<open>
  Claim C1. For a callback with a nonzero result code the stored status is the one the
  specification's table gives, 1031 being cancelled. The callback handler has no branch
  for 1031, which the check-status handler has: a callback with result code 1031 on an
  existing record is acknowledged and the record's status becomes failed, where the
  table and the check-status mapping say cancelled.
\<close>

theorem callback_1031_stored_as_failed:
  "fst (mpesa_callback B X \<lparr>store = [''ws_CO_1'' \<mapsto> d], calls = []\<rparr>
          (Some (callback_payload (PStr ''ws_CO_1'') (PInt 1031) []))) =
     Inr \<lparr>ResultCode = 0, ResultDesc = ''Callback processed successfully''\<rparr> \<and>
   map_option (\<lambda>doc. doc ''status'')
     (store (snd (mpesa_callback B X \<lparr>store = [''ws_CO_1'' \<mapsto> d], calls = []\<rparr>
          (Some (callback_payload (PStr ''ws_CO_1'') (PInt 1031) [])))) ''ws_CO_1'') =
     Some (Some (PStr ''failed'')) \<and>
   codeToStatus 1031 = ''cancelled'' \<and>
   query_status (PInt 1031) = ''cancelled''"
proof -
  let ?cb = "callback_payload (PStr ''ws_CO_1'') (PInt 1031) []"
  let ?w = "\<lparr>store = [''ws_CO_1'' \<mapsto> d], calls = []\<rparr>"
  have u: "transaction_update B X ?cb
       ([(''CheckoutRequestID'', PStr ''ws_CO_1''), (''ResultCode'', PInt 1031),
         (''ResultDesc'', PStr ''desc'')] @ []) =
     Inr ((map_of
          [(''result_code'', PInt 1031),
           (''result_description'', PStr ''desc''),
           (''callback_received'', PBool True),
           (''callback_timestamp'', SERVER_TIMESTAMP X),
           (''raw_callback'', ?cb)])
        (''status'' \<mapsto> PStr ''failed''))"
    using transaction_update_payload_nonzero [of 1031 B X ?cb "PStr ''ws_CO_1''" "[]"] by simp
  have "mpesa_callback B X ?w (Some ?cb) =
     (Inr \<lparr>ResultCode = 0, ResultDesc = ''Callback processed successfully''\<rparr>,
      ?w\<lparr>store := (store ?w)(''ws_CO_1'' \<mapsto> d ++ (map_of
          [(''result_code'', PInt 1031),
           (''result_description'', PStr ''desc''),
           (''callback_received'', PBool True),
           (''callback_timestamp'', SERVER_TIMESTAMP X),
           (''raw_callback'', ?cb)])
        (''status'' \<mapsto> PStr ''failed''))\<rparr>)"
    by (rule callback_on_record [OF stkCallback_of_payload _ _ _ _ u])
       (simp_all add: dict_get_def valid_document_id_def document_writable_def
         written_fields_def callback_payload_def)
  then show ?thesis
    by (simp add: codeToStatus_def query_status_def py_eq_int_def)
qed

subsection \<open>What the handlers do to the store\<close>

lemma query_gateway_store:
  assumes "query_gateway B C X w cid d = (r, w')" and "store w cid = Some d"
  shows "store w' = store w \<or> (\<exists>result. store w' = (store w)(cid \<mapsto> d ++ status_update X result))"
proof (cases "truthy (doc_get d ''merchant_request_id'' PNone)")
  case False
  with assms show ?thesis by (simp add: query_gateway_def)
next
  case True
  obtain ra w1 where a: "get_access_token B C X w = (ra, w1)"
    by (cases "get_access_token B C X w") blast
  from get_access_token_store [OF a] have s1: "store w1 = store w" .
  show ?thesis
  proof (cases ra)
    case (Inl e)
    with assms True a s1 show ?thesis by (simp add: query_gateway_def)
  next
    case (Inr tok)
    let ?ts = "now X"
    let ?hs = "[(''Authorization'', ''Bearer '' @ py_str B tok),
                   (''Content-Type'', ''application/json'')]"
    let ?payload = "PDict
               [(''BusinessShortCode'', PStr (BUSINESS_SHORT_CODE C)),
                (''Password'', PStr (b64encode B (BUSINESS_SHORT_CODE C @ opt_str (PASS_KEY C) @ ?ts))),
                (''Timestamp'', PStr ?ts),
                (''CheckoutRequestID'', PStr cid)]"
    obtain rp w2 where p: "post_w X w1 (QUERY_URL C) ?payload ?hs = (rp, w2)"
      by (cases "post_w X w1 (QUERY_URL C) ?payload ?hs") blast
    from post_w_store [OF p] s1 have s2: "store w2 = store w" by simp
    from assms True a Inr p have
      r: "(r, w') = (case rp of Inl e \<Rightarrow> (Inl e, w2)
            | Inr (PDict result) \<Rightarrow> apply_query_result X w2 cid d result
            | Inr _ \<Rightarrow> (Inl (PyError AttributeError), w2))"
      by (simp add: query_gateway_def Let_def)
    show ?thesis
    proof (cases rp)
      case (Inl e)
      with r s2 show ?thesis by simp
    next
      case (Inr v)
      with r s2 assms(2) show ?thesis
        by (cases v)
           (auto simp add: apply_query_result_def document_ref_def document_update_def
             split: if_splits)
    qed
  qed
qed

lemma check_transaction_status_store:
  assumes "check_transaction_status B C X w request = (r, w')"
  shows "store w' = store w \<or>
     (\<exists>d result. store w (checkout_request_id request) = Some d \<and>
        store w' = (store w)(checkout_request_id request \<mapsto> d ++ status_update X result))"
proof (cases "store w (checkout_request_id request)")
  case None
  with assms show ?thesis
    by (auto simp add: check_transaction_status_def check_transaction_status_try_def
        document_ref_def Let_def split: if_splits)
next
  case (Some d)
  show ?thesis
  proof (cases "valid_document_id (checkout_request_id request) \<and>
      \<not> truthy (doc_get d ''callback_received'' (PBool False))")
    case False
    with assms Some show ?thesis
      by (auto simp add: check_transaction_status_def check_transaction_status_try_def
          document_ref_def Let_def split: if_splits)
  next
    case True
    obtain rq wq where q: "query_gateway B C X w (checkout_request_id request) d = (rq, wq)"
      by (cases "query_gateway B C X w (checkout_request_id request) d") blast
    with assms Some True have "w' = wq"
      by (auto simp add: check_transaction_status_def check_transaction_status_try_def
          document_ref_def Let_def split: sum.splits)
    with query_gateway_store [OF q Some] Some show ?thesis by auto
  qed
qed

lemma dom_overwrite: "m k = Some d \<Longrightarrow> dom (m(k \<mapsto> x)) = dom m"
  by auto

text \<open>
  Claim C10. The callback handler never creates a transaction record, and neither does
  the check-status handler: after either the store holds documents under the same
  identifiers as before. A callback whose checkout id matches no stored record is
  acknowledged with result code 1 and leaves the store as it was; when the handler has
  computed its update, the update of the missing document fails (with NotFound, or with
  the client's refusal of an update it cannot encode), the \<^verbatim>\<open>except\<close> clause swallows
  the failure and the acknowledgment is "Callback processing failed".
\<close>

theorem callback_never_creates_record:
  "dom (store (snd (mpesa_callback B X w request))) = dom (store w) \<and>
   dom (store (snd (check_transaction_status B C X w status_request))) = dom (store w) \<and>
   (request = Some cb \<and> (\<forall>k. checkout_id_of cb = PStr k \<longrightarrow> store w k = None) \<longrightarrow>
      (\<exists>desc. mpesa_callback B X w request = (Inr \<lparr>ResultCode = 1, ResultDesc = desc\<rparr>, w))) \<and>
   (request = Some cb \<and> stkCallback_of cb = Some stk \<and> checkout_id_of cb = PStr k \<and> k \<noteq> [] \<and>
    store w k = None \<and> transaction_update B X cb stk = Inr u \<longrightarrow>
      document_update w k u =
        Inl (PyError (if document_writable u then NotFound else ValueError)) \<and>
      mpesa_callback_try B X w request =
        (Inl (PyError (if valid_document_id k \<and> document_writable u
                       then NotFound else ValueError)), w) \<and>
      mpesa_callback B X w request =
        (Inr \<lparr>ResultCode = 1, ResultDesc = ''Callback processing failed''\<rparr>, w))"
proof (intro conjI impI)
  obtain r w' where m: "mpesa_callback B X w request = (r, w')"
    by (cases "mpesa_callback B X w request") blast
  have "dom (store w') = dom (store w)"
  proof -
    have h: "dom (store w') = dom (store w)"
      if "store w k = Some d" "w' = w\<lparr>store := (store w)(k \<mapsto> d ++ u)\<rparr>" for k d u
      using that dom_overwrite [of "store w" k d "d ++ u"] by simp
    from mpesa_callback_result [OF m] show ?thesis
    proof (elim disjE exE conjE)
      assume "w' = w"
      then show ?thesis by simp
    next
      fix cb stk k d u
      assume "store w k = Some d" "w' = w\<lparr>store := (store w)(k \<mapsto> d ++ u)\<rparr>"
      then show ?thesis by (rule h)
    qed
  qed
  with m show "dom (store (snd (mpesa_callback B X w request))) = dom (store w)"
    by simp
next
  obtain r w' where c: "check_transaction_status B C X w status_request = (r, w')"
    by (cases "check_transaction_status B C X w status_request") blast
  have "dom (store w') = dom (store w)"
  proof -
    have h: "dom (store w') = dom (store w)"
      if "store w k = Some d" "store w' = (store w)(k \<mapsto> x)" for k d x
      using that dom_overwrite [of "store w" k d x] by simp
    from check_transaction_status_store [OF c] show ?thesis
    proof (elim disjE exE conjE)
      assume "store w' = store w"
      then show ?thesis by simp
    next
      fix d result
      assume "store w (checkout_request_id status_request) = Some d"
        "store w' = (store w)(checkout_request_id status_request \<mapsto> d ++ status_update X result)"
      then show ?thesis by (rule h)
    qed
  qed
  with c show "dom (store (snd (check_transaction_status B C X w status_request))) = dom (store w)"
    by simp
next
  assume a: "request = Some cb \<and> (\<forall>k. checkout_id_of cb = PStr k \<longrightarrow> store w k = None)"
  obtain r w' where m: "mpesa_callback B X w request = (r, w')"
    by (cases "mpesa_callback B X w request") blast
  from mpesa_callback_result [OF m] a
  have "w' = w \<and> (\<exists>desc. r = Inr \<lparr>ResultCode = 1, ResultDesc = desc\<rparr>)"
    by auto
  with m show "\<exists>desc. mpesa_callback B X w request = (Inr \<lparr>ResultCode = 1, ResultDesc = desc\<rparr>, w)"
    by auto
next
  assume a: "request = Some cb \<and> stkCallback_of cb = Some stk \<and> checkout_id_of cb = PStr k \<and>
    k \<noteq> [] \<and> store w k = None \<and> transaction_update B X cb stk = Inr u"
  then show "document_update w k u =
      Inl (PyError (if document_writable u then NotFound else ValueError))"
    by (simp add: document_update_def)
  from a have t: "mpesa_callback_try B X w request =
      (Inl (PyError (if valid_document_id k \<and> document_writable u
                     then NotFound else ValueError)), w)"
    by (clarsimp simp add: mpesa_callback_try_stk process_stk_callback_def Let_def
        checkout_id_of_def truthy_def document_ref_def document_update_def)
  then show "mpesa_callback_try B X w request =
      (Inl (PyError (if valid_document_id k \<and> document_writable u
                     then NotFound else ValueError)), w)" .
  from mpesa_callback_unfold [OF t]
  show "mpesa_callback B X w request =
        (Inr \<lparr>ResultCode = 1, ResultDesc = ''Callback processing failed''\<rparr>, w)"
    by simp
qed

theorem callback_never_creates_record_witness:
  "store sample_world ''ws_CO_9'' = None \<and> valid_document_id ''ws_CO_9'' \<and>
   mpesa_callback_try sample_builtins sample_outside sample_world
       (Some (callback_payload (PStr ''ws_CO_9'') (PInt 1032) [])) =
     (Inl (PyError NotFound), sample_world) \<and>
   mpesa_callback sample_builtins sample_outside sample_world
       (Some (callback_payload (PStr ''ws_CO_9'') (PInt 1032) [])) =
     (Inr \<lparr>ResultCode = 1, ResultDesc = ''Callback processing failed''\<rparr>, sample_world)"
proof -
  let ?cb = "callback_payload (PStr ''ws_CO_9'') (PInt 1032) []"
  let ?stk = "[(''CheckoutRequestID'', PStr ''ws_CO_9''), (''ResultCode'', PInt 1032),
               (''ResultDesc'', PStr ''desc'')] @ []"
  let ?u = "(map_of
          [(''result_code'', PInt 1032),
           (''result_description'', PStr ''desc''),
           (''callback_received'', PBool True),
           (''callback_timestamp'', SERVER_TIMESTAMP sample_outside),
           (''raw_callback'', ?cb)])
        (''status'' \<mapsto> PStr ''cancelled'')"
  have u: "transaction_update sample_builtins sample_outside ?cb ?stk = Inr ?u"
    using transaction_update_payload_nonzero
      [of 1032 sample_builtins sample_outside ?cb "PStr ''ws_CO_9''" "[]"]
    by (simp add: codeToStatus_def)
  have s: "store sample_world ''ws_CO_9'' = None"
    by (simp add: sample_world_def)
  have h1: "Some ?cb = Some ?cb \<and> (\<forall>k. checkout_id_of ?cb = PStr k \<longrightarrow> store sample_world k = None)"
    using s by (simp add: checkout_id_of_payload)
  have h2: "Some ?cb = Some ?cb \<and> stkCallback_of ?cb = Some ?stk \<and>
      checkout_id_of ?cb = PStr ''ws_CO_9'' \<and> ''ws_CO_9'' \<noteq> [] \<and>
      store sample_world ''ws_CO_9'' = None \<and>
      transaction_update sample_builtins sample_outside ?cb ?stk = Inr ?u"
    using s u by (simp add: checkout_id_of_payload stkCallback_of_payload)
  have h3: "valid_document_id ''ws_CO_9'' \<and> document_writable ?u"
    by (simp add: valid_document_id_def document_writable_def written_fields_def
        callback_payload_def)
  note t = callback_never_creates_record
    [of sample_builtins sample_outside sample_world "Some ?cb" sample_config _ ?cb ?stk
      "''ws_CO_9''" ?u, THEN conjunct2, THEN conjunct2, THEN conjunct2, THEN mp, OF h2]
  from t h3 have "mpesa_callback_try sample_builtins sample_outside sample_world (Some ?cb) =
      (Inl (PyError NotFound), sample_world)"
    by simp
  moreover from t have "mpesa_callback sample_builtins sample_outside sample_world (Some ?cb) =
      (Inr \<lparr>ResultCode = 1, ResultDesc = ''Callback processing failed''\<rparr>, sample_world)"
    by blast
  ultimately show ?thesis using s h3 by blast
qed

subsection \<open>The initiate handler\<close>

lemma store_transaction_store:
  assumes "store_transaction X w request phone a result = (r, w')"
  shows "store w' = store w \<or>
     (\<exists>k. store w' = (store w)(k \<mapsto> transaction_data X request phone a result))"
  using assms
  by (auto simp add: store_transaction_def Let_def document_set_def split: sum.splits if_splits)

lemma send_stk_push_store:
  assumes "send_stk_push B C X w request phone a = (r, w')"
  shows "store w' = store w \<or>
     (\<exists>k result. store w' = (store w)(k \<mapsto> transaction_data X request phone a result))"
proof (cases "generate_password B C X")
  case (Inl e)
  with assms show ?thesis by (simp add: send_stk_push_def)
next
  case (Inr pt)
  obtain password timestamp where pt: "pt = (password, timestamp)"
    by (cases pt) blast
  obtain ra w1 where a: "get_access_token B C X w = (ra, w1)"
    by (cases "get_access_token B C X w") blast
  from get_access_token_store [OF a] have s1: "store w1 = store w" .
  show ?thesis
  proof (cases ra)
    case (Inl e)
    with assms Inr pt a s1 show ?thesis by (simp add: send_stk_push_def)
  next
    case tok: (Inr access_token)
    let ?hs = "[(''Authorization'', ''Bearer '' @ py_str B access_token),
                (''Content-Type'', ''application/json'')]"
    let ?payload = "PDict
            [(''BusinessShortCode'', PStr (BUSINESS_SHORT_CODE C)),
             (''Password'', PStr password),
             (''Timestamp'', PStr timestamp),
             (''TransactionType'', PStr TRANSACTION_TYPE),
             (''Amount'', PInt a),
             (''PartyA'', PStr phone),
             (''PartyB'', PStr PARTY_B),
             (''PhoneNumber'', PStr phone),
             (''CallBackURL'', opt_val (CALLBACK_URL C)),
             (''AccountReference'', opt_val (account_reference request)),
             (''TransactionDesc'', opt_val (transaction_desc request))]"
    obtain rp w2 where p: "post_w X w1 (STK_PUSH_URL C) ?payload ?hs = (rp, w2)"
      by (cases "post_w X w1 (STK_PUSH_URL C) ?payload ?hs") blast
    from post_w_store [OF p] s1 have s2: "store w2 = store w" by simp
    from assms Inr pt a tok p have
      r: "(r, w') = (case rp of
           Inl e \<Rightarrow> (Inl e, w2)
         | Inr (PDict result) \<Rightarrow>
             if py_eq_str (dict_get result ''ResponseCode'' PNone) ''0''
             then store_transaction X w2 request phone a result
             else (Inl (HTTPException 400
                     (''STK push request failed: '' @
                      py_str B (dict_get result ''errorMessage'' (PStr ''Unknown error'')))), w2)
         | Inr _ \<Rightarrow> (Inl (PyError AttributeError), w2))"
      by (simp add: send_stk_push_def Let_def)
    show ?thesis
    proof (cases rp)
      case (Inl e)
      with r s2 show ?thesis by simp
    next
      case (Inr v)
      show ?thesis
      proof (cases v)
        case (PDict result)
        show ?thesis
        proof (cases "py_eq_str (dict_get result ''ResponseCode'' PNone) ''0''")
          case True
          with r Inr PDict have "store_transaction X w2 request phone a result = (r, w')"
            by simp
          from store_transaction_store [OF this] s2 show ?thesis by auto
        next
          case False
          with r Inr PDict s2 show ?thesis by simp
        qed
      qed (use r Inr s2 in simp_all)
    qed
  qed
qed

lemma initiate_try_store:
  assumes "initiate_stk_push_try B C X w request = (r, w')"
  shows "store w' = store w \<or>
     (\<exists>q k result phone. amount request = Fin q \<and> 0 < trunc_rat q \<and>
        store w' = (store w)(k \<mapsto> transaction_data X request phone (trunc_rat q) result))"
proof (cases "amount request")
  case (Fin q)
  let ?phone = "format_phone_number (phone_number request)"
  show ?thesis
  proof (cases "length ?phone = 12 \<and> str_isdigit ?phone \<and> 0 < trunc_rat q")
    case True
    with assms Fin have "send_stk_push B C X w request ?phone (trunc_rat q) = (r, w')"
      by (simp add: initiate_stk_push_try_def py_int_of_float_def Let_def)
    from send_stk_push_store [OF this] Fin True show ?thesis by blast
  next
    case False
    with assms Fin have "w' = w"
      by (auto simp add: initiate_stk_push_try_def py_int_of_float_def Let_def split: if_splits)
    then show ?thesis by simp
  qed
qed (use assms in \<open>simp_all add: initiate_stk_push_try_def py_int_of_float_def Let_def\<close>)

lemma initiate_snd:
  "snd (initiate_stk_push B C X w request) = snd (initiate_stk_push_try B C X w request)"
  by (simp add: initiate_stk_push_def split: prod.splits sum.splits)

lemma transaction_data_amount:
  "transaction_data X request phone a result ''amount'' = Some (PInt a)"
  by (simp add: transaction_data_def)

lemma transaction_data_fields:
  "transaction_data X request phone a result ''phone_number'' = Some (PStr phone) \<and>
   transaction_data X request phone a result ''status'' = Some (PStr ''pending'')"
  by (simp add: transaction_data_def)


text \<open>
  Claim C9. Every record the initiate handler creates has an amount that is a positive
  integer: the submitted float is truncated towards zero before it is validated and
  stored, so a document that the handler writes holds \<open>PInt\<close> of the truncated amount,
  which is greater than zero; and a request whose truncated amount is zero or negative is
  rejected with the store and the gateway untouched.
\<close>

theorem stored_amount_positive_integer:
  assumes i: "initiate_stk_push B C X w request = (r, w')"
  shows "(\<forall>k. store w' k \<noteq> store w k \<longrightarrow>
      (\<exists>d q. store w' k = Some d \<and> amount request = Fin q \<and> 0 < trunc_rat q \<and>
         d ''amount'' = Some (PInt (trunc_rat q)))) \<and>
   (\<forall>q. amount request = Fin q \<and> trunc_rat q \<le> 0 \<longrightarrow>
      (\<exists>detail. r = Inl (HTTPException 500 detail)) \<and> w' = w)"
proof (rule conjI; intro allI impI)
  obtain r0 where t: "initiate_stk_push_try B C X w request = (r0, w')"
    using i initiate_snd [of B C X w request]
    by (cases "initiate_stk_push_try B C X w request") simp
  fix k
  assume ne: "store w' k \<noteq> store w k"
  from initiate_try_store [OF t] ne
  obtain q k0 result phone where q: "amount request = Fin q" "0 < trunc_rat q"
    and s: "store w' = (store w)(k0 \<mapsto> transaction_data X request phone (trunc_rat q) result)"
    by auto
  from s ne have "k = k0"
    by (auto split: if_splits)
  with s have "store w' k = Some (transaction_data X request phone (trunc_rat q) result)"
    by simp
  with q transaction_data_amount [of X request phone "trunc_rat q" result]
  show "\<exists>d q. store w' k = Some d \<and> amount request = Fin q \<and> 0 < trunc_rat q \<and>
         d ''amount'' = Some (PInt (trunc_rat q))"
    by blast
next
  fix q
  assume a: "amount request = Fin q \<and> trunc_rat q \<le> 0"
  then have "\<exists>e. initiate_stk_push_try B C X w request = (Inl e, w)"
    by (simp add: initiate_stk_push_try_def py_int_of_float_def Let_def)
  then obtain e where "initiate_stk_push_try B C X w request = (Inl e, w)" ..
  with i have "r = Inl (except_clauses B e)" "w' = w"
    by (simp_all add: initiate_stk_push_def)
  then show "(\<exists>detail. r = Inl (HTTPException 500 detail)) \<and> w' = w"
    by (cases e) (simp_all add: except_clauses_def)
qed

lemma trunc_rat_examples: "trunc_rat (201 / 2) = 100" "trunc_rat (1 / 2) = 0"
  unfolding trunc_rat_def by code_simp+

lemma format_phone_number_example: "format_phone_number ''0722000000'' = ''254722000000''"
  by (simp add: format_phone_number_def startswith_def isdigit_def)

lemma initiate_example:
  "store (snd (initiate_stk_push sample_builtins sample_config sample_outside sample_world
       \<lparr>phone_number = ''0722000000'', amount = Fin (201 / 2), account_reference = None,
        transaction_desc = None\<rparr>)) ''ws_CO_2'' =
   Some (transaction_data sample_outside
       \<lparr>phone_number = ''0722000000'', amount = Fin (201 / 2), account_reference = None,
        transaction_desc = None\<rparr> ''254722000000'' 100
       [(''ResponseCode'', PStr ''0''),
        (''CheckoutRequestID'', PStr ''ws_CO_2''),
        (''MerchantRequestID'', PStr ''m-2''),
        (''ResultCode'', PInt 1032),
        (''ResultDesc'', PStr ''Request cancelled by user'')])"
  by (simp add: initiate_snd initiate_stk_push_try_def py_int_of_float_def trunc_rat_examples
      format_phone_number_example str_isdigit_def isdigit_def send_stk_push_def
      generate_password_def get_access_token_def get_access_token_try_def get_w_def post_w_def
      py_get_def truthy_def py_eq_str_def dict_get_def store_transaction_def document_ref_def
      document_set_def document_writable_def written_fields_def transaction_data_def opt_val_def
      valid_document_id_def opt_falsy_def sample_config_def sample_outside_def sample_world_def
      Let_def)


theorem stored_amount_positive_integer_witness:
  "store (snd (initiate_stk_push sample_builtins sample_config sample_outside sample_world
       \<lparr>phone_number = ''0722000000'', amount = Fin (201 / 2), account_reference = None,
        transaction_desc = None\<rparr>)) ''ws_CO_2'' \<noteq> store sample_world ''ws_CO_2'' \<and>
   (\<exists>d. store (snd (initiate_stk_push sample_builtins sample_config sample_outside sample_world
       \<lparr>phone_number = ''0722000000'', amount = Fin (201 / 2), account_reference = None,
        transaction_desc = None\<rparr>)) ''ws_CO_2'' = Some d \<and> d ''amount'' = Some (PInt 100)) \<and>
   trunc_rat (1 / 2) \<le> 0 \<and>
   (\<exists>detail. fst (initiate_stk_push sample_builtins sample_config sample_outside sample_world
       \<lparr>phone_number = ''0722000000'', amount = Fin (1 / 2), account_reference = None,
        transaction_desc = None\<rparr>) = Inl (HTTPException 500 detail)) \<and>
   snd (initiate_stk_push sample_builtins sample_config sample_outside sample_world
       \<lparr>phone_number = ''0722000000'', amount = Fin (1 / 2), account_reference = None,
        transaction_desc = None\<rparr>) = sample_world"
proof -
  let ?r1 = "\<lparr>phone_number = ''0722000000'', amount = Fin (201 / 2), account_reference = None,
        transaction_desc = None\<rparr>"
  let ?r2 = "\<lparr>phone_number = ''0722000000'', amount = Fin (1 / 2), account_reference = None,
        transaction_desc = None\<rparr>"
  let ?i1 = "initiate_stk_push sample_builtins sample_config sample_outside sample_world ?r1"
  let ?i2 = "initiate_stk_push sample_builtins sample_config sample_outside sample_world ?r2"
  have e1: "?i1 = (fst ?i1, snd ?i1)" and e2: "?i2 = (fst ?i2, snd ?i2)"
    by simp_all
  have ne: "store (snd ?i1) ''ws_CO_2'' \<noteq> store sample_world ''ws_CO_2''"
    by (simp add: initiate_example) (simp add: sample_world_def)
  from stored_amount_positive_integer [OF e1, THEN conjunct1, THEN spec, of "''ws_CO_2''"] ne
  obtain d q where d: "store (snd ?i1) ''ws_CO_2'' = Some d" "amount ?r1 = Fin q"
      "d ''amount'' = Some (PInt (trunc_rat q))"
    by blast
  from d(2) have "q = 201 / 2" by simp
  with d(3) have "d ''amount'' = Some (PInt 100)"
    by (simp only: trunc_rat_examples)
  with d(1) have a: "\<exists>d. store (snd ?i1) ''ws_CO_2'' = Some d \<and> d ''amount'' = Some (PInt 100)"
    by blast
  have h2: "amount ?r2 = Fin (1 / 2) \<and> trunc_rat (1 / 2) \<le> 0"
    by (simp add: trunc_rat_examples)
  from stored_amount_positive_integer [OF e2, THEN conjunct2, THEN spec, of "1 / 2"] h2
  have b: "(\<exists>detail. fst ?i2 = Inl (HTTPException 500 detail)) \<and> snd ?i2 = sample_world"
    by blast
  from ne a h2 b show ?thesis by blast
qed

subsection \<open>Repeating a callback\<close>

lemma ts_twist:
  "k \<noteq> ''callback_timestamp'' \<Longrightarrow>
   (u(''callback_timestamp'' \<mapsto> v))(k \<mapsto> x) = (u(k \<mapsto> x))(''callback_timestamp'' \<mapsto> v)"
  by (simp add: fun_upd_twist)

lemma process_item_ts:
  "process_item B (u(''callback_timestamp'' \<mapsto> v)) item =
     map_sum id (\<lambda>u'. u'(''callback_timestamp'' \<mapsto> v)) (process_item B u item)"
  by (simp add: process_item_def ts_twist split: sum.splits)

lemma process_items_ts:
  "process_items B (u(''callback_timestamp'' \<mapsto> v)) items =
     map_sum id (\<lambda>u'. u'(''callback_timestamp'' \<mapsto> v)) (process_items B u items)"
proof (induction items arbitrary: u)
  case Nil
  show ?case by simp
next
  case (Cons item items)
  show ?case
  proof (cases "process_item B u item")
    case (Inl e)
    then show ?thesis
      by (simp only: process_items.simps process_item_ts map_sum.simps sum.case)
  next
    case (Inr u1)
    then show ?thesis
      by (simp only: process_items.simps process_item_ts map_sum.simps sum.case Cons.IH)
  qed
qed

lemma set_status_ts:
  "set_status B stk rc (u(''callback_timestamp'' \<mapsto> v)) =
     map_sum id (\<lambda>u'. u'(''callback_timestamp'' \<mapsto> v)) (set_status B stk rc u)"
  by (simp add: set_status_def Let_def ts_twist process_items_ts split: option.splits sum.splits)

lemma transaction_update_outside:
  "transaction_update B X2 cb stk =
     map_sum id (\<lambda>u. u(''callback_timestamp'' \<mapsto> SERVER_TIMESTAMP X2)) (transaction_update B X1 cb stk)"
proof -
  let ?base = "\<lambda>X. map_of
          [(''result_code'', dict_get stk ''ResultCode'' PNone),
           (''result_description'', dict_get stk ''ResultDesc'' PNone),
           (''callback_received'', PBool True),
           (''callback_timestamp'', SERVER_TIMESTAMP X),
           (''raw_callback'', cb)]"
  have "?base X2 = (?base X1)(''callback_timestamp'' \<mapsto> SERVER_TIMESTAMP X2)"
    by (rule ext) simp
  then show ?thesis
    unfolding transaction_update_def by (simp only: set_status_ts)
qed

lemma process_stk_callback_cases:
  "process_stk_callback B X w cb stk =
     (case dict_get stk ''CheckoutRequestID'' PNone of
        PStr k \<Rightarrow>
          if k = [] then (Inr \<lparr>ResultCode = 1, ResultDesc = ''Invalid callback data''\<rparr>, w)
          else if \<not> valid_document_id k then (Inl (PyError ValueError), w)
          else
            (case transaction_update B X cb stk of
               Inl e \<Rightarrow> (Inl e, w)
             | Inr u \<Rightarrow>
                 if \<not> document_writable u then (Inl (PyError ValueError), w)
                 else
                   (case store w k of
                      None \<Rightarrow> (Inl (PyError NotFound), w)
                    | Some d \<Rightarrow>
                        (Inr \<lparr>ResultCode = 0, ResultDesc = ''Callback processed successfully''\<rparr>,
                         w\<lparr>store := (store w)(k \<mapsto> d ++ u)\<rparr>)))
      | v \<Rightarrow>
          if truthy v then (Inl (PyError TypeError), w)
          else (Inr \<lparr>ResultCode = 1, ResultDesc = ''Invalid callback data''\<rparr>, w))"
  by (simp add: process_stk_callback_def Let_def truthy_def document_ref_def document_update_def
      split: pyval.splits sum.splits option.splits)

lemma document_writable_ts:
  "document_writable (u(''callback_timestamp'' \<mapsto> v)) = document_writable u"
  by (rule document_writable_other) (simp add: written_fields_def)


lemma mpesa_callback_stk:
  "stkCallback_of cb = Some stk \<Longrightarrow>
   mpesa_callback B X w (Some cb) =
     (case process_stk_callback B X w cb stk of
        (Inl e, w') \<Rightarrow> (Inr \<lparr>ResultCode = 1, ResultDesc = ''Callback processing failed''\<rparr>, w')
      | (Inr a, w') \<Rightarrow> (Inr a, w'))"
  by (simp add: mpesa_callback_def mpesa_callback_try_stk)

lemma mpesa_callback_no_stk:
  "request = None \<or> (\<exists>cb. request = Some cb \<and> stkCallback_of cb = None) \<Longrightarrow>
   mpesa_callback B X w request =
     (Inr \<lparr>ResultCode = 1, ResultDesc = ''Callback processing failed''\<rparr>, w)"
proof (elim disjE exE conjE)
  assume "request = None"
  then show ?thesis by (simp add: mpesa_callback_def mpesa_callback_try_def)
next
  fix cb assume "request = Some cb" "stkCallback_of cb = None"
  then show ?thesis by (simp add: mpesa_callback_def mpesa_callback_try_stk)
qed

lemma repeat_same:
  assumes "mpesa_callback B X1 w request = (r1, w1)"
    and "mpesa_callback B X1 w request = (a, w)"
    and "mpesa_callback B X2 w request = (a, w)"
  shows "w1 = w \<and> mpesa_callback B X2 w request = (r1, w)"
  using assms by simp

lemma callback_repeat:
  assumes m1: "mpesa_callback B X1 w request = (r1, w1)"
  shows "(w1 = w \<and> mpesa_callback B X2 w request = (r1, w)) \<or>
     (\<exists>k d u. store w k = Some d \<and> w1 = w\<lparr>store := (store w)(k \<mapsto> d ++ u)\<rparr> \<and>
        mpesa_callback B X2 w1 request =
          (r1, w1\<lparr>store := (store w1)(k \<mapsto>
                 (d ++ u) ++ u(''callback_timestamp'' \<mapsto> SERVER_TIMESTAMP X2))\<rparr>))"
proof (cases "request = None \<or> (\<exists>cb. request = Some cb \<and> stkCallback_of cb = None)")
  case True
  from repeat_same [OF m1 mpesa_callback_no_stk [OF True] mpesa_callback_no_stk [OF True]]
  show ?thesis by blast
next
  case False
  then obtain cb stk where cb: "request = Some cb" and stk: "stkCallback_of cb = Some stk"
    by (cases request) auto
  note c = mpesa_callback_stk [OF stk]
  note tu = transaction_update_outside [of B X2 cb stk X1]
  show ?thesis
  proof (cases "dict_get stk ''CheckoutRequestID'' PNone")
    case (PStr k)
    show ?thesis
    proof (cases "k = []")
      case True
      with cb PStr have "mpesa_callback B X w request =
          (Inr \<lparr>ResultCode = 1, ResultDesc = ''Invalid callback data''\<rparr>, w)" for X
        by (simp add: c process_stk_callback_cases)
      from repeat_same [OF m1 this this] show ?thesis by blast
    next
      case False
      note k = this
      show ?thesis
      proof (cases "valid_document_id k")
        case False
        with cb PStr k have "mpesa_callback B X w request =
          (Inr \<lparr>ResultCode = 1, ResultDesc = ''Callback processing failed''\<rparr>, w)" for X
          by (simp add: c process_stk_callback_cases)
        from repeat_same [OF m1 this this] show ?thesis by blast
      next
        case True
        note v = this
        show ?thesis
        proof (cases "transaction_update B X1 cb stk")
          case (Inl e)
          with tu have "transaction_update B X2 cb stk = Inl e" by simp
          with Inl cb PStr k v have "mpesa_callback B X1 w request =
            (Inr \<lparr>ResultCode = 1, ResultDesc = ''Callback processing failed''\<rparr>, w)"
            "mpesa_callback B X2 w request =
            (Inr \<lparr>ResultCode = 1, ResultDesc = ''Callback processing failed''\<rparr>, w)"
            by (simp_all add: c process_stk_callback_cases)
          from repeat_same [OF m1 this] show ?thesis by blast
        next
          case (Inr u)
          note u = this
          with tu have u2: "transaction_update B X2 cb stk =
              Inr (u(''callback_timestamp'' \<mapsto> SERVER_TIMESTAMP X2))" by simp
          show ?thesis
          proof (cases "document_writable u \<and> store w k \<noteq> None")
            case False
            with u u2 cb PStr k v have "mpesa_callback B X1 w request =
              (Inr \<lparr>ResultCode = 1, ResultDesc = ''Callback processing failed''\<rparr>, w)"
              "mpesa_callback B X2 w request =
              (Inr \<lparr>ResultCode = 1, ResultDesc = ''Callback processing failed''\<rparr>, w)"
              by (auto simp add: c process_stk_callback_cases document_writable_ts)
            from repeat_same [OF m1 this] show ?thesis by blast
          next
            case True
            then obtain d where wr: "document_writable u" and d: "store w k = Some d"
              by blast
            with cb PStr k v u have "mpesa_callback B X1 w request =
                (Inr \<lparr>ResultCode = 0, ResultDesc = ''Callback processed successfully''\<rparr>,
                 w\<lparr>store := (store w)(k \<mapsto> d ++ u)\<rparr>)"
              by (simp add: c process_stk_callback_cases)
            with m1 have
              r1: "r1 = Inr \<lparr>ResultCode = 0, ResultDesc = ''Callback processed successfully''\<rparr>"
              and w1: "w1 = w\<lparr>store := (store w)(k \<mapsto> d ++ u)\<rparr>"
              by simp_all
            from w1 have s1: "store w1 k = Some (d ++ u)" by simp
            from cb PStr k v wr u2 s1 r1 have
              "mpesa_callback B X2 w1 request =
                (r1, w1\<lparr>store := (store w1)(k \<mapsto>
                   (d ++ u) ++ u(''callback_timestamp'' \<mapsto> SERVER_TIMESTAMP X2))\<rparr>)"
              by (simp add: c process_stk_callback_cases document_writable_ts)
            with d w1 show ?thesis by blast
          qed
        qed
      qed
    qed
  next
    case PNone
    with cb have "mpesa_callback B X w request =
          (Inr \<lparr>ResultCode = 1, ResultDesc = ''Invalid callback data''\<rparr>, w)" for X
      by (simp add: c process_stk_callback_cases truthy_def)
    from repeat_same [OF m1 this this] show ?thesis by blast
  next
    case (PBool b)
    with cb have "\<exists>a. \<forall>X. mpesa_callback B X w request = (a, w)"
      by (cases b) (simp_all add: c process_stk_callback_cases truthy_def)
    then obtain a where "mpesa_callback B X w request = (a, w)" for X by blast
    from repeat_same [OF m1 this this] show ?thesis by blast
  next
    case (PInt i)
    with cb have "\<exists>a. \<forall>X. mpesa_callback B X w request = (a, w)"
      by (cases "i = 0") (simp_all add: c process_stk_callback_cases truthy_def)
    then obtain a where "mpesa_callback B X w request = (a, w)" for X by blast
    from repeat_same [OF m1 this this] show ?thesis by blast
  next
    case (PFloat f)
    with cb have "\<exists>a. \<forall>X. mpesa_callback B X w request = (a, w)"
      by (cases "f = Fin 0") (simp_all add: c process_stk_callback_cases truthy_def)
    then obtain a where "mpesa_callback B X w request = (a, w)" for X by blast
    from repeat_same [OF m1 this this] show ?thesis by blast
  next
    case (PList xs)
    with cb have "\<exists>a. \<forall>X. mpesa_callback B X w request = (a, w)"
      by (cases "xs = []") (simp_all add: c process_stk_callback_cases truthy_def)
    then obtain a where "mpesa_callback B X w request = (a, w)" for X by blast
    from repeat_same [OF m1 this this] show ?thesis by blast
  next
    case (PDict kvs)
    with cb have "\<exists>a. \<forall>X. mpesa_callback B X w request = (a, w)"
      by (cases "kvs = []") (simp_all add: c process_stk_callback_cases truthy_def)
    then obtain a where "mpesa_callback B X w request = (a, w)" for X by blast
    from repeat_same [OF m1 this this] show ?thesis by blast
  next
    case (PTimestamp t)
    with cb have "mpesa_callback B X w request =
          (Inr \<lparr>ResultCode = 1, ResultDesc = ''Callback processing failed''\<rparr>, w)" for X
      by (simp add: c process_stk_callback_cases truthy_def)
    from repeat_same [OF m1 this this] show ?thesis by blast
  qed
qed

lemma map_add_again:
  "f \<noteq> t \<Longrightarrow> ((d ++ u) ++ u(t \<mapsto> v)) f = (d ++ u) f"
  by (simp add: map_add_def split: option.splits)

subsection \<open>Extraction of the callback metadata\<close>

lemma process_item_Amount:
  "map_of kvs ''Name'' = Some (PStr ''Amount'') \<Longrightarrow>
   process_item B u (PDict kvs) =
     (case map_of kvs ''Value'' of
        None \<Rightarrow> Inl (PyError KeyError)
      | Some v \<Rightarrow>
          (case py_float B v of
             Inl e \<Rightarrow> Inl e
           | Inr f \<Rightarrow> Inr (u(''confirmed_amount'' \<mapsto> PFloat f))))"
  by (simp add: process_item_def py_getitem_def py_eq_str_def split: option.splits)

lemma process_item_MpesaReceiptNumber:
  "map_of kvs ''Name'' = Some (PStr ''MpesaReceiptNumber'') \<Longrightarrow>
   process_item B u (PDict kvs) =
     (case map_of kvs ''Value'' of
        None \<Rightarrow> Inl (PyError KeyError)
      | Some v \<Rightarrow> Inr (u(''mpesa_receipt_number'' \<mapsto> PStr (py_str B v))))"
  by (simp add: process_item_def py_getitem_def py_eq_str_def split: option.splits)

lemma process_item_TransactionDate:
  "map_of kvs ''Name'' = Some (PStr ''TransactionDate'') \<Longrightarrow>
   process_item B u (PDict kvs) =
     (case map_of kvs ''Value'' of
        None \<Rightarrow> Inl (PyError KeyError)
      | Some v \<Rightarrow> Inr (u(''transaction_date'' \<mapsto> PStr (py_str B v))))"
  by (simp add: process_item_def py_getitem_def py_eq_str_def split: option.splits)

lemma process_item_PhoneNumber:
  "map_of kvs ''Name'' = Some (PStr ''PhoneNumber'') \<Longrightarrow>
   process_item B u (PDict kvs) =
     (case map_of kvs ''Value'' of
        None \<Rightarrow> Inl (PyError KeyError)
      | Some v \<Rightarrow>
          if is_int_or_float v then
            (case py_int v of
               Inl e \<Rightarrow> Inl e
             | Inr i \<Rightarrow> Inr (u(''confirmed_phone_number'' \<mapsto> PStr (str_int i))))
          else Inr (u(''confirmed_phone_number'' \<mapsto> PStr (py_str B v))))"
  by (simp add: process_item_def py_getitem_def py_eq_str_def split: option.splits)

lemma process_item_unnamed:
  "map_of kvs ''Name'' = Some nm \<Longrightarrow>
   nm \<notin> PStr ` set metadata_names \<Longrightarrow>
   process_item B u (PDict kvs) = Inr u"
  by (cases nm) (simp_all add: process_item_def py_getitem_def py_eq_str_def metadata_names_def)

lemma process_item_not_dict:
  "(\<forall>kvs. item \<noteq> PDict kvs) \<or> (\<exists>kvs. item = PDict kvs \<and> map_of kvs ''Name'' = None) \<Longrightarrow>
   \<exists>e. process_item B u item = Inl e"
  by (cases item) (auto simp add: process_item_def py_getitem_def)


lemma process_item_shape:
  assumes "process_item B u item = Inr u'"
  obtains kvs nm where "item = PDict kvs" "map_of kvs ''Name'' = Some nm"
proof (cases item)
  case (PDict kvs)
  show ?thesis
  proof (cases "map_of kvs ''Name''")
    case None
    with assms PDict show ?thesis by (simp add: process_item_def py_getitem_def)
  next
    case (Some nm)
    with PDict that show ?thesis by blast
  qed
qed (use assms in \<open>simp_all add: process_item_def py_getitem_def\<close>)

lemma names_cases:
  assumes "n \<in> set metadata_names"
  obtains "n = ''Amount''" | "n = ''MpesaReceiptNumber''" | "n = ''TransactionDate''"
    | "n = ''PhoneNumber''"
  using assms by (auto simp add: metadata_names_def)

lemma field_simps:
  "metadata_field ''Amount'' = ''confirmed_amount''"
  "metadata_field ''MpesaReceiptNumber'' = ''mpesa_receipt_number''"
  "metadata_field ''TransactionDate'' = ''transaction_date''"
  "metadata_field ''PhoneNumber'' = ''confirmed_phone_number''"
  by (simp_all add: metadata_field_def)

lemma process_item_field_A:
  assumes p: "process_item B u (PDict kvs) = Inr u'" and n: "n \<in> set metadata_names"
    and nm: "map_of kvs ''Name'' = Some (PStr ''Amount'')"
  shows "u' (metadata_field n) =
     (if named n (PDict kvs) then (case value_of (PDict kvs) of Some v \<Rightarrow> stored_form B n v | None \<Rightarrow> None)
      else u (metadata_field n))"
proof -
  from p process_item_Amount [OF nm, of B u]
  obtain v f where v: "map_of kvs ''Value'' = Some v" and f: "py_float B v = Inr f"
    and u': "u' = u(''confirmed_amount'' \<mapsto> PFloat f)"
    by (auto split: option.splits sum.splits)
  from n show ?thesis
    by (cases rule: names_cases)
       (simp_all add: field_simps named_def value_of_def nm v f u' stored_form_def)
qed


lemma process_item_field_M:
  assumes p: "process_item B u (PDict kvs) = Inr u'" and n: "n \<in> set metadata_names"
    and nm: "map_of kvs ''Name'' = Some (PStr ''MpesaReceiptNumber'')"
  shows "u' (metadata_field n) =
     (if named n (PDict kvs) then (case value_of (PDict kvs) of Some v \<Rightarrow> stored_form B n v | None \<Rightarrow> None)
      else u (metadata_field n))"
proof -
  from p process_item_MpesaReceiptNumber [OF nm, of B u]
  obtain v where v: "map_of kvs ''Value'' = Some v"
    and u': "u' = u(''mpesa_receipt_number'' \<mapsto> PStr (py_str B v))"
    by (auto split: option.splits)
  from n show ?thesis
    by (cases rule: names_cases)
       (simp_all add: field_simps named_def value_of_def nm v u' stored_form_def)
qed

lemma process_item_field_T:
  assumes p: "process_item B u (PDict kvs) = Inr u'" and n: "n \<in> set metadata_names"
    and nm: "map_of kvs ''Name'' = Some (PStr ''TransactionDate'')"
  shows "u' (metadata_field n) =
     (if named n (PDict kvs) then (case value_of (PDict kvs) of Some v \<Rightarrow> stored_form B n v | None \<Rightarrow> None)
      else u (metadata_field n))"
proof -
  from p process_item_TransactionDate [OF nm, of B u]
  obtain v where v: "map_of kvs ''Value'' = Some v"
    and u': "u' = u(''transaction_date'' \<mapsto> PStr (py_str B v))"
    by (auto split: option.splits)
  from n show ?thesis
    by (cases rule: names_cases)
       (simp_all add: field_simps named_def value_of_def nm v u' stored_form_def)
qed

lemma process_item_field_P:
  assumes p: "process_item B u (PDict kvs) = Inr u'" and n: "n \<in> set metadata_names"
    and nm: "map_of kvs ''Name'' = Some (PStr ''PhoneNumber'')"
  shows "u' (metadata_field n) =
     (if named n (PDict kvs) then (case value_of (PDict kvs) of Some v \<Rightarrow> stored_form B n v | None \<Rightarrow> None)
      else u (metadata_field n))"
proof -
  from p process_item_PhoneNumber [OF nm, of B u]
  obtain v where v: "map_of kvs ''Value'' = Some v"
    and u': "Inr u' = (if is_int_or_float v then
            (case py_int v of
               Inl e \<Rightarrow> Inl e
             | Inr i \<Rightarrow> Inr (u(''confirmed_phone_number'' \<mapsto> PStr (str_int i))))
          else Inr (u(''confirmed_phone_number'' \<mapsto> PStr (py_str B v))))"
    by (auto split: option.splits)
  show ?thesis
  proof (cases "is_int_or_float v")
    case True
    with u' obtain i where i: "py_int v = Inr i"
      and u2: "u' = u(''confirmed_phone_number'' \<mapsto> PStr (str_int i))"
      by (auto split: sum.splits)
    from n show ?thesis
      by (cases rule: names_cases)
         (simp_all add: field_simps named_def value_of_def nm v u2 i True stored_form_def)
  next
    case False
    with u' have u2: "u' = u(''confirmed_phone_number'' \<mapsto> PStr (py_str B v))"
      by simp
    from n show ?thesis
      by (cases rule: names_cases)
         (simp_all add: field_simps named_def value_of_def nm v u2 False stored_form_def)
  qed
qed

lemma process_item_field_O:
  assumes p: "process_item B u (PDict kvs) = Inr u'" and n: "n \<in> set metadata_names"
    and nm: "map_of kvs ''Name'' = Some x" and x: "x \<notin> PStr ` set metadata_names"
  shows "u' (metadata_field n) =
     (if named n (PDict kvs) then (case value_of (PDict kvs) of Some v \<Rightarrow> stored_form B n v | None \<Rightarrow> None)
      else u (metadata_field n))"
proof -
  from p process_item_unnamed [OF nm x, of B u] have "u' = u" by simp
  moreover from n x have "x \<noteq> PStr n" by blast
  ultimately show ?thesis by (simp add: named_def nm)
qed

lemma process_item_field:
  assumes p: "process_item B u item = Inr u'" and n: "n \<in> set metadata_names"
  shows "u' (metadata_field n) =
     (if named n item then (case value_of item of Some v \<Rightarrow> stored_form B n v | None \<Rightarrow> None)
      else u (metadata_field n))"
proof -
  from p obtain kvs nm where item: "item = PDict kvs" and nm: "map_of kvs ''Name'' = Some nm"
    by (rule process_item_shape)
  consider (A) "nm = PStr ''Amount''" | (M) "nm = PStr ''MpesaReceiptNumber''"
    | (T) "nm = PStr ''TransactionDate''" | (P) "nm = PStr ''PhoneNumber''"
    | (O) "nm \<notin> PStr ` set metadata_names"
    by (auto simp add: metadata_names_def)
  then show ?thesis
  proof cases
    case A
    with p n nm show ?thesis unfolding item by (intro process_item_field_A) simp_all
  next
    case M
    with p n nm show ?thesis unfolding item by (intro process_item_field_M) simp_all
  next
    case T
    with p n nm show ?thesis unfolding item by (intro process_item_field_T) simp_all
  next
    case P
    with p n nm show ?thesis unfolding item by (intro process_item_field_P) simp_all
  next
    case O
    with p n nm show ?thesis unfolding item by (intro process_item_field_O) simp_all
  qed
qed

lemma process_item_other:
  assumes p: "process_item B u item = Inr u'"
    and k: "k \<notin> metadata_field ` set metadata_names"
  shows "u' k = u k"
proof -
  from p obtain kvs nm where item: "item = PDict kvs" and nm: "map_of kvs ''Name'' = Some nm"
    by (rule process_item_shape)
  from k have k4: "k \<noteq> ''confirmed_amount''" "k \<noteq> ''mpesa_receipt_number''"
    "k \<noteq> ''transaction_date''" "k \<noteq> ''confirmed_phone_number''"
    by (auto simp add: metadata_names_def metadata_field_def)
  consider (A) "nm = PStr ''Amount''" | (M) "nm = PStr ''MpesaReceiptNumber''"
    | (T) "nm = PStr ''TransactionDate''" | (P) "nm = PStr ''PhoneNumber''"
    | (O) "nm \<notin> PStr ` set metadata_names"
    by (auto simp add: metadata_names_def)
  then show ?thesis
  proof cases
    case A
    with p item nm process_item_Amount [of kvs B u] k4 show ?thesis
      by (auto split: option.splits sum.splits)
  next
    case M
    with p item nm process_item_MpesaReceiptNumber [of kvs B u] k4 show ?thesis
      by (auto split: option.splits)
  next
    case T
    with p item nm process_item_TransactionDate [of kvs B u] k4 show ?thesis
      by (auto split: option.splits)
  next
    case P
    with p item nm process_item_PhoneNumber [of kvs B u] k4 show ?thesis
      by (auto split: option.splits sum.splits if_splits)
  next
    case O
    with p item nm process_item_unnamed [of kvs nm B u] show ?thesis
      by simp
  qed
qed


lemma named_has_value:
  assumes p: "process_item B u item = Inr u'" and n: "n \<in> set metadata_names"
    and nd: "named n item"
  shows "\<exists>v. value_of item = Some v"
proof -
  from p obtain kvs nm where item: "item = PDict kvs" and nm: "map_of kvs ''Name'' = Some nm"
    by (rule process_item_shape)
  from nd item nm have nm': "map_of kvs ''Name'' = Some (PStr n)"
    by (simp add: named_def)
  from n show ?thesis
  proof (cases rule: names_cases)
    case 1
    with p item nm' process_item_Amount [of kvs B u] show ?thesis
      by (auto simp add: value_of_def split: option.splits)
  next
    case 2
    with p item nm' process_item_MpesaReceiptNumber [of kvs B u] show ?thesis
      by (auto simp add: value_of_def split: option.splits)
  next
    case 3
    with p item nm' process_item_TransactionDate [of kvs B u] show ?thesis
      by (auto simp add: value_of_def split: option.splits)
  next
    case 4
    with p item nm' process_item_PhoneNumber [of kvs B u] show ?thesis
      by (auto simp add: value_of_def split: option.splits)
  qed
qed

lemma process_items_field:
  assumes "process_items B u items = Inr u'" and n: "n \<in> set metadata_names"
  shows "u' (metadata_field n) =
     (case metadata_value n items of
        None \<Rightarrow> u (metadata_field n)
      | Some v \<Rightarrow> stored_form B n v)"
  using assms(1)
proof (induction items arbitrary: u)
  case Nil
  then show ?case by simp
next
  case (Cons item items)
  from Cons.prems obtain u1 where p: "process_item B u item = Inr u1"
    and r: "process_items B u1 items = Inr u'"
    by (auto split: sum.splits)
  note ih = Cons.IH [OF r]
  show ?case
  proof (cases "metadata_value n items")
    case (Some v)
    with ih show ?thesis by simp
  next
    case None
    show ?thesis
    proof (cases "named n item")
      case True
      from named_has_value [OF p n True] obtain v where v: "value_of item = Some v" ..
      with ih None True process_item_field [OF p n] show ?thesis by simp
    next
      case False
      with ih None process_item_field [OF p n] show ?thesis by simp
    qed
  qed
qed

lemma process_items_other:
  assumes "process_items B u items = Inr u'"
    and k: "k \<notin> metadata_field ` set metadata_names"
  shows "u' k = u k"
  using assms(1)
proof (induction items arbitrary: u)
  case Nil
  then show ?case by simp
next
  case (Cons item items)
  from Cons.prems obtain u1 where p: "process_item B u item = Inr u1"
    and r: "process_items B u1 items = Inr u'"
    by (auto split: sum.splits)
  from Cons.IH [OF r] process_item_other [OF p k] show ?case by simp
qed

lemma process_items_strings:
  assumes "process_items B u (map f xs) = Inr u'" and "\<And>x. \<exists>s. f x = PStr s"
  shows "xs = [] \<and> u' = u"
proof (cases xs)
  case Nil
  with assms show ?thesis by simp
next
  case (Cons x ys)
  from assms(2) obtain s where "f x = PStr s" by blast
  with assms(1) Cons show ?thesis
    by (simp add: process_item_def py_getitem_def)
qed

lemma set_status_success:
  assumes s: "set_status B stk rc u = Inr u'" and z: "py_eq_int rc 0"
  shows "process_items B (u(''status'' \<mapsto> PStr ''completed'')) (metadata_items stk) = Inr u'"
proof (cases "map_of stk ''CallbackMetadata''")
  case None
  with s z show ?thesis by (simp add: set_status_def metadata_items_def)
next
  case (Some md)
  let ?u1 = "u(''status'' \<mapsto> PStr ''completed'')"
  from s z Some obtain items its where g: "py_get md ''Item'' (PList []) = Inr items"
    and i: "py_iter items = Inr its" and p: "process_items B ?u1 its = Inr u'"
    by (auto simp add: set_status_def Let_def split: sum.splits)
  from g obtain mdk where md: "md = PDict mdk" and items: "dict_get mdk ''Item'' (PList []) = items"
    by (cases md) (auto simp add: py_get_def dict_get_def)
  show ?thesis
  proof (cases items)
    case (PList xs)
    with i p Some md items show ?thesis
      by (simp add: py_iter_def metadata_items_def)
  next
    case (PDict kvs)
    with i have "its = map PStr (remdups (map fst kvs))" by (simp add: py_iter_def)
    with p process_items_strings [of B ?u1 PStr "remdups (map fst kvs)" u'] have "u' = ?u1"
      by simp
    with Some md items PDict show ?thesis by (simp add: metadata_items_def)
  next
    case (PStr str)
    with i have "its = map (\<lambda>c. PStr [c]) str" by (simp add: py_iter_def)
    with p process_items_strings [of B ?u1 "\<lambda>c. PStr [c]" str u'] have "u' = ?u1"
      by simp
    with Some md items PStr show ?thesis by (simp add: metadata_items_def)
  qed (use i in \<open>simp_all add: py_iter_def\<close>)
qed

lemma process_item_named_some:
  assumes p: "process_item B u item = Inr u'" and n: "n \<in> set metadata_names"
    and nd: "named n item"
  shows "u' (metadata_field n) \<noteq> None"
proof -
  from p obtain kvs nm where item: "item = PDict kvs" and nm: "map_of kvs ''Name'' = Some nm"
    by (rule process_item_shape)
  from nd item nm have nm': "map_of kvs ''Name'' = Some (PStr n)"
    by (simp add: named_def)
  from n show ?thesis
  proof (cases rule: names_cases)
    case 1
    with p item nm' process_item_Amount [of kvs B u] show ?thesis
      by (auto simp add: field_simps split: option.splits sum.splits)
  next
    case 2
    with p item nm' process_item_MpesaReceiptNumber [of kvs B u] show ?thesis
      by (auto simp add: field_simps split: option.splits)
  next
    case 3
    with p item nm' process_item_TransactionDate [of kvs B u] show ?thesis
      by (auto simp add: field_simps split: option.splits)
  next
    case 4
    with p item nm' process_item_PhoneNumber [of kvs B u] show ?thesis
      by (auto simp add: field_simps split: option.splits sum.splits if_splits)
  qed
qed

lemma process_items_some:
  assumes "process_items B u items = Inr u'" and n: "n \<in> set metadata_names"
    and "metadata_value n items \<noteq> None"
  shows "u' (metadata_field n) \<noteq> None"
  using assms(1,3)
proof (induction items arbitrary: u)
  case Nil
  then show ?case by simp
next
  case (Cons item items)
  from Cons.prems(1) obtain u1 where p: "process_item B u item = Inr u1"
    and r: "process_items B u1 items = Inr u'"
    by (auto split: sum.splits)
  show ?case
  proof (cases "metadata_value n items")
    case (Some v)
    with Cons.IH [OF r] show ?thesis by simp
  next
    case None
    with Cons.prems(2) have nd: "named n item"
      by (simp split: if_splits)
    from process_items_field [OF r n] None have "u' (metadata_field n) = u1 (metadata_field n)"
      by simp
    with process_item_named_some [OF p n nd] show ?thesis by simp
  qed
qed

lemma set_status_other:
  assumes s: "set_status B stk rc u = Inr u'"
    and k: "k \<notin> metadata_field ` set metadata_names" and ks: "k \<noteq> ''status''"
  shows "u' k = u k"
proof (cases "py_eq_int rc 0")
  case True
  from process_items_other [OF set_status_success [OF s True] k] ks show ?thesis by simp
next
  case False
  with s ks show ?thesis
    by (auto simp add: set_status_def split: if_splits)
qed

lemma transaction_update_base:
  assumes "transaction_update B X cb stk = Inr u"
  shows "u ''callback_received'' = Some (PBool True) \<and>
     u ''result_code'' = Some (dict_get stk ''ResultCode'' PNone) \<and>
     u ''result_description'' = Some (dict_get stk ''ResultDesc'' PNone) \<and>
     u ''callback_timestamp'' = Some (SERVER_TIMESTAMP X) \<and>
     u ''raw_callback'' = Some cb"
proof -
  have k: "''callback_received'' \<notin> metadata_field ` set metadata_names"
    "''result_code'' \<notin> metadata_field ` set metadata_names"
    "''result_description'' \<notin> metadata_field ` set metadata_names"
    "''callback_timestamp'' \<notin> metadata_field ` set metadata_names"
    "''raw_callback'' \<notin> metadata_field ` set metadata_names"
    by (simp_all add: metadata_names_def metadata_field_def)
  from assms show ?thesis
    unfolding transaction_update_def
    by (simp add: set_status_other [OF _ k(1)] set_status_other [OF _ k(2)]
        set_status_other [OF _ k(3)] set_status_other [OF _ k(4)] set_status_other [OF _ k(5)])
qed

lemma transaction_update_success:
  assumes t: "transaction_update B X cb stk = Inr u"
    and z: "py_eq_int (dict_get stk ''ResultCode'' PNone) 0"
  shows "u ''status'' = Some (PStr ''completed'')"
    and "n \<in> set metadata_names \<Longrightarrow>
      u (metadata_field n) =
        (case metadata_value n (metadata_items stk) of
           None \<Rightarrow> None
         | Some v \<Rightarrow> stored_form B n v)"
    and "n \<in> set metadata_names \<Longrightarrow> metadata_value n (metadata_items stk) \<noteq> None \<Longrightarrow>
      u (metadata_field n) \<noteq> None"
proof -
  let ?base = "map_of
          [(''result_code'', dict_get stk ''ResultCode'' PNone),
           (''result_description'', dict_get stk ''ResultDesc'' PNone),
           (''callback_received'', PBool True),
           (''callback_timestamp'', SERVER_TIMESTAMP X),
           (''raw_callback'', cb)]"
  from t have s: "set_status B stk (dict_get stk ''ResultCode'' PNone) ?base = Inr u"
    by (simp add: transaction_update_def)
  note p = set_status_success [OF s z]
  have "''status'' \<notin> metadata_field ` set metadata_names"
    by (simp add: metadata_names_def metadata_field_def)
  from process_items_other [OF p this] show "u ''status'' = Some (PStr ''completed'')"
    by simp
  show "u (metadata_field n) =
        (case metadata_value n (metadata_items stk) of
           None \<Rightarrow> None
         | Some v \<Rightarrow> stored_form B n v)" if n: "n \<in> set metadata_names"
  proof -
    from n have e: "(?base(''status'' \<mapsto> PStr ''completed'')) (metadata_field n) = None"
      by (cases rule: names_cases) (simp_all add: field_simps)
    show ?thesis unfolding process_items_field [OF p n] e ..
  qed
  show "u (metadata_field n) \<noteq> None"
    if "n \<in> set metadata_names" "metadata_value n (metadata_items stk) \<noteq> None"
    using process_items_some [OF p that] .
qed


lemma map_add_field:
  "(d ++ u) f = (case u f of None \<Rightarrow> d f | Some v \<Rightarrow> Some v)"
  by (simp add: map_add_def)


subsection \<open>When the callback handler raises\<close>

lemma process_item_ok: "(\<exists>u'. process_item B u item = Inr u') = item_ok B item"
proof (cases item)
  case (PDict kvs)
  show ?thesis
  proof (cases "map_of kvs ''Name''")
    case None
    with PDict show ?thesis
      by (simp add: process_item_def py_getitem_def item_ok_def)
  next
    case (Some nm)
    consider (A) "nm = PStr ''Amount''" | (M) "nm = PStr ''MpesaReceiptNumber''"
      | (T) "nm = PStr ''TransactionDate''" | (P) "nm = PStr ''PhoneNumber''"
      | (O) "nm \<notin> PStr ` set metadata_names"
      by (auto simp add: metadata_names_def)
    then show ?thesis
    proof cases
      case A
      with Some have nm: "map_of kvs ''Name'' = Some (PStr ''Amount'')" by simp
      show ?thesis
        unfolding PDict process_item_Amount [OF nm]
        by (simp add: item_ok_def nm converts_def split: option.splits sum.splits)
    next
      case M
      with Some have nm: "map_of kvs ''Name'' = Some (PStr ''MpesaReceiptNumber'')" by simp
      show ?thesis
        unfolding PDict process_item_MpesaReceiptNumber [OF nm]
        by (simp add: item_ok_def nm split: option.splits)
    next
      case T
      with Some have nm: "map_of kvs ''Name'' = Some (PStr ''TransactionDate'')" by simp
      show ?thesis
        unfolding PDict process_item_TransactionDate [OF nm]
        by (simp add: item_ok_def nm split: option.splits)
    next
      case P
      with Some have nm: "map_of kvs ''Name'' = Some (PStr ''PhoneNumber'')" by simp
      show ?thesis
        unfolding PDict process_item_PhoneNumber [OF nm]
        by (simp add: item_ok_def nm converts_def split: option.splits sum.splits)
    next
      case O
      then have "nm \<noteq> PStr ''Amount''" "nm \<noteq> PStr ''MpesaReceiptNumber''"
        "nm \<noteq> PStr ''TransactionDate''" "nm \<noteq> PStr ''PhoneNumber''"
        by (auto simp add: metadata_names_def)
      with Some show ?thesis
        unfolding PDict process_item_unnamed [OF Some O]
        by (simp add: item_ok_def)
    qed
  qed
qed (simp_all add: process_item_def py_getitem_def item_ok_def)

lemma process_items_ok: "(\<exists>u'. process_items B u xs = Inr u') = list_all (item_ok B) xs"
proof (induction xs arbitrary: u)
  case Nil
  show ?case by simp
next
  case (Cons x xs)
  show ?case
  proof (cases "process_item B u x")
    case (Inl e)
    with process_item_ok [of B u x] show ?thesis by simp
  next
    case (Inr u1)
    with process_item_ok [of B u x] Cons.IH [of u1] show ?thesis by simp
  qed
qed

lemma process_items_strings_ok:
  assumes "\<And>x. \<exists>s. f x = PStr s"
  shows "(\<exists>u'. process_items B u (map f xs) = Inr u') = (xs = [])"
proof (cases xs)
  case Nil
  then show ?thesis by simp
next
  case (Cons x ys)
  from assms obtain s where "f x = PStr s" by blast
  with Cons show ?thesis
    by (simp add: process_item_def py_getitem_def)
qed

lemma set_status_ok:
  "(\<exists>u'. set_status B stk rc u = Inr u') = (py_eq_int rc 0 \<longrightarrow> metadata_ok B stk)"
proof (cases "py_eq_int rc 0")
  case False
  then show ?thesis by (simp add: set_status_def)
next
  case z: True
  let ?u1 = "u(''status'' \<mapsto> PStr ''completed'')"
  show ?thesis
  proof (cases "map_of stk ''CallbackMetadata''")
    case None
    with z show ?thesis by (simp add: set_status_def metadata_ok_def)
  next
    case (Some md)
    show ?thesis
    proof (cases md)
      case (PDict mdk)
      have s: "set_status B stk rc u =
          (case py_iter (dict_get mdk ''Item'' (PList [])) of
             Inl e \<Rightarrow> Inl e
           | Inr its \<Rightarrow> process_items B ?u1 its)"
        using z Some PDict by (simp add: set_status_def py_get_def dict_get_def Let_def)
      have m: "metadata_ok B stk =
          (case dict_get mdk ''Item'' (PList []) of
             PList xs \<Rightarrow> list_all (item_ok B) xs
           | PDict kvs \<Rightarrow> kvs = []
           | PStr s \<Rightarrow> s = []
           | _ \<Rightarrow> False)"
        using Some PDict by (simp add: metadata_ok_def)
      show ?thesis
      proof (cases "dict_get mdk ''Item'' (PList [])")
        case (PList xs)
        with z s m process_items_ok [of B ?u1 xs] show ?thesis
          by (simp add: py_iter_def)
      next
        case items: (PDict kvs)
        have "(\<exists>u'. process_items B ?u1 (map PStr (remdups (map fst kvs))) = Inr u') =
            (remdups (map fst kvs) = [])"
          by (rule process_items_strings_ok) simp
        with z s m items show ?thesis
          by (simp add: py_iter_def)
      next
        case (PStr str)
        have "(\<exists>u'. process_items B ?u1 (map (\<lambda>c. PStr [c]) str) = Inr u') = (str = [])"
          by (rule process_items_strings_ok) simp
        with z s m PStr show ?thesis
          by (simp add: py_iter_def)
      qed (use z s m in \<open>simp_all add: py_iter_def\<close>)
    qed (use z Some in \<open>simp_all add: set_status_def metadata_ok_def py_get_def\<close>)
  qed
qed

lemma transaction_update_ok:
  "(\<exists>u. transaction_update B X cb stk = Inr u) =
     (py_eq_int (dict_get stk ''ResultCode'' PNone) 0 \<longrightarrow> metadata_ok B stk)"
  unfolding transaction_update_def by (rule set_status_ok)

lemma process_item_writable:
  assumes "process_item B u item = Inr u'" and "document_writable u"
  shows "document_writable u'"
proof -
  from assms(1) obtain kvs nm where item: "item = PDict kvs" and nm: "map_of kvs ''Name'' = Some nm"
    by (rule process_item_shape)
  consider (A) "nm = PStr ''Amount''" | (M) "nm = PStr ''MpesaReceiptNumber''"
    | (T) "nm = PStr ''TransactionDate''" | (P) "nm = PStr ''PhoneNumber''"
    | (O) "nm \<notin> PStr ` set metadata_names"
    by (auto simp add: metadata_names_def)
  then show ?thesis
  proof cases
    case A
    with assms item nm process_item_Amount [of kvs B u] show ?thesis
      by (auto simp add: document_writable_upd split: option.splits sum.splits)
  next
    case M
    with assms item nm process_item_MpesaReceiptNumber [of kvs B u] show ?thesis
      by (auto simp add: document_writable_upd split: option.splits)
  next
    case T
    with assms item nm process_item_TransactionDate [of kvs B u] show ?thesis
      by (auto simp add: document_writable_upd split: option.splits)
  next
    case P
    with assms item nm process_item_PhoneNumber [of kvs B u] show ?thesis
      by (auto simp add: document_writable_upd split: option.splits sum.splits if_splits)
  next
    case O
    with assms item nm process_item_unnamed [of kvs nm B u] show ?thesis
      by simp
  qed
qed

lemma process_items_writable:
  assumes "process_items B u items = Inr u'" and "document_writable u"
  shows "document_writable u'"
  using assms
proof (induction items arbitrary: u)
  case Nil
  then show ?case by simp
next
  case (Cons item items)
  from Cons.prems(1) obtain u1 where p: "process_item B u item = Inr u1"
    and r: "process_items B u1 items = Inr u'"
    by (auto split: sum.splits)
  from process_item_writable [OF p Cons.prems(2)] have "document_writable u1" .
  with r show ?case by (rule Cons.IH)
qed

lemma set_status_writable:
  assumes s: "set_status B stk rc u = Inr u'" and w: "document_writable u"
  shows "document_writable u'"
proof (cases "py_eq_int rc 0")
  case True
  from w have "document_writable (u(''status'' \<mapsto> PStr ''completed''))"
    by (simp add: document_writable_upd)
  with set_status_success [OF s True] show ?thesis
    by (rule process_items_writable)
next
  case False
  with s w show ?thesis
    by (auto simp add: set_status_def document_writable_upd split: if_splits)
qed

lemma stkCallback_storable:
  assumes "stkCallback_of cb = Some stk" and "storable cb"
  shows "storable (PDict stk)"
proof -
  from assms(1) obtain envelope where cb: "cb = PDict envelope"
    by (cases cb) (simp_all add: stkCallback_of_def)
  from assms(1) cb obtain body where b: "dict_get envelope ''Body'' (PDict []) = PDict body"
    by (cases "dict_get envelope ''Body'' (PDict [])") (simp_all add: stkCallback_of_def)
  from assms(1) cb b have s: "dict_get body ''stkCallback'' (PDict []) = PDict stk"
    by (cases "dict_get body ''stkCallback'' (PDict [])") (simp_all add: stkCallback_of_def)
  have "storable (PDict body)"
  proof (cases "map_of envelope ''Body''")
    case None
    with b show ?thesis by (simp add: dict_get_def)
  next
    case (Some v)
    with b have "v = PDict body" by (simp add: dict_get_def)
    with Some assms(2) cb show ?thesis by (simp only: storable_lookup)
  qed
  then show ?thesis
  proof (cases "map_of body ''stkCallback''")
    case None
    with s show ?thesis by (simp add: dict_get_def)
  next
    case (Some v)
    with s have "v = PDict stk" by (simp add: dict_get_def)
    with Some \<open>storable (PDict body)\<close> show ?thesis by (simp only: storable_lookup)
  qed
qed

lemma transaction_update_writable:
  assumes t: "transaction_update B X cb stk = Inr u" and s: "stkCallback_of cb = Some stk"
  shows "document_writable u = storable cb"
proof
  assume "document_writable u"
  moreover have "''raw_callback'' \<in> set written_fields"
    by (simp add: written_fields_def)
  moreover from transaction_update_base [OF t] have "u ''raw_callback'' = Some cb"
    by simp
  ultimately show "storable cb"
    by (rule document_writable_field)
next
  assume c: "storable cb"
  from stkCallback_storable [OF s c] have k: "storable (PDict stk)" .
  have "document_writable (map_of
          [(''result_code'', dict_get stk ''ResultCode'' PNone),
           (''result_description'', dict_get stk ''ResultDesc'' PNone),
           (''callback_received'', PBool True),
           (''callback_timestamp'', SERVER_TIMESTAMP X),
           (''raw_callback'', cb)])"
    using c storable_dict_get [OF k, of "''ResultCode''"] storable_dict_get [OF k, of "''ResultDesc''"]
    by (simp add: document_writable_def written_fields_def)
  with t show "document_writable u"
    unfolding transaction_update_def by (rule set_status_writable)
qed

text \<open>
  Every write of the handlers holds values under the written fields and under its server
  timestamp only, so the test of the written fields covers all that the client encodes.
\<close>

lemma transaction_data_dom:
  "dom (transaction_data X request phone a result) \<subseteq> set written_fields \<union> {''timestamp''}"
  by (auto simp add: transaction_data_def written_fields_def split: if_splits)

lemma status_update_dom:
  "dom (status_update X result) \<subseteq> set written_fields \<union> {''last_queried''}"
  by (auto simp add: status_update_def written_fields_def split: if_splits)

lemma transaction_update_dom:
  assumes "transaction_update B X cb stk = Inr u"
  shows "dom u \<subseteq> set written_fields \<union> {''callback_timestamp''}"
proof
  fix k assume k: "k \<in> dom u"
  show "k \<in> set written_fields \<union> {''callback_timestamp''}"
  proof (rule ccontr)
    assume n: "k \<notin> set written_fields \<union> {''callback_timestamp''}"
    then have m: "k \<notin> metadata_field ` set metadata_names" and s: "k \<noteq> ''status''"
      by (auto simp add: written_fields_def metadata_names_def metadata_field_def)
    from assms have "set_status B stk (dict_get stk ''ResultCode'' PNone)
       (map_of
          [(''result_code'', dict_get stk ''ResultCode'' PNone),
           (''result_description'', dict_get stk ''ResultDesc'' PNone),
           (''callback_received'', PBool True),
           (''callback_timestamp'', SERVER_TIMESTAMP X),
           (''raw_callback'', cb)]) = Inr u"
      by (simp add: transaction_update_def)
    from set_status_other [OF this m s] n have "u k = None"
      by (simp add: written_fields_def)
    with k show False by blast
  qed
qed

lemma mpesa_callback_raises:
  assumes stk: "stkCallback_of cb = Some stk"
    and k: "dict_get stk ''CheckoutRequestID'' PNone = PStr k" and kn: "k \<noteq> []"
    and bad: "\<not> valid_document_id k \<or> (\<forall>u. transaction_update B X cb stk \<noteq> Inr u) \<or>
       (\<exists>u. transaction_update B X cb stk = Inr u \<and> \<not> document_writable u)"
  shows "mpesa_callback B X w (Some cb) =
     (Inr \<lparr>ResultCode = 1, ResultDesc = ''Callback processing failed''\<rparr>, w)"
proof (cases "valid_document_id k")
  case False
  with k kn show ?thesis
    by (simp add: mpesa_callback_stk [OF stk] process_stk_callback_cases)
next
  case v: True
  show ?thesis
  proof (cases "transaction_update B X cb stk")
    case (Inl e)
    with k kn v show ?thesis
      by (simp add: mpesa_callback_stk [OF stk] process_stk_callback_cases)
  next
    case (Inr u)
    with bad v have "\<not> document_writable u" by simp
    with Inr k kn v show ?thesis
      by (simp add: mpesa_callback_stk [OF stk] process_stk_callback_cases)
  qed
qed

text \<open>
  Claim C3, amended. Take a callback whose checkout id is a non-empty string that names a
  stored record. When the store's client accepts the id and the payload, and, for a result
  code equal to 0, the metadata can be read to its end, the handler acknowledges with
  result code 0 and the record is the old one with \<open>callback_received\<close> true,
  \<open>result_code\<close>, \<open>result_description\<close> and the raw payload set from the callback;
  and when the result code equals 0 the status is completed and each of \<open>Amount\<close>,
  \<open>MpesaReceiptNumber\<close>, \<open>TransactionDate\<close> and \<open>PhoneNumber\<close> found among the
  metadata items is stored under its field in its stored form (a float, a string, a
  string, a string with a number first turned into an integer), the last item of a name
  deciding and a name that is absent leaving its field as it was. In every other case the
  handler answers "Callback processing failed" with result code 1 and the world is as it
  was: the record is untouched.
\<close>

theorem callback_updates_record:
  assumes stk: "stkCallback_of cb = Some stk"
    and k: "checkout_id_of cb = PStr k" and kn: "k \<noteq> []"
    and d: "store w k = Some d"
  shows "(valid_document_id k \<and> storable cb \<and>
        (py_eq_int (dict_get stk ''ResultCode'' PNone) 0 \<longrightarrow> metadata_ok B stk) \<longrightarrow>
      (\<exists>d'. mpesa_callback B X w (Some cb) =
           (Inr \<lparr>ResultCode = 0, ResultDesc = ''Callback processed successfully''\<rparr>,
            w\<lparr>store := (store w)(k \<mapsto> d')\<rparr>) \<and>
         d' ''callback_received'' = Some (PBool True) \<and>
         d' ''result_code'' = Some (dict_get stk ''ResultCode'' PNone) \<and>
         d' ''result_description'' = Some (dict_get stk ''ResultDesc'' PNone) \<and>
         d' ''raw_callback'' = Some cb \<and>
         (py_eq_int (dict_get stk ''ResultCode'' PNone) 0 \<longrightarrow>
            d' ''status'' = Some (PStr ''completed'') \<and>
            (\<forall>n \<in> set metadata_names.
               d' (metadata_field n) =
                 (case metadata_value n (metadata_items stk) of
                    None \<Rightarrow> d (metadata_field n)
                  | Some v \<Rightarrow> stored_form B n v))))) \<and>
     (\<not> (valid_document_id k \<and> storable cb \<and>
          (py_eq_int (dict_get stk ''ResultCode'' PNone) 0 \<longrightarrow> metadata_ok B stk)) \<longrightarrow>
      mpesa_callback B X w (Some cb) =
        (Inr \<lparr>ResultCode = 1, ResultDesc = ''Callback processing failed''\<rparr>, w))"
proof (rule conjI; rule impI)
  from k stk have ck: "dict_get stk ''CheckoutRequestID'' PNone = PStr k"
    by (simp add: checkout_id_of_def)
  {
    assume a: "valid_document_id k \<and> storable cb \<and>
        (py_eq_int (dict_get stk ''ResultCode'' PNone) 0 \<longrightarrow> metadata_ok B stk)"
    then have "\<exists>u. transaction_update B X cb stk = Inr u"
      by (simp add: transaction_update_ok)
    then obtain u where u: "transaction_update B X cb stk = Inr u" ..
    from a transaction_update_writable [OF u stk] have wr: "document_writable u"
      by simp
    from a have v: "valid_document_id k" ..
    note m = callback_on_record [OF stk ck kn v d u wr]
    note b = transaction_update_base [OF u]
    have s: "(d ++ u) ''status'' = Some (PStr ''completed'')"
      and f: "\<forall>n \<in> set metadata_names.
             (d ++ u) (metadata_field n) =
               (case metadata_value n (metadata_items stk) of
                  None \<Rightarrow> d (metadata_field n)
                | Some v \<Rightarrow> stored_form B n v)"
      if z: "py_eq_int (dict_get stk ''ResultCode'' PNone) 0"
    proof -
      from transaction_update_success(1) [OF u z]
      show "(d ++ u) ''status'' = Some (PStr ''completed'')"
        by (simp add: map_add_field)
      show "\<forall>n \<in> set metadata_names.
             (d ++ u) (metadata_field n) =
               (case metadata_value n (metadata_items stk) of
                  None \<Rightarrow> d (metadata_field n)
                | Some v \<Rightarrow> stored_form B n v)"
      proof
        fix n assume n: "n \<in> set metadata_names"
        show "(d ++ u) (metadata_field n) =
               (case metadata_value n (metadata_items stk) of
                  None \<Rightarrow> d (metadata_field n)
                | Some v \<Rightarrow> stored_form B n v)"
        proof (cases "metadata_value n (metadata_items stk)")
          case None
          with transaction_update_success(2) [OF u z n] show ?thesis
            by (simp add: map_add_field)
        next
          case (Some v)
          with transaction_update_success(2) [OF u z n] transaction_update_success(3) [OF u z n]
          show ?thesis
            by (auto simp add: map_add_field split: option.splits)
        qed
      qed
    qed
    from b have c: "(d ++ u) ''callback_received'' = Some (PBool True)"
      "(d ++ u) ''result_code'' = Some (dict_get stk ''ResultCode'' PNone)"
      "(d ++ u) ''result_description'' = Some (dict_get stk ''ResultDesc'' PNone)"
      "(d ++ u) ''raw_callback'' = Some cb"
      by (simp_all add: map_add_field)
    show "\<exists>d'. mpesa_callback B X w (Some cb) =
           (Inr \<lparr>ResultCode = 0, ResultDesc = ''Callback processed successfully''\<rparr>,
            w\<lparr>store := (store w)(k \<mapsto> d')\<rparr>) \<and>
         d' ''callback_received'' = Some (PBool True) \<and>
         d' ''result_code'' = Some (dict_get stk ''ResultCode'' PNone) \<and>
         d' ''result_description'' = Some (dict_get stk ''ResultDesc'' PNone) \<and>
         d' ''raw_callback'' = Some cb \<and>
         (py_eq_int (dict_get stk ''ResultCode'' PNone) 0 \<longrightarrow>
            d' ''status'' = Some (PStr ''completed'') \<and>
            (\<forall>n \<in> set metadata_names.
               d' (metadata_field n) =
                 (case metadata_value n (metadata_items stk) of
                    None \<Rightarrow> d (metadata_field n)
                  | Some v \<Rightarrow> stored_form B n v)))"
      by (rule exI [of _ "d ++ u"]) (use m s f c in blast)
  }
  {
    assume a: "\<not> (valid_document_id k \<and> storable cb \<and>
          (py_eq_int (dict_get stk ''ResultCode'' PNone) 0 \<longrightarrow> metadata_ok B stk))"
    have "\<not> valid_document_id k \<or> (\<forall>u. transaction_update B X cb stk \<noteq> Inr u) \<or>
       (\<exists>u. transaction_update B X cb stk = Inr u \<and> \<not> document_writable u)"
    proof (cases "transaction_update B X cb stk")
      case (Inl e)
      then show ?thesis by simp
    next
      case (Inr u)
      then have "py_eq_int (dict_get stk ''ResultCode'' PNone) 0 \<longrightarrow> metadata_ok B stk"
        using transaction_update_ok [of B X cb stk] by blast
      with a transaction_update_writable [OF Inr stk] Inr show ?thesis
        by auto
    qed
    then show "mpesa_callback B X w (Some cb) =
        (Inr \<lparr>ResultCode = 1, ResultDesc = ''Callback processing failed''\<rparr>, w)"
      by (rule mpesa_callback_raises [OF stk ck kn])
  }
qed

lemma success_payload_stk:
  "stkCallback_of success_payload =
     Some ([(''CheckoutRequestID'', PStr ''ws_CO_1''), (''ResultCode'', PInt 0),
            (''ResultDesc'', PStr ''desc'')] @
           [(''CallbackMetadata'', PDict [(''Item'', PList success_metadata)])])"
  unfolding success_payload_def by (rule stkCallback_of_payload)

lemma success_metadata_items:
  "metadata_items
     [(''CheckoutRequestID'', PStr ''ws_CO_1''), (''ResultCode'', PInt 0),
      (''ResultDesc'', PStr ''desc''),
      (''CallbackMetadata'', PDict [(''Item'', PList success_metadata)])] = success_metadata"
  by (simp add: metadata_items_def dict_get_def)

lemma success_metadata_values:
  "metadata_value ''Amount'' success_metadata = Some (PInt 100)"
  "metadata_value ''MpesaReceiptNumber'' success_metadata = Some (PStr ''ABC123'')"
  "metadata_value ''TransactionDate'' success_metadata = Some (PInt 20240101120500)"
  "metadata_value ''PhoneNumber'' success_metadata = Some (PInt 254722000000)"
  by (simp_all add: success_metadata_def metadata_item_def named_def value_of_def)

lemma stored_form_examples:
  "stored_form B ''Amount'' (PInt 100) = Some (PFloat (Fin 100))"
  "stored_form B ''MpesaReceiptNumber'' (PStr ''ABC123'') = Some (PStr ''ABC123'')"
  "stored_form B ''TransactionDate'' (PInt 20240101120500) = Some (PStr ''20240101120500'')"
  "stored_form B ''PhoneNumber'' (PInt 254722000000) = Some (PStr ''254722000000'')"
  by (simp_all add: stored_form_def py_float_def py_str_def is_int_or_float_def py_int_def
      str_int_def str_nat.simps digit_char_def)

lemma success_payload_accepted:
  "valid_document_id ''ws_CO_1''"
  "storable success_payload"
  "metadata_ok B
     ([(''CheckoutRequestID'', PStr ''ws_CO_1''), (''ResultCode'', PInt 0),
       (''ResultDesc'', PStr ''desc'')] @
      [(''CallbackMetadata'', PDict [(''Item'', PList success_metadata)])])"
  by (simp_all add: valid_document_id_def success_payload_def callback_payload_def
      success_metadata_def metadata_item_def metadata_ok_def item_ok_def dict_get_def
      converts_def py_float_def is_int_or_float_def py_int_def)

theorem callback_updates_record_witness:
  "valid_document_id ''ws_CO_1'' \<and> storable success_payload \<and>
   (\<exists>d'. mpesa_callback sample_builtins sample_outside sample_world (Some success_payload) =
        (Inr \<lparr>ResultCode = 0, ResultDesc = ''Callback processed successfully''\<rparr>,
         sample_world\<lparr>store := (store sample_world)(''ws_CO_1'' \<mapsto> d')\<rparr>) \<and>
      d' ''callback_received'' = Some (PBool True) \<and>
      d' ''result_code'' = Some (PInt 0) \<and>
      d' ''raw_callback'' = Some success_payload \<and>
      d' ''status'' = Some (PStr ''completed'') \<and>
      d' ''confirmed_amount'' = Some (PFloat (Fin 100)) \<and>
      d' ''mpesa_receipt_number'' = Some (PStr ''ABC123'') \<and>
      d' ''transaction_date'' = Some (PStr ''20240101120500'') \<and>
      d' ''confirmed_phone_number'' = Some (PStr ''254722000000'')) \<and>
   \<not> storable (callback_payload (PStr ''ws_CO_1'') (PInt (2 ^ 63)) []) \<and>
   mpesa_callback sample_builtins sample_outside sample_world
       (Some (callback_payload (PStr ''ws_CO_1'') (PInt (2 ^ 63)) [])) =
     (Inr \<lparr>ResultCode = 1, ResultDesc = ''Callback processing failed''\<rparr>, sample_world)"
proof -
  let ?stk = "[(''CheckoutRequestID'', PStr ''ws_CO_1''), (''ResultCode'', PInt 0),
       (''ResultDesc'', PStr ''desc'')] @
      [(''CallbackMetadata'', PDict [(''Item'', PList success_metadata)])]"
  let ?big = "callback_payload (PStr ''ws_CO_1'') (PInt (2 ^ 63)) []"
  have k: "checkout_id_of success_payload = PStr ''ws_CO_1''"
    by (simp add: success_payload_def checkout_id_of_payload)
  have kn: "''ws_CO_1'' \<noteq> []" by simp
  have d: "store sample_world ''ws_CO_1'' = Some pending_record"
    by (simp add: sample_world_def)
  have rc: "dict_get ?stk ''ResultCode'' PNone = PInt 0"
    by (simp add: dict_get_def)
  have h: "valid_document_id ''ws_CO_1'' \<and> storable success_payload \<and>
      (py_eq_int (dict_get ?stk ''ResultCode'' PNone) 0 \<longrightarrow> metadata_ok sample_builtins ?stk)"
    using success_payload_accepted(1,2) success_payload_accepted(3) [of sample_builtins] by simp
  from callback_updates_record [OF success_payload_stk k kn d, THEN conjunct1, THEN mp, OF h]
  obtain d' where m: "mpesa_callback sample_builtins sample_outside sample_world (Some success_payload) =
        (Inr \<lparr>ResultCode = 0, ResultDesc = ''Callback processed successfully''\<rparr>,
         sample_world\<lparr>store := (store sample_world)(''ws_CO_1'' \<mapsto> d')\<rparr>)"
    and b: "d' ''callback_received'' = Some (PBool True)"
      "d' ''result_code'' = Some (dict_get ?stk ''ResultCode'' PNone)"
      "d' ''raw_callback'' = Some success_payload"
    and z: "py_eq_int (dict_get ?stk ''ResultCode'' PNone) 0 \<longrightarrow>
        d' ''status'' = Some (PStr ''completed'') \<and>
        (\<forall>n \<in> set metadata_names.
           d' (metadata_field n) =
             (case metadata_value n (metadata_items ?stk) of
                None \<Rightarrow> pending_record (metadata_field n)
              | Some v \<Rightarrow> stored_form sample_builtins n v))"
    by blast
  from z rc have s: "d' ''status'' = Some (PStr ''completed'')"
    and f: "\<And>n. n \<in> set metadata_names \<Longrightarrow>
           d' (metadata_field n) =
             (case metadata_value n success_metadata of
                None \<Rightarrow> pending_record (metadata_field n)
              | Some v \<Rightarrow> stored_form sample_builtins n v)"
    by (simp_all add: py_eq_int_def success_metadata_items)
  from f [of "''Amount''"] f [of "''MpesaReceiptNumber''"] f [of "''TransactionDate''"]
    f [of "''PhoneNumber''"]
  have v: "d' ''confirmed_amount'' = Some (PFloat (Fin 100))"
    "d' ''mpesa_receipt_number'' = Some (PStr ''ABC123'')"
    "d' ''transaction_date'' = Some (PStr ''20240101120500'')"
    "d' ''confirmed_phone_number'' = Some (PStr ''254722000000'')"
    by (simp_all add: metadata_names_def field_simps success_metadata_values stored_form_examples)
  from m b rc s v have first: "\<exists>d'.
      mpesa_callback sample_builtins sample_outside sample_world (Some success_payload) =
        (Inr \<lparr>ResultCode = 0, ResultDesc = ''Callback processed successfully''\<rparr>,
         sample_world\<lparr>store := (store sample_world)(''ws_CO_1'' \<mapsto> d')\<rparr>) \<and>
      d' ''callback_received'' = Some (PBool True) \<and>
      d' ''result_code'' = Some (PInt 0) \<and>
      d' ''raw_callback'' = Some success_payload \<and>
      d' ''status'' = Some (PStr ''completed'') \<and>
      d' ''confirmed_amount'' = Some (PFloat (Fin 100)) \<and>
      d' ''mpesa_receipt_number'' = Some (PStr ''ABC123'') \<and>
      d' ''transaction_date'' = Some (PStr ''20240101120500'') \<and>
      d' ''confirmed_phone_number'' = Some (PStr ''254722000000'')"
    by (intro exI [of _ d']) simp
  have ns: "\<not> storable ?big"
    by (simp add: callback_payload_def)
  then have h2: "\<not> (valid_document_id ''ws_CO_1'' \<and> storable ?big \<and>
      (py_eq_int (dict_get ([(''CheckoutRequestID'', PStr ''ws_CO_1''),
          (''ResultCode'', PInt (2 ^ 63)), (''ResultDesc'', PStr ''desc'')] @ [])
          ''ResultCode'' PNone) 0 \<longrightarrow>
       metadata_ok sample_builtins ([(''CheckoutRequestID'', PStr ''ws_CO_1''),
          (''ResultCode'', PInt (2 ^ 63)), (''ResultDesc'', PStr ''desc'')] @ [])))"
    by simp
  have second: "mpesa_callback sample_builtins sample_outside sample_world (Some ?big) =
     (Inr \<lparr>ResultCode = 1, ResultDesc = ''Callback processing failed''\<rparr>, sample_world)"
    by (rule callback_updates_record [OF stkCallback_of_payload checkout_id_of_payload kn d,
          THEN conjunct2, THEN mp, OF h2])
  from success_payload_accepted(1,2) first ns second show ?thesis
    by (intro conjI)
qed

text \<open>
  The claim as first stated, for every callback that carries a checkout id, fails: a
  callback for an existing record with result code 0 whose \<open>Amount\<close> item has no
  \<open>Value\<close> raises inside the loop, the handler answers "Callback processing failed"
  and the record is left without \<open>callback_received\<close>.
\<close>

theorem callback_without_value_counterexample:
  "checkout_id_of valueless_payload = PStr ''ws_CO_1'' \<and>
   store sample_world ''ws_CO_1'' = Some pending_record \<and>
   pending_record ''callback_received'' = None \<and>
   mpesa_callback sample_builtins sample_outside sample_world (Some valueless_payload) =
     (Inr \<lparr>ResultCode = 1, ResultDesc = ''Callback processing failed''\<rparr>, sample_world)"
proof -
  have stk: "stkCallback_of valueless_payload =
     Some ([(''CheckoutRequestID'', PStr ''ws_CO_1''), (''ResultCode'', PInt 0),
            (''ResultDesc'', PStr ''desc'')] @
           [(''CallbackMetadata'',
             PDict [(''Item'', PList [PDict [(''Name'', PStr ''Amount'')]])])])"
    unfolding valueless_payload_def by (rule stkCallback_of_payload)
  have "mpesa_callback sample_builtins sample_outside sample_world (Some valueless_payload) =
     (Inr \<lparr>ResultCode = 1, ResultDesc = ''Callback processing failed''\<rparr>, sample_world)"
    by (simp add: mpesa_callback_stk [OF stk] process_stk_callback_cases valid_document_id_def
      dict_get_def transaction_update_def set_status_def py_eq_int_def py_get_def py_iter_def
      process_item_def py_getitem_def py_eq_str_def Let_def)
  then show ?thesis
    by (simp add: valueless_payload_def checkout_id_of_payload sample_world_def pending_record_def)
qed

text \<open>
  Claim C8. Applying the same callback twice, the second time at any later server time,
  gives the same acknowledgment and leaves every record with the terminal fields (status,
  result_code, result_description, confirmed_amount, mpesa_receipt_number,
  transaction_date, confirmed_phone_number, callback_received) it had after the first
  application; indeed every field other than \<open>callback_timestamp\<close> is unchanged. The
  update is a function of the payload, so this holds for a successful callback with
  result code 0 and fixed metadata as for any other.
\<close>

theorem repeated_callback_idempotent:
  assumes m1: "mpesa_callback B X1 w request = (r1, w1)"
    and m2: "mpesa_callback B X2 w1 request = (r2, w2)"
  shows "r2 = r1 \<and>
     (\<forall>k. map_option (\<lambda>d. map d terminal_fields) (store w2 k) =
          map_option (\<lambda>d. map d terminal_fields) (store w1 k)) \<and>
     (\<forall>k f. f \<noteq> ''callback_timestamp'' \<longrightarrow>
          map_option (\<lambda>d. d f) (store w2 k) = map_option (\<lambda>d. d f) (store w1 k))"
proof -
  from callback_repeat [OF m1, of X2]
  have "r2 = r1 \<and> (\<forall>k f. f \<noteq> ''callback_timestamp'' \<longrightarrow>
          map_option (\<lambda>d. d f) (store w2 k) = map_option (\<lambda>d. d f) (store w1 k))"
  proof (elim disjE exE conjE)
    assume "w1 = w" "mpesa_callback B X2 w request = (r1, w)"
    with m2 show ?thesis by simp
  next
    fix k d u
    assume d: "store w k = Some d" and w1: "w1 = w\<lparr>store := (store w)(k \<mapsto> d ++ u)\<rparr>"
      and r: "mpesa_callback B X2 w1 request =
          (r1, w1\<lparr>store := (store w1)(k \<mapsto>
                 (d ++ u) ++ u(''callback_timestamp'' \<mapsto> SERVER_TIMESTAMP X2))\<rparr>)"
    from r m2 have r2: "r2 = r1"
      and w2: "store w2 = (store w1)(k \<mapsto>
                 (d ++ u) ++ u(''callback_timestamp'' \<mapsto> SERVER_TIMESTAMP X2))"
      by simp_all
    from w1 have s1: "store w1 k = Some (d ++ u)" by simp
    have "map_option (\<lambda>d. d f) (store w2 k') = map_option (\<lambda>d. d f) (store w1 k')"
      if f: "f \<noteq> ''callback_timestamp''" for k' f
    proof (cases "k' = k")
      case True
      with w2 s1 map_add_again [OF f, of d u "SERVER_TIMESTAMP X2"] show ?thesis by simp
    next
      case False
      with w2 show ?thesis by simp
    qed
    with r2 show ?thesis by blast
  qed
  then have r: "r2 = r1"
    and f: "\<And>k f. f \<noteq> ''callback_timestamp'' \<Longrightarrow>
          map_option (\<lambda>d. d f) (store w2 k) = map_option (\<lambda>d. d f) (store w1 k)"
    by blast+
  have "map_option (\<lambda>d. map d terminal_fields) (store w2 k) =
          map_option (\<lambda>d. map d terminal_fields) (store w1 k)" for k
  proof (cases "store w1 k")
    case None
    with f [of "''status''" k] show ?thesis by simp
  next
    case (Some d1)
    with f [of "''status''" k] obtain d2 where d2: "store w2 k = Some d2"
      by (cases "store w2 k") simp_all
    from Some d2 f [of _ k] have "d2 g = d1 g" if "g \<noteq> ''callback_timestamp''" for g
      using that by simp
    then have "map d2 terminal_fields = map d1 terminal_fields"
      by (simp add: terminal_fields_def)
    with Some d2 show ?thesis by simp
  qed
  with r f show ?thesis by blast
qed


lemma success_payload_record:
  "map_option (\<lambda>d. map d terminal_fields)
     (store (snd (mpesa_callback B X sample_world (Some success_payload))) ''ws_CO_1'') =
   Some [Some (PStr ''completed''), Some (PInt 0), Some (PStr ''desc''),
         Some (PFloat (Fin 100)), Some (PStr ''ABC123''), Some (PStr ''20240101120500''),
         Some (PStr ''254722000000''), Some (PBool True)]"
proof -
  let ?stk = "[(''CheckoutRequestID'', PStr ''ws_CO_1''), (''ResultCode'', PInt 0),
       (''ResultDesc'', PStr ''desc'')] @
      [(''CallbackMetadata'', PDict [(''Item'', PList success_metadata)])]"
  have "\<exists>u. transaction_update B X success_payload ?stk = Inr u"
    unfolding transaction_update_ok using success_payload_accepted(3) [of B] by simp
  then obtain u where u: "transaction_update B X success_payload ?stk = Inr u" ..
  from transaction_update_writable [OF u success_payload_stk] success_payload_accepted(2)
  have wr: "document_writable u" by simp
  have m: "mpesa_callback B X sample_world (Some success_payload) =
     (Inr \<lparr>ResultCode = 0, ResultDesc = ''Callback processed successfully''\<rparr>,
      sample_world\<lparr>store := (store sample_world)(''ws_CO_1'' \<mapsto> pending_record ++ u)\<rparr>)"
    by (rule callback_on_record [OF success_payload_stk _ _ success_payload_accepted(1) _ u wr])
       (simp_all add: dict_get_def sample_world_def)
  have z: "py_eq_int (dict_get ?stk ''ResultCode'' PNone) 0"
    by (simp add: dict_get_def py_eq_int_def)
  note b = transaction_update_base [OF u]
  note s = transaction_update_success(1) [OF u z]
  have f: "u (metadata_field n) =
      (case metadata_value n success_metadata of None \<Rightarrow> None | Some v \<Rightarrow> stored_form B n v)"
    if "n \<in> set metadata_names" for n
    using transaction_update_success(2) [OF u z that] by (simp add: success_metadata_items)
  from f [of "''Amount''"] f [of "''MpesaReceiptNumber''"] f [of "''TransactionDate''"]
    f [of "''PhoneNumber''"]
  have v: "u ''confirmed_amount'' = Some (PFloat (Fin 100))"
    "u ''mpesa_receipt_number'' = Some (PStr ''ABC123'')"
    "u ''transaction_date'' = Some (PStr ''20240101120500'')"
    "u ''confirmed_phone_number'' = Some (PStr ''254722000000'')"
    by (simp_all add: metadata_names_def field_simps success_metadata_values stored_form_examples)
  from b s v show ?thesis
    unfolding m by (simp add: terminal_fields_def map_add_field dict_get_def)
qed

theorem repeated_callback_idempotent_witness:
  "''status'' \<noteq> ''callback_timestamp'' \<and>
   map_option (\<lambda>d. map d terminal_fields)
     (store (snd (mpesa_callback sample_builtins later_outside
        (snd (mpesa_callback sample_builtins sample_outside sample_world (Some success_payload)))
        (Some success_payload))) ''ws_CO_1'') =
   Some [Some (PStr ''completed''), Some (PInt 0), Some (PStr ''desc''),
         Some (PFloat (Fin 100)), Some (PStr ''ABC123''), Some (PStr ''20240101120500''),
         Some (PStr ''254722000000''), Some (PBool True)] \<and>
   map_option (\<lambda>d. d ''status'')
     (store (snd (mpesa_callback sample_builtins later_outside
        (snd (mpesa_callback sample_builtins sample_outside sample_world (Some success_payload)))
        (Some success_payload))) ''ws_CO_1'') =
   map_option (\<lambda>d. d ''status'')
     (store (snd (mpesa_callback sample_builtins sample_outside sample_world
        (Some success_payload))) ''ws_CO_1'')"
proof -
  let ?m1 = "mpesa_callback sample_builtins sample_outside sample_world (Some success_payload)"
  let ?m2 = "mpesa_callback sample_builtins later_outside (snd ?m1) (Some success_payload)"
  have e1: "?m1 = (fst ?m1, snd ?m1)" and e2: "?m2 = (fst ?m2, snd ?m2)"
    by simp_all
  have h: "''status'' \<noteq> ''callback_timestamp''" by simp
  note t = repeated_callback_idempotent [OF e1 e2]
  have a: "map_option (\<lambda>d. map d terminal_fields) (store (snd ?m2) ''ws_CO_1'') =
          map_option (\<lambda>d. map d terminal_fields) (store (snd ?m1) ''ws_CO_1'')"
    by (rule t [THEN conjunct2, THEN conjunct1, THEN spec])
  have b: "map_option (\<lambda>d. d ''status'') (store (snd ?m2) ''ws_CO_1'') =
      map_option (\<lambda>d. d ''status'') (store (snd ?m1) ''ws_CO_1'')"
    by (rule t [THEN conjunct2, THEN conjunct2, THEN spec, THEN spec, THEN mp, OF h])
  have c: "map_option (\<lambda>d. map d terminal_fields) (store (snd ?m2) ''ws_CO_1'') =
      Some [Some (PStr ''completed''), Some (PInt 0), Some (PStr ''desc''),
         Some (PFloat (Fin 100)), Some (PStr ''ABC123''), Some (PStr ''20240101120500''),
         Some (PStr ''254722000000''), Some (PBool True)]"
    by (rule trans [OF a success_payload_record])
  show ?thesis
    by (rule conjI [OF h conjI [OF c b]])
qed

subsection \<open>The check-status handler\<close>

lemma query_status_int: "query_status (PInt n) = codeToStatus n"
  by (simp add: query_status_def codeToStatus_def py_eq_int_def)

text \<open>
  The chain of comparisons takes a code for a number: on the string "0" none of them
  holds and the status is failed.
\<close>

lemma query_status_string: "query_status (PStr s) = ''failed''"
  by (simp add: query_status_def py_eq_int_def)

lemma status_update_fields:
  "(d ++ status_update X result) ''query_result_code'' = Some (dict_get result ''ResultCode'' PNone)"
  "(d ++ status_update X result) ''query_result_description'' =
     Some (dict_get result ''ResultDesc'' PNone)"
  "(d ++ status_update X result) ''status'' =
     Some (PStr (query_status (dict_get result ''ResultCode'' PNone)))"
  "(d ++ status_update X result) ''last_queried'' = Some (SERVER_TIMESTAMP X)"
  by (simp_all add: status_update_def map_add_def)

lemma status_update_writable:
  "document_writable (status_update X result) =
     (storable (dict_get result ''ResultCode'' PNone) \<and>
      storable (dict_get result ''ResultDesc'' PNone))"
  by (simp add: document_writable_def written_fields_def status_update_def)

lemma check_status_stored:
  assumes "store w (checkout_request_id request) = Some d"
    and "valid_document_id (checkout_request_id request)"
    and "truthy (doc_get d ''callback_received'' (PBool False))"
  shows "check_transaction_status B C X w request =
     (Inr (stored_response (checkout_request_id request) d), w)"
  using assms
  by (simp add: check_transaction_status_def check_transaction_status_try_def document_ref_def
      Let_def)

lemma check_status_no_merchant:
  assumes "store w (checkout_request_id request) = Some d"
    and "valid_document_id (checkout_request_id request)"
    and "\<not> truthy (doc_get d ''callback_received'' (PBool False))"
    and "\<not> truthy (doc_get d ''merchant_request_id'' PNone)"
  shows "check_transaction_status B C X w request =
     (Inl (HTTPException 500 (''An unexpected error occurred: 400: '' @
         ''Merchant request ID not found for this transaction'')), w)"
  using assms
  by (simp add: check_transaction_status_def check_transaction_status_try_def document_ref_def
      query_gateway_def except_clauses_def str_exc_def str_nat_400 Let_def)

lemma check_status_queried:
  assumes d: "store w (checkout_request_id request) = Some d"
    and v: "valid_document_id (checkout_request_id request)"
    and c: "\<not> truthy (doc_get d ''callback_received'' (PBool False))"
    and m: "truthy (doc_get d ''merchant_request_id'' PNone)"
    and t: "get_access_token B C X w = (Inr tok, w1)"
    and p: "payload = PDict
               [(''BusinessShortCode'', PStr (BUSINESS_SHORT_CODE C)),
                (''Password'', PStr (b64encode B
                    (BUSINESS_SHORT_CODE C @ opt_str (PASS_KEY C) @ now X))),
                (''Timestamp'', PStr (now X)),
                (''CheckoutRequestID'', PStr (checkout_request_id request))]"
    and h: "hs = [(''Authorization'', ''Bearer '' @ py_str B tok),
                  (''Content-Type'', ''application/json'')]"
    and q: "requests_post X (QUERY_URL C) payload hs = Inr (PDict result)"
    and wr: "document_writable (status_update X result)"
  shows "check_transaction_status B C X w request =
     (Inr \<lparr>success = True,
           message = ''Transaction status retrieved from M-Pesa API'',
           data = Some
             [(''checkout_request_id'', PStr (checkout_request_id request)),
              (''status'', PStr (query_status (dict_get result ''ResultCode'' PNone))),
              (''result_code'', dict_get result ''ResultCode'' PNone),
              (''result_description'', dict_get result ''ResultDesc'' PNone),
              (''amount'', doc_get d ''amount'' PNone),
              (''phone_number'', doc_get d ''phone_number'' PNone)]\<rparr>,
      w1\<lparr>calls := calls w1 @ [Post (QUERY_URL C) payload hs],
         store := (store w)(checkout_request_id request \<mapsto> d ++ status_update X result)\<rparr>)"
proof -
  from get_access_token_store [OF t] have s1: "store w1 = store w" .
  have pw: "post_w X w1 (QUERY_URL C) payload hs =
      (Inr (PDict result), w1\<lparr>calls := calls w1 @ [Post (QUERY_URL C) payload hs]\<rparr>)"
    by (simp add: post_w_def q)
  have "query_gateway B C X w (checkout_request_id request) d =
      apply_query_result X (w1\<lparr>calls := calls w1 @ [Post (QUERY_URL C) payload hs]\<rparr>)
        (checkout_request_id request) d result"
    using m t pw unfolding p h by (simp add: query_gateway_def Let_def)
  with d v c s1 wr show ?thesis
    by (simp add: check_transaction_status_def check_transaction_status_try_def
        apply_query_result_def document_ref_def document_update_def Let_def)
qed

text \<open>
  Claim C2, amended. For every check-status request on an existing record: if the
  record's \<open>callback_received\<close> flag is true, the handler returns the stored status and
  leaves the world as it was, so no call goes upstream. Otherwise, if the record has no
  merchant request id, the handler answers with an error, and again the world is as it
  was: nothing is sent and nothing is persisted. Otherwise, when the access token is
  obtained and the gateway answers the query with a JSON object whose result code is an
  integer \<open>n\<close> of at most 64 bits and whose description the store's client can encode,
  the handler sends that one query, answers with the status \<open>codeToStatus n\<close> (0
  completed, 1032 and 1031 cancelled, 1037 expired, 1 insufficient_funds, any other
  failed) and merges \<open>query_result_code\<close>, \<open>query_result_description\<close>, that status
  and \<open>last_queried\<close> into the record.
\<close>

theorem check_status_poll_rule:
  assumes d: "store w (checkout_request_id request) = Some d"
    and v: "valid_document_id (checkout_request_id request)"
  shows "(truthy (doc_get d ''callback_received'' (PBool False)) \<longrightarrow>
       check_transaction_status B C X w request =
         (Inr (stored_response (checkout_request_id request) d), w) \<and>
       map_option (\<lambda>l. map_of l ''status'')
           (data (stored_response (checkout_request_id request) d)) =
         Some (Some (doc_get d ''status'' PNone))) \<and>
     (\<not> truthy (doc_get d ''callback_received'' (PBool False)) \<and>
      \<not> truthy (doc_get d ''merchant_request_id'' PNone) \<longrightarrow>
       check_transaction_status B C X w request =
         (Inl (HTTPException 500 (''An unexpected error occurred: 400: '' @
             ''Merchant request ID not found for this transaction'')), w)) \<and>
     (\<not> truthy (doc_get d ''callback_received'' (PBool False)) \<and>
      truthy (doc_get d ''merchant_request_id'' PNone) \<and>
      get_access_token B C X w = (Inr tok, w1) \<and>
      payload = PDict
               [(''BusinessShortCode'', PStr (BUSINESS_SHORT_CODE C)),
                (''Password'', PStr (b64encode B
                    (BUSINESS_SHORT_CODE C @ opt_str (PASS_KEY C) @ now X))),
                (''Timestamp'', PStr (now X)),
                (''CheckoutRequestID'', PStr (checkout_request_id request))] \<and>
      hs = [(''Authorization'', ''Bearer '' @ py_str B tok),
            (''Content-Type'', ''application/json'')] \<and>
      requests_post X (QUERY_URL C) payload hs = Inr (PDict result) \<and>
      dict_get result ''ResultCode'' PNone = PInt n \<and> - (2 ^ 63) \<le> n \<and> n < 2 ^ 63 \<and>
      storable (dict_get result ''ResultDesc'' PNone) \<longrightarrow>
       check_transaction_status B C X w request =
         (Inr \<lparr>success = True,
               message = ''Transaction status retrieved from M-Pesa API'',
               data = Some
                 [(''checkout_request_id'', PStr (checkout_request_id request)),
                  (''status'', PStr (codeToStatus n)),
                  (''result_code'', PInt n),
                  (''result_description'', dict_get result ''ResultDesc'' PNone),
                  (''amount'', doc_get d ''amount'' PNone),
                  (''phone_number'', doc_get d ''phone_number'' PNone)]\<rparr>,
          w1\<lparr>calls := calls w1 @ [Post (QUERY_URL C) payload hs],
             store := (store w)(checkout_request_id request \<mapsto>
                        d ++ status_update X result)\<rparr>) \<and>
       (d ++ status_update X result) ''query_result_code'' = Some (PInt n) \<and>
       (d ++ status_update X result) ''query_result_description'' =
         Some (dict_get result ''ResultDesc'' PNone) \<and>
       (d ++ status_update X result) ''status'' = Some (PStr (codeToStatus n)) \<and>
       (d ++ status_update X result) ''last_queried'' = Some (SERVER_TIMESTAMP X))"
proof (intro conjI impI)
  assume "truthy (doc_get d ''callback_received'' (PBool False))"
  from check_status_stored [OF d v this]
  show "check_transaction_status B C X w request =
         (Inr (stored_response (checkout_request_id request) d), w)" .
next
  show "map_option (\<lambda>l. map_of l ''status'')
           (data (stored_response (checkout_request_id request) d)) =
         Some (Some (doc_get d ''status'' PNone))"
    by (simp add: stored_response_def)
next
  assume "\<not> truthy (doc_get d ''callback_received'' (PBool False)) \<and>
      \<not> truthy (doc_get d ''merchant_request_id'' PNone)"
  then show "check_transaction_status B C X w request =
         (Inl (HTTPException 500 (''An unexpected error occurred: 400: '' @
             ''Merchant request ID not found for this transaction'')), w)"
    using check_status_no_merchant [OF d v] by blast
next
  assume a: "\<not> truthy (doc_get d ''callback_received'' (PBool False)) \<and>
      truthy (doc_get d ''merchant_request_id'' PNone) \<and>
      get_access_token B C X w = (Inr tok, w1) \<and>
      payload = PDict
               [(''BusinessShortCode'', PStr (BUSINESS_SHORT_CODE C)),
                (''Password'', PStr (b64encode B
                    (BUSINESS_SHORT_CODE C @ opt_str (PASS_KEY C) @ now X))),
                (''Timestamp'', PStr (now X)),
                (''CheckoutRequestID'', PStr (checkout_request_id request))] \<and>
      hs = [(''Authorization'', ''Bearer '' @ py_str B tok),
            (''Content-Type'', ''application/json'')] \<and>
      requests_post X (QUERY_URL C) payload hs = Inr (PDict result) \<and>
      dict_get result ''ResultCode'' PNone = PInt n \<and> - (2 ^ 63) \<le> n \<and> n < 2 ^ 63 \<and>
      storable (dict_get result ''ResultDesc'' PNone)"
  then have c: "\<not> truthy (doc_get d ''callback_received'' (PBool False))"
    and m: "truthy (doc_get d ''merchant_request_id'' PNone)"
    and t: "get_access_token B C X w = (Inr tok, w1)"
    and p: "payload = PDict
               [(''BusinessShortCode'', PStr (BUSINESS_SHORT_CODE C)),
                (''Password'', PStr (b64encode B
                    (BUSINESS_SHORT_CODE C @ opt_str (PASS_KEY C) @ now X))),
                (''Timestamp'', PStr (now X)),
                (''CheckoutRequestID'', PStr (checkout_request_id request))]"
    and h: "hs = [(''Authorization'', ''Bearer '' @ py_str B tok),
            (''Content-Type'', ''application/json'')]"
    and q: "requests_post X (QUERY_URL C) payload hs = Inr (PDict result)"
    and rc: "dict_get result ''ResultCode'' PNone = PInt n"
    and n: "- (2 ^ 63) \<le> n" "n < 2 ^ 63"
    and ds: "storable (dict_get result ''ResultDesc'' PNone)"
    by blast+
  from rc n ds have wr: "document_writable (status_update X result)"
    by (simp add: status_update_writable)
  from check_status_queried [OF d v c m t p h q wr]
  show "check_transaction_status B C X w request =
         (Inr \<lparr>success = True,
               message = ''Transaction status retrieved from M-Pesa API'',
               data = Some
                 [(''checkout_request_id'', PStr (checkout_request_id request)),
                  (''status'', PStr (codeToStatus n)),
                  (''result_code'', PInt n),
                  (''result_description'', dict_get result ''ResultDesc'' PNone),
                  (''amount'', doc_get d ''amount'' PNone),
                  (''phone_number'', doc_get d ''phone_number'' PNone)]\<rparr>,
          w1\<lparr>calls := calls w1 @ [Post (QUERY_URL C) payload hs],
             store := (store w)(checkout_request_id request \<mapsto>
                        d ++ status_update X result)\<rparr>)"
    by (simp add: rc query_status_int)
  from status_update_fields [of d X result]
  show "(d ++ status_update X result) ''query_result_code'' = Some (PInt n)"
    "(d ++ status_update X result) ''query_result_description'' =
         Some (dict_get result ''ResultDesc'' PNone)"
    "(d ++ status_update X result) ''status'' = Some (PStr (codeToStatus n))"
    "(d ++ status_update X result) ''last_queried'' = Some (SERVER_TIMESTAMP X)"
    by (simp_all add: rc query_status_int)
qed

lemma trunc_rat_100: "trunc_rat 100 = 100"
  by (simp add: trunc_rat_def)

lemma orphan_initiate:
  "fst (initiate_stk_push sample_builtins sample_config bare_outside empty_world sample_request) =
     Inr \<lparr>success = True,
          message = ''STK push request sent successfully'',
          data = Some
            [(''checkout_request_id'', PStr ''ws_CO_3''),
             (''merchant_request_id'', PNone),
             (''phone_number'', PStr ''254722000000''),
             (''amount'', PInt 100)]\<rparr>"
  "store orphan_world ''ws_CO_3'' = Some orphan_record"
  unfolding orphan_world_def orphan_record_def
  by (simp_all add: initiate_stk_push_def initiate_stk_push_try_def py_int_of_float_def
      trunc_rat_100 format_phone_number_example str_isdigit_def isdigit_def send_stk_push_def
      generate_password_def get_access_token_def get_access_token_try_def get_w_def post_w_def
      py_get_def truthy_def py_eq_str_def dict_get_def store_transaction_def document_ref_def
      document_set_def document_writable_def written_fields_def transaction_data_def opt_val_def
      valid_document_id_def opt_falsy_def sample_config_def sample_outside_def bare_outside_def
      bare_result_def sample_request_def empty_world_def Let_def)

lemma orphan_record_fields:
  "doc_get orphan_record ''callback_received'' (PBool False) = PBool False"
  "doc_get orphan_record ''merchant_request_id'' PNone = PNone"
  by (simp_all add: orphan_record_def transaction_data_def doc_get_def dict_get_def
      bare_result_def)

text \<open>
  The claim as first stated, that a record without the flag always leads to a query,
  fails. The initiate handler stores what the gateway answers to the push; when that
  answer names no merchant request id, the record holds \<^verbatim>\<open>None\<close> for it, and on a
  check-status request for this record the handler's guard raises before any call is
  made: the answer is an error and nothing is sent or stored.
\<close>

theorem missing_merchant_id_counterexample:
  "fst (initiate_stk_push sample_builtins sample_config bare_outside empty_world sample_request) =
     Inr \<lparr>success = True,
          message = ''STK push request sent successfully'',
          data = Some
            [(''checkout_request_id'', PStr ''ws_CO_3''),
             (''merchant_request_id'', PNone),
             (''phone_number'', PStr ''254722000000''),
             (''amount'', PInt 100)]\<rparr> \<and>
   orphan_world =
     snd (initiate_stk_push sample_builtins sample_config bare_outside empty_world sample_request) \<and>
   store orphan_world ''ws_CO_3'' = Some orphan_record \<and>
   doc_get orphan_record ''callback_received'' (PBool False) = PBool False \<and>
   check_transaction_status sample_builtins sample_config bare_outside orphan_world
       \<lparr>checkout_request_id = ''ws_CO_3''\<rparr> =
     (Inl (HTTPException 500 (''An unexpected error occurred: 400: '' @
         ''Merchant request ID not found for this transaction'')), orphan_world)"
proof -
  have "check_transaction_status sample_builtins sample_config bare_outside orphan_world
       \<lparr>checkout_request_id = ''ws_CO_3''\<rparr> =
     (Inl (HTTPException 500 (''An unexpected error occurred: 400: '' @
         ''Merchant request ID not found for this transaction'')), orphan_world)"
    by (rule check_status_no_merchant [where d = orphan_record])
       (simp_all add: orphan_initiate orphan_record_fields valid_document_id_def truthy_def)
  with orphan_initiate orphan_record_fields(1) show ?thesis
    by (simp add: orphan_world_def)
qed

lemma sample_access_token:
  "get_access_token sample_builtins sample_config sample_outside sample_world =
     (Inr (PStr ''tok''),
      sample_world\<lparr>calls := calls sample_world @
        [Get (AUTH_URL sample_config) [(''Authorization'', ''Basic key:secret'')]]\<rparr>)"
  by (simp add: get_access_token_def get_access_token_try_def get_w_def opt_falsy_def opt_str_def
      py_get_def truthy_def sample_builtins_def sample_config_def sample_outside_def Let_def)

theorem check_status_poll_rule_witness:
  "check_transaction_status sample_builtins sample_config sample_outside completed_world
       \<lparr>checkout_request_id = ''ws_CO_1''\<rparr> =
     (Inr (stored_response ''ws_CO_1'' completed_record), completed_world) \<and>
   check_transaction_status sample_builtins sample_config bare_outside orphan_world
       \<lparr>checkout_request_id = ''ws_CO_3''\<rparr> =
     (Inl (HTTPException 500 (''An unexpected error occurred: 400: '' @
         ''Merchant request ID not found for this transaction'')), orphan_world) \<and>
   fst (check_transaction_status sample_builtins sample_config sample_outside sample_world
        \<lparr>checkout_request_id = ''ws_CO_1''\<rparr>) =
     Inr \<lparr>success = True,
          message = ''Transaction status retrieved from M-Pesa API'',
          data = Some
            [(''checkout_request_id'', PStr ''ws_CO_1''),
             (''status'', PStr ''cancelled''),
             (''result_code'', PInt 1032),
             (''result_description'', PStr ''Request cancelled by user''),
             (''amount'', PInt 100),
             (''phone_number'', PStr ''254722000000'')]\<rparr> \<and>
   map_option (\<lambda>d. d ''status'')
     (store (snd (check_transaction_status sample_builtins sample_config sample_outside
        sample_world \<lparr>checkout_request_id = ''ws_CO_1''\<rparr>)) ''ws_CO_1'') =
     Some (Some (PStr ''cancelled'')) \<and>
   length (calls (snd (check_transaction_status sample_builtins sample_config sample_outside
        sample_world \<lparr>checkout_request_id = ''ws_CO_1''\<rparr>))) = 2"
proof -
  let ?r = "\<lparr>checkout_request_id = ''ws_CO_1''\<rparr>"
  let ?r3 = "\<lparr>checkout_request_id = ''ws_CO_3''\<rparr>"
  let ?w1 = "sample_world\<lparr>calls := calls sample_world @
        [Get (AUTH_URL sample_config) [(''Authorization'', ''Basic key:secret'')]]\<rparr>"
  let ?payload = "PDict
               [(''BusinessShortCode'', PStr (BUSINESS_SHORT_CODE sample_config)),
                (''Password'', PStr (b64encode sample_builtins
                    (BUSINESS_SHORT_CODE sample_config @ opt_str (PASS_KEY sample_config) @
                     now sample_outside))),
                (''Timestamp'', PStr (now sample_outside)),
                (''CheckoutRequestID'', PStr (checkout_request_id ?r))]"
  let ?hs = "[(''Authorization'', ''Bearer '' @ py_str sample_builtins (PStr ''tok'')),
            (''Content-Type'', ''application/json'')]"
  let ?result = "[(''ResponseCode'', PStr ''0''),
                    (''CheckoutRequestID'', PStr ''ws_CO_2''),
                    (''MerchantRequestID'', PStr ''m-2''),
                    (''ResultCode'', PInt 1032),
                    (''ResultDesc'', PStr ''Request cancelled by user'')]"
  have d1: "store completed_world (checkout_request_id ?r) = Some completed_record"
    by (simp add: completed_world_def)
  have v1: "valid_document_id (checkout_request_id ?r)"
    by (simp add: valid_document_id_def)
  have f1: "truthy (doc_get completed_record ''callback_received'' (PBool False))"
    by (simp add: completed_record_def doc_get_def truthy_def)
  from check_status_poll_rule [OF d1 v1, THEN conjunct1, THEN mp, OF f1, THEN conjunct1]
  have a: "check_transaction_status sample_builtins sample_config sample_outside completed_world ?r =
     (Inr (stored_response ''ws_CO_1'' completed_record), completed_world)"
    by simp
  have d3: "store orphan_world (checkout_request_id ?r3) = Some orphan_record"
    by (simp add: orphan_initiate)
  have v3: "valid_document_id (checkout_request_id ?r3)"
    by (simp add: valid_document_id_def)
  have f3: "\<not> truthy (doc_get orphan_record ''callback_received'' (PBool False)) \<and>
      \<not> truthy (doc_get orphan_record ''merchant_request_id'' PNone)"
    by (simp add: orphan_record_fields truthy_def)
  from check_status_poll_rule [OF d3 v3, THEN conjunct2, THEN conjunct1, THEN mp, OF f3]
  have o: "check_transaction_status sample_builtins sample_config bare_outside orphan_world ?r3 =
     (Inl (HTTPException 500 (''An unexpected error occurred: 400: '' @
         ''Merchant request ID not found for this transaction'')), orphan_world)" .
  have d2: "store sample_world (checkout_request_id ?r) = Some pending_record"
    by (simp add: sample_world_def)
  have h2: "\<not> truthy (doc_get pending_record ''callback_received'' (PBool False)) \<and>
      truthy (doc_get pending_record ''merchant_request_id'' PNone) \<and>
      get_access_token sample_builtins sample_config sample_outside sample_world =
        (Inr (PStr ''tok''), ?w1) \<and>
      ?payload = ?payload \<and> ?hs = ?hs \<and>
      requests_post sample_outside (QUERY_URL sample_config) ?payload ?hs = Inr (PDict ?result) \<and>
      dict_get ?result ''ResultCode'' PNone = PInt 1032 \<and> - (2 ^ 63) \<le> (1032 :: int) \<and>
      (1032 :: int) < 2 ^ 63 \<and> storable (dict_get ?result ''ResultDesc'' PNone)"
    by (simp add: pending_record_def doc_get_def truthy_def sample_access_token dict_get_def)
       (simp add: sample_outside_def)
  from check_status_poll_rule [OF d2 v1, THEN conjunct2, THEN conjunct2, THEN mp, OF h2,
      THEN conjunct1]
  have b: "check_transaction_status sample_builtins sample_config sample_outside sample_world ?r =
      (Inr \<lparr>success = True,
          message = ''Transaction status retrieved from M-Pesa API'',
          data = Some
            [(''checkout_request_id'', PStr ''ws_CO_1''),
             (''status'', PStr ''cancelled''),
             (''result_code'', PInt 1032),
             (''result_description'', PStr ''Request cancelled by user''),
             (''amount'', PInt 100),
             (''phone_number'', PStr ''254722000000'')]\<rparr>,
      ?w1\<lparr>calls := calls ?w1 @ [Post (QUERY_URL sample_config) ?payload ?hs],
             store := (store sample_world)(checkout_request_id ?r \<mapsto>
                        pending_record ++ status_update sample_outside ?result)\<rparr>)"
    by (simp add: codeToStatus_def dict_get_def doc_get_def pending_record_def)
  have "map_option (\<lambda>d. d ''status'')
     (store (snd (check_transaction_status sample_builtins sample_config sample_outside
        sample_world ?r)) ''ws_CO_1'') = Some (Some (PStr ''cancelled''))"
    unfolding b
    by (simp add: status_update_def map_add_def dict_get_def query_status_def py_eq_int_def)
  moreover have "length (calls (snd (check_transaction_status sample_builtins sample_config
        sample_outside sample_world ?r))) = 2"
    unfolding b by (simp add: sample_world_def)
  ultimately show ?thesis using a o b by simp
qed

end
